theory Spec2Isabelle
  imports Main "HOL-Library.Sublist" "HOL-Library.AList"
begin

section \<open>Python values, exceptions and results\<close>

text \<open>
  Exceptions are values. Each constructor stands for a class of the Python hierarchy and
  carries the text that \<^verbatim>\<open>str(exc)\<close> returns. \<open>OSError\<close> covers its subclasses
  (\<^verbatim>\<open>FileNotFoundError\<close>, \<^verbatim>\<open>PermissionError\<close>), \<open>ValueError\<close> covers
  \<^verbatim>\<open>json.JSONDecodeError\<close>, \<open>OtherException\<close> is any other subclass of
  \<^verbatim>\<open>Exception\<close>, and \<open>BaseExceptionOnly\<close> is an exception that derives from
  \<^verbatim>\<open>BaseException\<close> but not from \<^verbatim>\<open>Exception\<close> (\<^verbatim>\<open>SystemExit\<close>,
  \<^verbatim>\<open>KeyboardInterrupt\<close>).
\<close>

datatype exn =
    OSError string
  | TypeError string
  | ValueError string
  | KeyError string
  | OtherException string
  | BaseExceptionOnly string

fun exn_str :: "exn \<Rightarrow> string" where
  "exn_str (OSError m) = m"
| "exn_str (TypeError m) = m"
| "exn_str (ValueError m) = m"
| "exn_str (KeyError m) = m"
| "exn_str (OtherException m) = m"
| "exn_str (BaseExceptionOnly m) = m"

text \<open>What \<^verbatim>\<open>except Exception\<close> and \<^verbatim>\<open>except OSError\<close> catch.\<close>

fun is_Exception :: "exn \<Rightarrow> bool" where
  "is_Exception (BaseExceptionOnly m) = False"
| "is_Exception e = True"

fun is_OSError :: "exn \<Rightarrow> bool" where
  "is_OSError (OSError m) = True"
| "is_OSError e = False"

text \<open>
  The values that travel through audit payloads, skill arguments and skill results.
  A \<^verbatim>\<open>dict\<close> keeps its insertion order and has string keys (the source annotates
  payloads as \<^verbatim>\<open>dict[str, Any]\<close>). A \<^verbatim>\<open>float\<close> is given by the text that
  \<^verbatim>\<open>float.__repr__\<close> returns for it (\<^verbatim>\<open>0.5\<close>, \<^verbatim>\<open>1e+22\<close>, \<^verbatim>\<open>nan\<close>, \<^verbatim>\<open>inf\<close>, \<^verbatim>\<open>-inf\<close>), which
  names it. \<open>PObj\<close> is any other object, known by the name of its class (a \<^verbatim>\<open>set\<close>,
  \<^verbatim>\<open>bytes\<close>, a file handle). A value of this type is a finite tree: a container that
  holds itself, and a nesting deeper than the interpreter can recurse, are outside it.
\<close>

datatype pyval =
    PNone
  | PBool bool
  | PInt int
  | PFloat string
  | PStr string
  | PList "pyval list"
  | PTuple "pyval list"
  | PDict "(string \<times> pyval) list"
  | PObj string

type_synonym pydict = "(string \<times> pyval) list"

text \<open>\<^verbatim>\<open>d[k] = v\<close> on an insertion-ordered dictionary.\<close>

fun dict_set :: "pydict \<Rightarrow> string \<Rightarrow> pyval \<Rightarrow> pydict" where
  "dict_set [] k v = [(k, v)]"
| "dict_set ((k', v') # kvs) k v =
     (if k' = k then (k, v) # kvs else (k', v') # dict_set kvs k v)"

section \<open>models.py\<close>

record PermissionConfig =
  tools_enabled :: bool
  file_read_allowlist :: "string list"
  file_write_allowlist :: "string list"
  terminal_enabled :: bool
  terminal_allowlist :: "string list"
  skills_enabled :: "string list"
  require_approval :: bool

record ApprovalDecision =
  allowed :: bool
  reason :: string
  scope :: string
  requires_approval :: bool

record ToolResult =
  success :: bool
  "output" :: "string option"
  error :: "string option"
  metadata :: pydict

text \<open>\<^verbatim>\<open>decision.model_dump()\<close>: the fields of the decision as a dictionary.\<close>

definition model_dump :: "ApprovalDecision \<Rightarrow> pyval" where
  "model_dump d =
     PDict [(''allowed'', PBool (allowed d)), (''reason'', PStr (reason d)),
            (''scope'', PStr (ApprovalDecision.scope d)), (''requires_approval'', PBool (requires_approval d))]"

section \<open>policies.py\<close>

text \<open>
  A \<^verbatim>\<open>datetime\<close> is either aware of its time zone, and then stands for an instant, given
  here by its position on the UTC time line in microseconds, or naive, and then holds a
  wall-clock reading without a zone. \<^verbatim>\<open>datetime.now(tz=timezone.utc)\<close> is aware: it is the
  parameter \<open>now\<close>, an instant, of every function that reads the clock. An expiry comes
  from the caller of \<^verbatim>\<open>add\<close> and can be of either kind.
\<close>

datatype datetime = Aware int | Naive int

text \<open>
  \<^verbatim>\<open>expires_at < now\<close> for the aware \<open>now\<close>: two aware values compare as instants, and
  comparing a naive value with an aware one raises \<^verbatim>\<open>TypeError\<close>.
\<close>

definition cannot_compare :: exn where
  "cannot_compare =
     TypeError (''can'' @ [CHR 0x27] @ ''t compare offset-naive and offset-aware datetimes'')"

fun expired_before :: "datetime \<Rightarrow> int \<Rightarrow> exn + bool" where
  "expired_before (Aware e) now = Inr (e < now)"
| "expired_before (Naive e) now = Inl cannot_compare"

record ApprovalRecord =
  scope :: string
  expires_at :: "datetime option"

record ApprovalStore =
  records :: "ApprovalRecord list"

definition add :: "ApprovalStore \<Rightarrow> string \<Rightarrow> datetime option \<Rightarrow> ApprovalStore" where
  "add store s e = store\<lparr>records := records store @ [\<lparr>scope = s, expires_at = e\<rparr>]\<rparr>"

text \<open>
  The loop of \<^verbatim>\<open>ApprovalStore.is_approved\<close> over \<^verbatim>\<open>self._records\<close>: a record of another
  scope is skipped, a record that has an expiry before \<open>now\<close> is skipped, the first
  record that is left returns \<open>True\<close>. The comparison is only made for a record of the
  scope asked for that has an expiry, and what it raises leaves the function.
\<close>

fun is_approved_loop :: "int \<Rightarrow> ApprovalRecord list \<Rightarrow> string \<Rightarrow> exn + bool" where
  "is_approved_loop now [] s = Inr False"
| "is_approved_loop now (r # rs) s =
     (if scope r \<noteq> s then is_approved_loop now rs s
      else
        (case expires_at r of
           None \<Rightarrow> Inr True
         | Some e \<Rightarrow>
             (case expired_before e now of
                Inl exc \<Rightarrow> Inl exc
              | Inr True \<Rightarrow> is_approved_loop now rs s
              | Inr False \<Rightarrow> Inr True)))"

definition is_approved :: "int \<Rightarrow> ApprovalStore \<Rightarrow> string \<Rightarrow> exn + bool" where
  "is_approved now store s = is_approved_loop now (records store) s"

record PolicyEngine =
  config :: PermissionConfig
  approvals :: ApprovalStore

text \<open>
  A resolved path is the tuple of its parts (\<^verbatim>\<open>Path.parts\<close>: the root, then one entry per
  component). \<^verbatim>\<open>Path(p).resolve()\<close> depends on the working directory and the symbolic
  links of the host, and it raises for a path the host cannot resolve (\<^verbatim>\<open>ValueError\<close> for
  a NUL character, \<^verbatim>\<open>RuntimeError\<close> for a loop of symbolic links), so the resolver is a
  parameter \<open>resolve\<close> of the path checks that returns the parts or the exception.
  \<^verbatim>\<open>a.is_relative_to(b)\<close> compares parts: \<open>b\<close> is \<open>a\<close> or one of its parents.
\<close>

type_synonym resolved_path = "string list"

definition is_relative_to :: "resolved_path \<Rightarrow> resolved_path \<Rightarrow> bool" where
  "is_relative_to a b = prefix b a"

text \<open>
  Each check returns its decision, or the exception that left it: there is no handler in
  \<^verbatim>\<open>policies.py\<close>.
\<close>

definition check_terminal :: "int \<Rightarrow> PolicyEngine \<Rightarrow> string \<Rightarrow> exn + ApprovalDecision" where
  "check_terminal now self command =
     (if \<not> tools_enabled (config self) \<or> \<not> terminal_enabled (config self) then
        Inr \<lparr>allowed = False, reason = ''Terminal access disabled'',
             scope = ''terminal:'' @ command, requires_approval = True\<rparr>
      else if command \<in> set (terminal_allowlist (config self)) then
        Inr \<lparr>allowed = True, reason = ''Allowlisted command'',
             scope = ''terminal:'' @ command, requires_approval = False\<rparr>
      else
        (case is_approved now (approvals self) (''terminal:'' @ command) of
           Inl exc \<Rightarrow> Inl exc
         | Inr True \<Rightarrow>
             Inr \<lparr>allowed = True, reason = ''Approved command'',
                  scope = ''terminal:'' @ command, requires_approval = False\<rparr>
         | Inr False \<Rightarrow>
             Inr \<lparr>allowed = False, reason = ''Command not allowlisted'',
                  scope = ''terminal:'' @ command, requires_approval = True\<rparr>))"

definition check_skill :: "int \<Rightarrow> PolicyEngine \<Rightarrow> string \<Rightarrow> exn + ApprovalDecision" where
  "check_skill now self skill_name =
     (if \<not> tools_enabled (config self) then
        Inr \<lparr>allowed = False, reason = ''Tools disabled'',
             scope = ''skill:'' @ skill_name, requires_approval = True\<rparr>
      else if skill_name \<in> set (skills_enabled (config self)) then
        Inr \<lparr>allowed = True, reason = ''Skill enabled'',
             scope = ''skill:'' @ skill_name, requires_approval = False\<rparr>
      else
        (case is_approved now (approvals self) (''skill:'' @ skill_name) of
           Inl exc \<Rightarrow> Inl exc
         | Inr True \<Rightarrow>
             Inr \<lparr>allowed = True, reason = ''Skill approved'',
                  scope = ''skill:'' @ skill_name, requires_approval = False\<rparr>
         | Inr False \<Rightarrow>
             Inr \<lparr>allowed = False, reason = ''Skill not enabled'',
                  scope = ''skill:'' @ skill_name, requires_approval = True\<rparr>))"

text \<open>
  The loop of \<^verbatim>\<open>_check_path\<close> over the allowlist, which resolves one entry after the
  other: \<open>Inr True\<close> when it returns the allowlisted decision at some entry, \<open>Inr False\<close>
  when it runs to the end, and the exception of the first entry that does not resolve
  when no entry before it matched.
\<close>

fun allowlist_loop ::
  "(string \<Rightarrow> exn + resolved_path) \<Rightarrow> resolved_path \<Rightarrow> string list \<Rightarrow> exn + bool" where
  "allowlist_loop resolve resolved [] = Inr False"
| "allowlist_loop resolve resolved (entry # entries) =
     (case resolve entry of
        Inl exc \<Rightarrow> Inl exc
      | Inr p \<Rightarrow>
          if is_relative_to resolved p then Inr True
          else allowlist_loop resolve resolved entries)"

definition check_path ::
  "(string \<Rightarrow> exn + resolved_path) \<Rightarrow> int \<Rightarrow> PolicyEngine \<Rightarrow> string \<Rightarrow> string list \<Rightarrow> string
    \<Rightarrow> exn + ApprovalDecision" where
  "check_path resolve now self path allowlist scope_prefix =
     (if \<not> tools_enabled (config self) then
        Inr \<lparr>allowed = False, reason = ''Tools disabled'',
             scope = scope_prefix @ '':'' @ path, requires_approval = True\<rparr>
      else
        (case resolve path of
           Inl exc \<Rightarrow> Inl exc
         | Inr resolved \<Rightarrow>
             (case allowlist_loop resolve resolved allowlist of
                Inl exc \<Rightarrow> Inl exc
              | Inr True \<Rightarrow>
                  Inr \<lparr>allowed = True, reason = ''Allowlisted path'',
                       scope = scope_prefix @ '':'' @ path, requires_approval = False\<rparr>
              | Inr False \<Rightarrow>
                  (case is_approved now (approvals self) (scope_prefix @ '':'' @ path) of
                     Inl exc \<Rightarrow> Inl exc
                   | Inr True \<Rightarrow>
                       Inr \<lparr>allowed = True, reason = ''Approved path'',
                            scope = scope_prefix @ '':'' @ path, requires_approval = False\<rparr>
                   | Inr False \<Rightarrow>
                       Inr \<lparr>allowed = False, reason = ''Path not allowlisted'',
                            scope = scope_prefix @ '':'' @ path, requires_approval = True\<rparr>))))"

definition check_file_read ::
  "(string \<Rightarrow> exn + resolved_path) \<Rightarrow> int \<Rightarrow> PolicyEngine \<Rightarrow> string \<Rightarrow> exn + ApprovalDecision" where
  "check_file_read resolve now self path =
     check_path resolve now self path (file_read_allowlist (config self)) ''file_read''"

definition check_file_write ::
  "(string \<Rightarrow> exn + resolved_path) \<Rightarrow> int \<Rightarrow> PolicyEngine \<Rightarrow> string \<Rightarrow> exn + ApprovalDecision" where
  "check_file_write resolve now self path =
     check_path resolve now self path (file_write_allowlist (config self)) ''file_write''"

section \<open>The host: operating system, interpreter and libraries\<close>

text \<open>
  An operation with effects takes the state \<open>'w\<close> of the host (files, processes, clock)
  and returns either the exception it raises or its result, with the state it leaves.
\<close>

type_synonym ('a, 'w) io = "'w \<Rightarrow> (exn + 'a) \<times> 'w"

definition io_return :: "'a \<Rightarrow> ('a, 'w) io" where
  "io_return x = (\<lambda>w. (Inr x, w))"

definition io_raise :: "exn \<Rightarrow> ('a, 'w) io" where
  "io_raise e = (\<lambda>w. (Inl e, w))"

text \<open>The result of a call without effects: returned, or raised.\<close>

definition io_lift :: "exn + 'a \<Rightarrow> ('a, 'w) io" where
  "io_lift r = (\<lambda>w. (r, w))"

text \<open>One statement after another: an exception of the first skips the rest.\<close>

definition io_bind :: "('a, 'w) io \<Rightarrow> ('a \<Rightarrow> ('b, 'w) io) \<Rightarrow> ('b, 'w) io" where
  "io_bind m f = (\<lambda>w. case m w of (Inl e, w') \<Rightarrow> (Inl e, w') | (Inr x, w') \<Rightarrow> f x w')"

text \<open>
  \<^verbatim>\<open>try: m except C as exc: h(exc)\<close>, where \<open>catches\<close> says which exceptions are
  instances of the class \<open>C\<close>; any other exception propagates.
\<close>

definition io_try :: "(exn \<Rightarrow> bool) \<Rightarrow> ('a, 'w) io \<Rightarrow> (exn \<Rightarrow> ('a, 'w) io) \<Rightarrow> ('a, 'w) io" where
  "io_try catches m h =
     (\<lambda>w. case m w of
        (Inl e, w') \<Rightarrow> if catches e then h e w' else (Inl e, w')
      | (Inr x, w') \<Rightarrow> (Inr x, w'))"

record CompletedProcess =
  returncode :: int
  stdout :: string
  stderr :: string

text \<open>
  The calls the source makes into \<^verbatim>\<open>pathlib\<close>, \<^verbatim>\<open>subprocess\<close>, \<^verbatim>\<open>re\<close>, \<^verbatim>\<open>json\<close> and
  \<^verbatim>\<open>datetime\<close>. A \<^verbatim>\<open>Path\<close> object is modelled by the string it is built from.
  \<^item> \<open>resolve w p\<close>: the parts of \<^verbatim>\<open>Path(p).resolve()\<close>, or what it raises; a lookup
    that leaves the host as it is;
  \<^item> \<open>path_exists w p\<close>: \<^verbatim>\<open>Path(p).exists()\<close>;
  \<^item> \<open>glob w d pat\<close>: the paths \<^verbatim>\<open>Path(d).glob(pat)\<close> yields, in order;
  \<^item> \<open>utcnow w\<close> and \<open>utcnow_iso w\<close>: the instant of \<^verbatim>\<open>datetime.now(tz=timezone.utc)\<close>
    and its \<^verbatim>\<open>isoformat()\<close>;
  \<^item> \<open>path_parent p\<close>, \<open>path_suffix p\<close>, \<open>with_suffix p s\<close>, \<open>joinpath p q\<close>:
    \<^verbatim>\<open>Path(p).parent\<close>, \<^verbatim>\<open>Path(p).suffix\<close>, \<^verbatim>\<open>Path(p).with_suffix(s)\<close> (a
    \<^verbatim>\<open>ValueError\<close> when the path has no name) and \<^verbatim>\<open>Path(p) / q\<close>;
  \<^item> \<open>re_sub pat repl s\<close>: \<^verbatim>\<open>re.compile(pat).sub(repl, s)\<close>;
  \<^item> \<open>json_loads s\<close>: \<^verbatim>\<open>json.loads(s)\<close>;
  \<^item> \<open>key_eq a b\<close>: whether the hashable values \<open>a\<close> and \<open>b\<close> are the same key of a
    \<^verbatim>\<open>dict\<close> (the same object, or equal with equal hashes, as \<^verbatim>\<open>True\<close>, \<^verbatim>\<open>1\<close> and \<^verbatim>\<open>1.0\<close>
    are);
  \<^item> \<open>read_text p\<close>, \<open>write_text p s\<close>, \<open>mkdir p\<close> (with \<^verbatim>\<open>parents=True,
    exist_ok=True\<close>), \<open>replace p q\<close>: the methods of \<^verbatim>\<open>Path(p)\<close> of these names;
  \<^item> \<open>open_append p\<close>: \<^verbatim>\<open>Path(p).open("a")\<close>, and \<open>handle_write p s\<close>: writing \<open>s\<close>
    to that handle and closing it;
  \<^item> \<open>subprocess_run argv\<close>:
    \<^verbatim>\<open>subprocess.run(argv, capture_output=True, text=True, check=False)\<close>.
\<close>

record 'w host =
  resolve :: "'w \<Rightarrow> string \<Rightarrow> exn + resolved_path"
  path_exists :: "'w \<Rightarrow> string \<Rightarrow> bool"
  glob :: "'w \<Rightarrow> string \<Rightarrow> string \<Rightarrow> string list"
  utcnow :: "'w \<Rightarrow> int"
  utcnow_iso :: "'w \<Rightarrow> string"
  path_parent :: "string \<Rightarrow> string"
  path_suffix :: "string \<Rightarrow> string"
  with_suffix :: "string \<Rightarrow> string \<Rightarrow> exn + string"
  joinpath :: "string \<Rightarrow> string \<Rightarrow> string"
  re_sub :: "string \<Rightarrow> string \<Rightarrow> string \<Rightarrow> string"
  json_loads :: "string \<Rightarrow> exn + pyval"
  key_eq :: "pyval \<Rightarrow> pyval \<Rightarrow> bool"
  read_text :: "string \<Rightarrow> (string, 'w) io"
  write_text :: "string \<Rightarrow> string \<Rightarrow> (unit, 'w) io"
  mkdir :: "string \<Rightarrow> (unit, 'w) io"
  replace :: "string \<Rightarrow> string \<Rightarrow> (unit, 'w) io"
  open_append :: "string \<Rightarrow> (unit, 'w) io"
  handle_write :: "string \<Rightarrow> string \<Rightarrow> (unit, 'w) io"
  subprocess_run :: "string list \<Rightarrow> (CompletedProcess, 'w) io"

section \<open>json.dumps\<close>

text \<open>\<^verbatim>\<open>sep.join(xs)\<close>.\<close>

fun join_str :: "string \<Rightarrow> string list \<Rightarrow> string" where
  "join_str sep [] = []"
| "join_str sep [x] = x"
| "join_str sep (x # y # zs) = x @ sep @ join_str sep (y # zs)"

text \<open>The decimal text of an integer (\<^verbatim>\<open>int.__repr__\<close>).\<close>

definition digit_char :: "nat \<Rightarrow> char" where
  "digit_char d = ''0123456789abcdef'' ! d"

fun nat_repr :: "nat \<Rightarrow> string" where
  "nat_repr n = (if n < 10 then [digit_char n] else nat_repr (n div 10) @ [digit_char (n mod 10)])"

declare nat_repr.simps [simp del]

definition int_repr :: "int \<Rightarrow> string" where
  "int_repr i = (if i < 0 then ''-'' @ nat_repr (nat (- i)) else nat_repr (nat i))"

text \<open>
  \<^verbatim>\<open>int.__repr__\<close> as the interpreter runs it: the conversion of an integer of more than
  \<^verbatim>\<open>sys.get_int_max_str_digits()\<close> digits, 4300 unless the program changes it (the source
  does not), raises \<^verbatim>\<open>ValueError\<close>. The sign is not counted.
\<close>

definition int_max_str_digits :: nat where
  "int_max_str_digits = 4300"

definition exceeds_limit :: exn where
  "exceeds_limit =
     ValueError (''Exceeds the limit (4300 digits) for integer string conversion; ''
                 @ ''use sys.set_int_max_str_digits() to increase the limit'')"

definition int_str :: "int \<Rightarrow> exn + string" where
  "int_str i =
     (if int_max_str_digits < length (nat_repr (nat \<bar>i\<bar>)) then Inl exceeds_limit
      else Inr (int_repr i))"

text \<open>
  A \<^verbatim>\<open>float\<close> in JSON with \<^verbatim>\<open>allow_nan=True\<close>, the default: the three values that are not
  numbers of JSON have names of their own, every other value is written as
  \<^verbatim>\<open>float.__repr__\<close> writes it.
\<close>

definition float_str :: "string \<Rightarrow> string" where
  "float_str r =
     (if r = ''nan'' then ''NaN''
      else if r = ''inf'' then ''Infinity''
      else if r = ''-inf'' then ''-Infinity''
      else r)"

text \<open>
  A string in JSON with \<^verbatim>\<open>ensure_ascii=True\<close>: the quote and the backslash are
  escaped, the usual control characters have their short forms, and every other
  character outside the range from the space to the tilde is written as a
  \<^verbatim>\<open>\u\<close> escape with four hexadecimal digits. A \<open>char\<close> is a code point below 256.
\<close>

definition json_escape :: "char \<Rightarrow> string" where
  "json_escape c =
     (let n = (of_char c :: nat) in
      if n = 0x22 then [CHR 0x5C, CHR 0x22]
      else if n = 0x5C then [CHR 0x5C, CHR 0x5C]
      else if n = 0x0A then [CHR 0x5C, CHR ''n'']
      else if n = 0x0D then [CHR 0x5C, CHR ''r'']
      else if n = 0x09 then [CHR 0x5C, CHR ''t'']
      else if n = 0x08 then [CHR 0x5C, CHR ''b'']
      else if n = 0x0C then [CHR 0x5C, CHR ''f'']
      else if n < 0x20 \<or> 0x7E < n then
        [CHR 0x5C, CHR ''u'', CHR ''0'', CHR ''0'', digit_char (n div 16), digit_char (n mod 16)]
      else [c])"

definition json_string :: "string \<Rightarrow> string" where
  "json_string s = [CHR 0x22] @ concat (map json_escape s) @ [CHR 0x22]"

text \<open>The results of a list of calls, or the first exception among them.\<close>

fun first_error :: "(exn + 'a) list \<Rightarrow> exn + 'a list" where
  "first_error [] = Inr []"
| "first_error (Inl e # rs) = Inl e"
| "first_error (Inr x # rs) = (case first_error rs of Inl e \<Rightarrow> Inl e | Inr xs \<Rightarrow> Inr (x # xs))"

text \<open>
  \<^verbatim>\<open>json.dumps(value)\<close> with its default arguments: items are separated by a comma and
  a space, keys from values by a colon and a space, a tuple is written as a list, an
  object that is none of the types the encoder knows raises \<^verbatim>\<open>TypeError\<close>, and what the
  conversion of an integer raises leaves the call. The items of a container are encoded
  in their order, so the exception is that of the first item that has one.
\<close>

fun json_dumps :: "pyval \<Rightarrow> exn + string" where
  "json_dumps PNone = Inr ''null''"
| "json_dumps (PBool b) = Inr (if b then ''true'' else ''false'')"
| "json_dumps (PInt i) = int_str i"
| "json_dumps (PFloat r) = Inr (float_str r)"
| "json_dumps (PStr s) = Inr (json_string s)"
| "json_dumps (PList xs) =
     (case first_error (map json_dumps xs) of
        Inl e \<Rightarrow> Inl e
      | Inr ss \<Rightarrow> Inr (''['' @ join_str '', '' ss @ '']''))"
| "json_dumps (PTuple xs) =
     (case first_error (map json_dumps xs) of
        Inl e \<Rightarrow> Inl e
      | Inr ss \<Rightarrow> Inr (''['' @ join_str '', '' ss @ '']''))"
| "json_dumps (PDict kvs) =
     (case first_error
             (map (\<lambda>kv. case json_dumps (snd kv) of
                           Inl e \<Rightarrow> Inl e
                         | Inr s \<Rightarrow> Inr (json_string (fst kv) @ '': '' @ s)) kvs) of
        Inl e \<Rightarrow> Inl e
      | Inr ss \<Rightarrow> Inr (''{'' @ join_str '', '' ss @ ''}''))"
| "json_dumps (PObj cls) =
     Inl (TypeError (''Object of type '' @ cls @ '' is not JSON serializable''))"

section \<open>audit.py\<close>

record AuditLogger =
  log_path :: string
  compiled :: "string list"

text \<open>
  The loop of \<^verbatim>\<open>_redact\<close> over the compiled patterns, in their order: each one
  rewrites the result of the one before.
\<close>

fun redact_str :: "(string \<Rightarrow> string \<Rightarrow> string \<Rightarrow> string) \<Rightarrow> string list \<Rightarrow> string \<Rightarrow> string" where
  "redact_str sub [] redacted = redacted"
| "redact_str sub (pattern # patterns) redacted =
     redact_str sub patterns (sub pattern ''<redacted>'' redacted)"

text \<open>
  \<^verbatim>\<open>AuditLogger._redact\<close>: a dictionary keeps its keys and has its values redacted, a
  list has its items redacted, a string goes through the patterns, and any other value
  (a tuple among them) is returned as it is.
\<close>

fun redact :: "(string \<Rightarrow> string \<Rightarrow> string \<Rightarrow> string) \<Rightarrow> string list \<Rightarrow> pyval \<Rightarrow> pyval" where
  "redact sub ps (PDict kvs) = PDict (map (\<lambda>kv. (fst kv, redact sub ps (snd kv))) kvs)"
| "redact sub ps (PList xs) = PList (map (redact sub ps) xs)"
| "redact sub ps (PStr s) = PStr (redact_str sub ps s)"
| "redact sub ps v = v"

text \<open>
  \<^verbatim>\<open>AuditLogger.log\<close>. The first statement assigns into the dictionary the caller
  passed, so the model returns that dictionary as the call leaves it, beside the outcome
  (\<open>Inr ()\<close> for a normal return) and the host. The file is opened before the line is
  encoded, as the \<^verbatim>\<open>with\<close> statement of the source does.
\<close>

definition log :: "'w host \<Rightarrow> AuditLogger \<Rightarrow> pydict \<Rightarrow> 'w \<Rightarrow> (exn + unit) \<times> pydict \<times> 'w" where
  "log host self payload w =
     (let payload' = dict_set payload ''timestamp'' (PStr (utcnow_iso host w));
          redacted = redact (re_sub host) (compiled self) (PDict payload')
      in case open_append host (log_path self) w of
           (Inl e, w1) \<Rightarrow> (Inl e, payload', w1)
         | (Inr u, w1) \<Rightarrow>
             (case json_dumps redacted of
                Inl e \<Rightarrow> (Inl e, payload', w1)
              | Inr line \<Rightarrow>
                  (case handle_write host (log_path self) (line @ [CHR 0x0A]) w1 of
                     (Inl e, w2) \<Rightarrow> (Inl e, payload', w2)
                   | (Inr u', w2) \<Rightarrow> (Inr (), payload', w2))))"

text \<open>A call of \<^verbatim>\<open>log\<close> on a dictionary literal that the caller does not keep.\<close>

definition log_io :: "'w host \<Rightarrow> AuditLogger \<Rightarrow> pydict \<Rightarrow> (unit, 'w) io" where
  "log_io host self payload = (\<lambda>w. case log host self payload w of (r, p, w') \<Rightarrow> (r, w'))"

section \<open>skills.py: the context handed to skill code\<close>

text \<open>
  \<^verbatim>\<open>SkillContext\<close> with its policy engine and audit logger. The retrieval index and
  \<^verbatim>\<open>rag_ingest\<close>, which calls into it, are outside this development.
\<close>

record SkillContext =
  policy :: PolicyEngine
  audit :: AuditLogger

text \<open>
  The result the three operations return when the policy denies the request. The check
  is the first statement of each operation and stands outside every \<^verbatim>\<open>try\<close>: what it
  raises leaves the operation.
\<close>

definition denied :: "ApprovalDecision \<Rightarrow> ToolResult" where
  "denied decision =
     \<lparr>success = False, output = None, error = Some (reason decision),
      metadata = [(''approval'', model_dump decision)]\<rparr>"

definition read_file :: "'w host \<Rightarrow> SkillContext \<Rightarrow> string \<Rightarrow> (ToolResult, 'w) io" where
  "read_file host self path =
     (\<lambda>w. case check_file_read (resolve host w) (utcnow host w) (policy self) path of
        Inl exc \<Rightarrow> (Inl exc, w)
      | Inr decision \<Rightarrow>
        if \<not> allowed decision then (Inr (denied decision), w)
        else
          io_bind (read_text host path) (\<lambda>content.
          io_bind (log_io host (audit self)
                     [(''tool'', PStr ''file_read''), (''path'', PStr path),
                      (''decision'', PStr ''allowed''), (''summary'', PStr ''Read file'')]) (\<lambda>u.
          io_return \<lparr>success = True, output = Some content, error = None, metadata = []\<rparr>)) w)"

definition write_file :: "'w host \<Rightarrow> SkillContext \<Rightarrow> string \<Rightarrow> string \<Rightarrow> (ToolResult, 'w) io" where
  "write_file host self path content =
     (\<lambda>w. case check_file_write (resolve host w) (utcnow host w) (policy self) path of
        Inl exc \<Rightarrow> (Inl exc, w)
      | Inr decision \<Rightarrow>
        if \<not> allowed decision then (Inr (denied decision), w)
        else
          io_bind (mkdir host (path_parent host path)) (\<lambda>u.
          io_bind (io_lift (with_suffix host path (path_suffix host path @ ''.bak''))) (\<lambda>backup_path.
          io_bind (\<lambda>w1. if path_exists host w1 path
                          then io_bind (read_text host path) (write_text host backup_path) w1
                          else io_return () w1) (\<lambda>u.
          io_bind (io_lift (with_suffix host path (path_suffix host path @ ''.tmp''))) (\<lambda>temp_path.
          io_bind (write_text host temp_path content) (\<lambda>u.
          io_bind (replace host temp_path path) (\<lambda>u.
          io_bind (log_io host (audit self)
                     [(''tool'', PStr ''file_write''), (''path'', PStr path),
                      (''decision'', PStr ''allowed''), (''summary'', PStr ''Wrote file'')]) (\<lambda>u.
          io_return \<lparr>success = True, output = Some ''File written'', error = None,
                      metadata = []\<rparr>))))))) w)"

definition run_command :: "'w host \<Rightarrow> SkillContext \<Rightarrow> string list \<Rightarrow> (ToolResult, 'w) io" where
  "run_command host self command =
     (\<lambda>w. let joined = join_str '' '' command in
        case check_terminal (utcnow host w) (policy self) joined of
          Inl exc \<Rightarrow> (Inl exc, w)
        | Inr decision \<Rightarrow>
        if \<not> allowed decision then (Inr (denied decision), w)
        else
          io_try is_OSError
            (io_bind (subprocess_run host command) (\<lambda>result.
             io_bind (log_io host (audit self)
                        [(''tool'', PStr ''terminal''), (''command'', PStr joined),
                         (''decision'', PStr ''allowed''), (''summary'', PStr ''Ran command'')]) (\<lambda>u.
             io_return \<lparr>success = (returncode result = 0),
                         output = Some (stdout result @ stderr result), error = None,
                         metadata = []\<rparr>)))
            (\<lambda>exc. io_return \<lparr>success = False, output = None, error = Some (exn_str exc),
                               metadata = []\<rparr>) w)"

section \<open>skills.py: the registry and the runner\<close>

text \<open>
  The fields of a manifest are what the JSON document holds: the data class of the
  source does not check their types.
\<close>

record SkillManifest =
  name :: pyval
  description :: pyval
  required_permissions :: pyval
  tools :: pyval
  entrypoint :: pyval

text \<open>
  \<^verbatim>\<open>data[key]\<close>: the value of a dictionary, \<^verbatim>\<open>KeyError\<close> for a missing key, and
  \<^verbatim>\<open>TypeError\<close> when a string key indexes a value that is not a dictionary (its
  message, which names the type, is abridged).
\<close>

definition getitem :: "pyval \<Rightarrow> string \<Rightarrow> exn + pyval" where
  "getitem data key =
     (case data of
        PDict kvs \<Rightarrow>
          (case map_of kvs key of
             None \<Rightarrow> Inl (KeyError ([CHR 0x27] @ key @ [CHR 0x27]))
           | Some v \<Rightarrow> Inr v)
      | _ \<Rightarrow> Inl (TypeError ''indices must be integers or the object is not subscriptable''))"

text \<open>\<^verbatim>\<open>data.get(key, default)\<close> on a dictionary.\<close>

definition dict_get :: "pydict \<Rightarrow> string \<Rightarrow> pyval \<Rightarrow> pyval" where
  "dict_get kvs key dflt = (case map_of kvs key of None \<Rightarrow> dflt | Some v \<Rightarrow> v)"

text \<open>
  The body of the loop of \<^verbatim>\<open>_load_manifests\<close> up to the manifest it builds.
  \<^verbatim>\<open>data["name"]\<close> is evaluated first, so the \<^verbatim>\<open>get\<close> calls only see a dictionary.
\<close>

definition build_manifest :: "pyval \<Rightarrow> exn + SkillManifest" where
  "build_manifest data =
     (case getitem data ''name'' of
        Inl e \<Rightarrow> Inl e
      | Inr n \<Rightarrow>
          (case data of
             PDict kvs \<Rightarrow>
               Inr \<lparr>name = n,
                    description = dict_get kvs ''description'' (PStr []),
                    required_permissions = dict_get kvs ''required_permissions'' (PList []),
                    tools = dict_get kvs ''tools'' (PList []),
                    entrypoint = dict_get kvs ''entrypoint'' (PStr ''skill.py'')\<rparr>
           | _ \<Rightarrow> Inl (TypeError ''object has no attribute get'')))"

definition load_manifest :: "'w host \<Rightarrow> string \<Rightarrow> (SkillManifest, 'w) io" where
  "load_manifest host manifest_path =
     io_bind (read_text host manifest_path) (\<lambda>text.
     io_bind (io_lift (json_loads host text)) (\<lambda>data.
     io_lift (build_manifest data)))"

text \<open>
  The registry \<^verbatim>\<open>self._manifests\<close> is a dictionary keyed by the names of the
  manifests. A key has to be hashable: a list and a dictionary are not (and no JSON
  document decodes to a tuple or to an object of another class). Keys are compared by
  the interpreter, with \<open>key_eq\<close> of the host. An assignment to a key that is present
  keeps the key and its place and replaces the value.
\<close>

fun hashable :: "pyval \<Rightarrow> bool" where
  "hashable (PList xs) = False"
| "hashable (PDict kvs) = False"
| "hashable (PTuple xs) = list_all hashable xs"
| "hashable (PObj cls) = False"
| "hashable v = True"

type_synonym registry = "(pyval \<times> SkillManifest) list"

fun registry_set ::
  "(pyval \<Rightarrow> pyval \<Rightarrow> bool) \<Rightarrow> registry \<Rightarrow> pyval \<Rightarrow> SkillManifest \<Rightarrow> registry" where
  "registry_set eq [] k m = [(k, m)]"
| "registry_set eq ((k', m') # kms) k m =
     (if eq k' k then (k', m) # kms else (k', m') # registry_set eq kms k m)"

text \<open>\<^verbatim>\<open>self._manifests.get(k)\<close>.\<close>

fun registry_get ::
  "(pyval \<Rightarrow> pyval \<Rightarrow> bool) \<Rightarrow> registry \<Rightarrow> pyval \<Rightarrow> SkillManifest option" where
  "registry_get eq [] k = None"
| "registry_get eq ((k', m') # kms) k =
     (if eq k' k then Some m' else registry_get eq kms k)"

text \<open>
  The loop of \<^verbatim>\<open>_load_manifests\<close> over the manifest files that \<^verbatim>\<open>glob\<close> found. There
  is no handler around its body: what the body raises ends the loop and leaves the
  function.
\<close>

fun load_loop :: "'w host \<Rightarrow> string list \<Rightarrow> registry \<Rightarrow> (registry, 'w) io" where
  "load_loop host [] manifests = io_return manifests"
| "load_loop host (manifest_path # paths) manifests =
     io_bind (load_manifest host manifest_path) (\<lambda>manifest.
       if hashable (name manifest)
       then load_loop host paths (registry_set (key_eq host) manifests (name manifest) manifest)
       else io_raise (TypeError ''unhashable type''))"

definition load_manifests :: "'w host \<Rightarrow> string \<Rightarrow> (registry, 'w) io" where
  "load_manifests host skills_dir =
     (\<lambda>w. if \<not> path_exists host w skills_dir then (Inr [], w)
          else load_loop host (glob host w skills_dir ''*/manifest.json'') [] w)"

text \<open>
  What a skill returns: an instance of \<^verbatim>\<open>ToolResult\<close>, or any other value. What the
  name \<^verbatim>\<open>run\<close> is bound to after \<^verbatim>\<open>exec\<close>: a callable, which takes the context and the
  payload and runs on the host, or a value that cannot be called. Synchronous and
  asynchronous handlers are modelled alike: the call runs the handler to its end.
\<close>

datatype retval = RToolResult ToolResult | RValue pyval

datatype 'w pyobj =
    Callable "SkillContext \<Rightarrow> pydict \<Rightarrow> (retval, 'w) io"
  | NotCallable pyval

record 'w SkillManager =
  skills_dir :: string
  context_factory :: "(SkillContext, 'w) io"
  manifests :: registry

definition failure :: "string \<Rightarrow> ToolResult" where
  "failure msg = \<lparr>success = False, output = None, error = Some msg, metadata = []\<rparr>"

text \<open>
  The \<^verbatim>\<open>try\<close> statement of \<^verbatim>\<open>SkillManager.run\<close>: the call of the handler, the test for a
  \<^verbatim>\<open>ToolResult\<close>, the encoding of any other value, all under \<^verbatim>\<open>except Exception\<close>.
\<close>

definition run_handler ::
  "(SkillContext \<Rightarrow> pydict \<Rightarrow> (retval, 'w) io) \<Rightarrow> SkillContext \<Rightarrow> pydict \<Rightarrow> (ToolResult, 'w) io" where
  "run_handler handler context payload =
     io_try is_Exception
       (io_bind (handler context payload) (\<lambda>result.
          case result of
            RToolResult r \<Rightarrow> io_return r
          | RValue v \<Rightarrow>
              io_bind (io_lift (json_dumps v)) (\<lambda>s.
              io_return \<lparr>success = True, output = Some s, error = None, metadata = []\<rparr>)))
       (\<lambda>exc. io_return (failure (exn_str exc)))"

text \<open>
  \<^verbatim>\<open>SkillManager.run\<close>. \<open>exec_source\<close> is \<^verbatim>\<open>exec(source, namespace)\<close>: it runs the text
  of the skill on the host and returns the namespace it has filled. Joining the skill
  path raises \<^verbatim>\<open>TypeError\<close> when the entry point of the manifest is not a string.
\<close>

definition run ::
  "'w host \<Rightarrow> (string \<Rightarrow> (string \<Rightarrow> 'w pyobj option, 'w) io) \<Rightarrow> 'w SkillManager \<Rightarrow> string \<Rightarrow> pydict
    \<Rightarrow> (ToolResult, 'w) io" where
  "run host exec_source self skill_name payload =
     (case registry_get (key_eq host) (manifests self) (PStr skill_name) of
        None \<Rightarrow> io_return (failure ''Skill not found'')
      | Some manifest \<Rightarrow>
          (case entrypoint manifest of
             PStr ep \<Rightarrow>
               (let skill_path = joinpath host (joinpath host (skills_dir self) skill_name) ep in
                (\<lambda>w. if \<not> path_exists host w skill_path
                   then (Inr (failure ''Skill entrypoint missing''), w)
                   else
                     io_bind (context_factory self) (\<lambda>context.
                     io_bind (read_text host skill_path) (\<lambda>source.
                     io_bind (exec_source source) (\<lambda>namespace.
                       case namespace ''run'' of
                         Some (Callable handler) \<Rightarrow> run_handler handler context payload
                       | _ \<Rightarrow> io_return (failure ''Skill missing run()'')))) w))
           | _ \<Rightarrow> io_raise (TypeError ''unsupported operand type(s) for /'')))"

section \<open>A small host for running the operations\<close>

text \<open>
  The theorems below hold for every host. To run the operations on concrete inputs, this
  section defines one host: a table of files under absolute paths, no symbolic links, the
  root as working directory, a table of programs with the result of running each, a clock
  that stands still, patterns that are plain text, and a trace that records every call
  with an effect in the order of the calls.
\<close>

datatype io_event =
    ReadText string
  | WriteText string string
  | Mkdir string
  | Replace string string
  | OpenAppend string
  | HandleWrite string string
  | Spawn "string list"

record demo_world =
  files :: "(string \<times> string) list"
  programs :: "(string list \<times> CompletedProcess) list"
  clock :: int
  clock_iso :: string
  trace :: "io_event list"

text \<open>\<^verbatim>\<open>s.split(c)\<close>.\<close>

fun split_on :: "char \<Rightarrow> string \<Rightarrow> string list" where
  "split_on c [] = [[]]"
| "split_on c (x # xs) =
     (if x = c then [] # split_on c xs
      else (case split_on c xs of [] \<Rightarrow> [[x]] | p # ps \<Rightarrow> (x # p) # ps))"

text \<open>
  The components of a path as \<^verbatim>\<open>pathlib\<close> keeps them (empty components and single dots
  are dropped), and whether the path starts at the root.
\<close>

definition components :: "string \<Rightarrow> string list" where
  "components p = filter (\<lambda>c. c \<noteq> [] \<and> c \<noteq> ''.'') (split_on (CHR ''/'') p)"

definition is_absolute :: "string \<Rightarrow> bool" where
  "is_absolute p = (case p of [] \<Rightarrow> False | c # cs \<Rightarrow> c = CHR ''/'')"

definition path_str :: "bool \<Rightarrow> string list \<Rightarrow> string" where
  "path_str absolute cs =
     (if absolute then ''/'' @ join_str ''/'' cs
      else if cs = [] then ''.'' else join_str ''/'' cs)"

text \<open>
  Resolving without symbolic links, from the root: a double dot leaves the directory
  reached so far, and stays at the root when there is nothing to leave.
\<close>

fun resolve_walk :: "string list \<Rightarrow> string list \<Rightarrow> string list" where
  "resolve_walk [] reached = reached"
| "resolve_walk (c # cs) reached =
     (if c = ''..'' then resolve_walk cs (butlast reached) else resolve_walk cs (reached @ [c]))"

definition demo_parts :: "string \<Rightarrow> resolved_path" where
  "demo_parts p = ''/'' # resolve_walk (components p) []"

text \<open>A path with a NUL character does not resolve, as on every host.\<close>

definition demo_resolve :: "string \<Rightarrow> exn + resolved_path" where
  "demo_resolve p =
     (if CHR 0x00 \<in> set p then Inl (ValueError ''embedded null byte'') else Inr (demo_parts p))"

text \<open>The key of a path in the table of files.\<close>

definition demo_key :: "string \<Rightarrow> string" where
  "demo_key p = path_str True (resolve_walk (components p) [])"

definition demo_exists :: "demo_world \<Rightarrow> string \<Rightarrow> bool" where
  "demo_exists w p =
     list_ex (\<lambda>k. k = demo_key p \<or> prefix (demo_parts p) (demo_parts k)) (map fst (files w))"

text \<open>The manifests one directory below \<open>d\<close>, in the order of the table.\<close>

definition demo_glob :: "demo_world \<Rightarrow> string \<Rightarrow> string \<Rightarrow> string list" where
  "demo_glob w d pat =
     filter (\<lambda>k. list_ex (\<lambda>x. demo_parts k = demo_parts d @ [x, ''manifest.json''])
                   (components k))
       (map fst (files w))"

definition demo_parent :: "string \<Rightarrow> string" where
  "demo_parent p = path_str (is_absolute p) (butlast (components p))"

text \<open>\<^verbatim>\<open>Path.suffix\<close>: the final component from its last dot, when that dot is inside it.\<close>

fun last_dot :: "string \<Rightarrow> nat option" where
  "last_dot [] = None"
| "last_dot (c # cs) =
     (case last_dot cs of
        Some i \<Rightarrow> Some (Suc i)
      | None \<Rightarrow> if c = CHR ''.'' then Some 0 else None)"

definition name_suffix :: "string \<Rightarrow> string" where
  "name_suffix n =
     (case last_dot n of
        None \<Rightarrow> []
      | Some i \<Rightarrow> if 0 < i \<and> Suc i < length n then drop i n else [])"

definition demo_suffix :: "string \<Rightarrow> string" where
  "demo_suffix p = (case components p of [] \<Rightarrow> [] | cs \<Rightarrow> name_suffix (last cs))"

definition demo_with_suffix :: "string \<Rightarrow> string \<Rightarrow> exn + string" where
  "demo_with_suffix p s =
     (case components p of
        [] \<Rightarrow> Inl (ValueError ''path has an empty name'')
      | cs \<Rightarrow>
          Inr (path_str (is_absolute p)
                 (butlast cs @ [take (length (last cs) - length (name_suffix (last cs))) (last cs) @ s])))"

definition demo_joinpath :: "string \<Rightarrow> string \<Rightarrow> string" where
  "demo_joinpath p q =
     (if is_absolute q then path_str True (components q)
      else path_str (is_absolute p) (components p @ components q))"

text \<open>
  Substitution for a pattern without special characters: from the left, every occurrence
  of the text that does not overlap an earlier one is replaced. The counter says how many
  characters of a found occurrence are still to be passed over.
\<close>

fun literal_sub_from :: "string \<Rightarrow> string \<Rightarrow> nat \<Rightarrow> string \<Rightarrow> string" where
  "literal_sub_from pat repl k [] = []"
| "literal_sub_from pat repl (Suc k) (c # cs) = literal_sub_from pat repl k cs"
| "literal_sub_from pat repl 0 (c # cs) =
     (if pat \<noteq> [] \<and> prefix pat (c # cs)
      then repl @ literal_sub_from pat repl (length pat - 1) cs
      else c # literal_sub_from pat repl 0 cs)"

definition literal_sub :: "string \<Rightarrow> string \<Rightarrow> string \<Rightarrow> string" where
  "literal_sub pat repl s = literal_sub_from pat repl 0 s"

text \<open>
  Decoding, for the documents that are the encoding of one of the given values; any
  other text counts as malformed.
\<close>

definition decode_among :: "pyval list \<Rightarrow> string \<Rightarrow> exn + pyval" where
  "decode_among vs s =
     (case find (\<lambda>v. json_dumps v = Inr s) vs of
        Some v \<Rightarrow> Inr v
      | None \<Rightarrow> Inl (ValueError ''Expecting value''))"

definition traced :: "io_event \<Rightarrow> demo_world \<Rightarrow> demo_world" where
  "traced ev w = w\<lparr>trace := trace w @ [ev]\<rparr>"

definition no_such_file :: "string \<Rightarrow> exn" where
  "no_such_file p = OSError (''[Errno 2] No such file or directory: '' @ [CHR 0x27] @ p @ [CHR 0x27])"

definition demo_read_text :: "string \<Rightarrow> (string, demo_world) io" where
  "demo_read_text p w =
     (case map_of (files w) (demo_key p) of
        None \<Rightarrow> (Inl (no_such_file p), traced (ReadText p) w)
      | Some t \<Rightarrow> (Inr t, traced (ReadText p) w))"

definition demo_write_text :: "string \<Rightarrow> string \<Rightarrow> (unit, demo_world) io" where
  "demo_write_text p s w =
     (Inr (), traced (WriteText p s) (w\<lparr>files := AList.update (demo_key p) s (files w)\<rparr>))"

definition demo_mkdir :: "string \<Rightarrow> (unit, demo_world) io" where
  "demo_mkdir p w = (Inr (), traced (Mkdir p) w)"

definition demo_replace :: "string \<Rightarrow> string \<Rightarrow> (unit, demo_world) io" where
  "demo_replace p q w =
     (case map_of (files w) (demo_key p) of
        None \<Rightarrow> (Inl (no_such_file p), traced (Replace p q) w)
      | Some t \<Rightarrow>
          (Inr (), traced (Replace p q)
             (w\<lparr>files := AList.update (demo_key q) t (AList.delete (demo_key p) (files w))\<rparr>)))"

definition demo_open_append :: "string \<Rightarrow> (unit, demo_world) io" where
  "demo_open_append p w =
     (Inr (), traced (OpenAppend p)
        (case map_of (files w) (demo_key p) of
           None \<Rightarrow> w\<lparr>files := AList.update (demo_key p) [] (files w)\<rparr>
         | Some t \<Rightarrow> w))"

definition demo_handle_write :: "string \<Rightarrow> string \<Rightarrow> (unit, demo_world) io" where
  "demo_handle_write p s w =
     (Inr (), traced (HandleWrite p s)
        (w\<lparr>files := AList.update (demo_key p)
                      ((case map_of (files w) (demo_key p) of None \<Rightarrow> [] | Some t \<Rightarrow> t) @ s)
                      (files w)\<rparr>))"

definition demo_subprocess_run :: "string list \<Rightarrow> (CompletedProcess, demo_world) io" where
  "demo_subprocess_run argv w =
     (case map_of (programs w) argv of
        None \<Rightarrow> (Inl (no_such_file (case argv of [] \<Rightarrow> [] | a # as \<Rightarrow> a)), traced (Spawn argv) w)
      | Some r \<Rightarrow> (Inr r, traced (Spawn argv) w))"

text \<open>
  The keys of a dictionary on this host: \<^verbatim>\<open>True\<close> is the key 1 and \<^verbatim>\<open>False\<close> the key 0,
  and any other two values are the same key when they are the same value. The documents
  of this host name their skills with strings.
\<close>

fun key_value :: "pyval \<Rightarrow> pyval" where
  "key_value (PBool b) = PInt (if b then 1 else 0)"
| "key_value (PTuple xs) = PTuple (map key_value xs)"
| "key_value v = v"

definition demo_key_eq :: "pyval \<Rightarrow> pyval \<Rightarrow> bool" where
  "demo_key_eq a b = (key_value a = key_value b)"

definition demo_host :: "pyval list \<Rightarrow> demo_world host" where
  "demo_host documents =
     \<lparr>resolve = (\<lambda>w. demo_resolve),
      path_exists = demo_exists,
      glob = demo_glob,
      utcnow = clock,
      utcnow_iso = clock_iso,
      path_parent = demo_parent,
      path_suffix = demo_suffix,
      with_suffix = demo_with_suffix,
      joinpath = demo_joinpath,
      re_sub = literal_sub,
      json_loads = decode_among documents,
      key_eq = demo_key_eq,
      read_text = demo_read_text,
      write_text = demo_write_text,
      mkdir = demo_mkdir,
      replace = demo_replace,
      open_append = demo_open_append,
      handle_write = demo_handle_write,
      subprocess_run = demo_subprocess_run\<rparr>"

section \<open>Notions the claims are stated with\<close>

text \<open>
  A value is made of JSON types when no object of another class occurs in it, at any
  depth: it is built from dictionaries, lists, tuples, strings, integers, floats,
  booleans and \<^verbatim>\<open>None\<close>.
\<close>

fun json_types :: "pyval \<Rightarrow> bool" where
  "json_types (PList xs) = list_all json_types xs"
| "json_types (PTuple xs) = list_all json_types xs"
| "json_types (PDict kvs) = list_all (\<lambda>kv. json_types (snd kv)) kvs"
| "json_types (PObj cls) = False"
| "json_types v = True"

text \<open>
  The integers of a value are short when each of them, at any depth, is below
  the power 4300 of 10 in absolute value, that is, has at most 4300 digits.
\<close>

fun short_ints :: "pyval \<Rightarrow> bool" where
  "short_ints (PInt i) = (\<bar>i\<bar> < 10 ^ int_max_str_digits)"
| "short_ints (PList xs) = list_all short_ints xs"
| "short_ints (PTuple xs) = list_all short_ints xs"
| "short_ints (PDict kvs) = list_all (\<lambda>kv. short_ints (snd kv)) kvs"
| "short_ints v = True"

text \<open>
  The leaves of a value: what is reached from it through the values of dictionaries and
  the items of lists, from left to right. A leaf is a string, a number, a boolean, the
  null value, or a value that is neither a dictionary nor a list.
\<close>

fun leaves :: "pyval \<Rightarrow> pyval list" where
  "leaves (PDict kvs) = concat (map (\<lambda>kv. leaves (snd kv)) kvs)"
| "leaves (PList xs) = concat (map leaves xs)"
| "leaves v = [v]"

text \<open>Redaction of one leaf: a string goes through the patterns, anything else stays.\<close>

fun redact_leaf :: "(string \<Rightarrow> string \<Rightarrow> string \<Rightarrow> string) \<Rightarrow> string list \<Rightarrow> pyval \<Rightarrow> pyval" where
  "redact_leaf sub ps (PStr s) = PStr (redact_str sub ps s)"
| "redact_leaf sub ps v = v"

section \<open>Inputs of the examples\<close>

definition ex_config :: PermissionConfig where
  "ex_config =
     \<lparr>tools_enabled = True, file_read_allowlist = [''/data''], file_write_allowlist = [''/data''],
      terminal_enabled = True, terminal_allowlist = [''git status''], skills_enabled = [''echo''],
      require_approval = True\<rparr>"

definition ex_store :: ApprovalStore where
  "ex_store =
     \<lparr>records =
        [\<lparr>scope = ''file_read:/a'', expires_at = Some (Aware 50)\<rparr>,
         \<lparr>scope = ''file_read:/data/report.txt'', expires_at = None\<rparr>,
         \<lparr>scope = ''terminal:git status'', expires_at = None\<rparr>,
         \<lparr>scope = ''terminal:ls'', expires_at = Some (Aware 200)\<rparr>,
         \<lparr>scope = ''skill:echo'', expires_at = Some (Aware 200)\<rparr>]\<rparr>"

text \<open>
  The first day of the year 2100, in microseconds from the start of 1970, as the reading
  of a \<^verbatim>\<open>datetime\<close> without a zone: \<^verbatim>\<open>datetime(2100, 1, 1)\<close>.
\<close>

definition year_2100 :: int where
  "year_2100 = 4102444800000000"

text \<open>An allowlist whose first entry holds a NUL character.\<close>

definition ex_nul_config :: PermissionConfig where
  "ex_nul_config = ex_config\<lparr>file_read_allowlist := [[CHR 0x00], ''/data'']\<rparr>"

definition ex_logger :: AuditLogger where
  "ex_logger = \<lparr>log_path = ''/var/audit_log.jsonl'', compiled = [''hunter2'']\<rparr>"

definition ex_context :: SkillContext where
  "ex_context =
     \<lparr>policy = \<lparr>config = ex_config, approvals = \<lparr>records = []\<rparr>\<rparr>, audit = ex_logger\<rparr>"

definition ex_world :: demo_world where
  "ex_world =
     \<lparr>files = [(''/data/report.txt'', ''hello'')],
      programs = [([''git'', ''status''], \<lparr>returncode = 0, stdout = ''clean'', stderr = []\<rparr>)],
      clock = 100, clock_iso = ''1970-01-01T00:00:00.000100+00:00'', trace = []\<rparr>"

text \<open>
  The small host on a file system that cannot be written: creating a directory and opening
  a file for appending raise.
\<close>

definition readonly_host :: "demo_world host" where
  "readonly_host =
     (demo_host [])
       \<lparr>mkdir := (\<lambda>p w. (Inl (OSError ''[Errno 13] Permission denied''), traced (Mkdir p) w)),
        open_append :=
          (\<lambda>p w. (Inl (OSError ''[Errno 13] Permission denied''), traced (OpenAppend p) w))\<rparr>"

text \<open>
  Five skills, each with the manifest the registry holds for it and its source file, and
  an interpreter that knows what these five sources define: a handler that returns a
  dictionary, one that returns a set, one that raises an exception, one that leaves
  through \<^verbatim>\<open>SystemExit\<close>, and one that returns the result of reading a file through
  the context. Any other source defines no \<^verbatim>\<open>run\<close>.
\<close>

definition src_echo :: string where
  "src_echo = ''def run(context, payload): return {\"ok\": True}''"

definition src_set :: string where
  "src_set = ''def run(context, payload): return {1, 2}''"

definition src_boom :: string where
  "src_boom = ''def run(context, payload): raise RuntimeError(\"boom\")''"

definition src_exit :: string where
  "src_exit = ''def run(context, payload): raise SystemExit(\"bye\")''"

definition src_read :: string where
  "src_read = ''def run(context, payload): return context.read_file(\"/data/report.txt\")''"

definition echo_handler :: "SkillContext \<Rightarrow> pydict \<Rightarrow> (retval, demo_world) io" where
  "echo_handler context payload = io_return (RValue (PDict [(''ok'', PBool True)]))"

definition set_handler :: "SkillContext \<Rightarrow> pydict \<Rightarrow> (retval, demo_world) io" where
  "set_handler context payload = io_return (RValue (PObj ''set''))"

definition boom_handler :: "SkillContext \<Rightarrow> pydict \<Rightarrow> (retval, demo_world) io" where
  "boom_handler context payload = io_raise (OtherException ''boom'')"

definition exit_handler :: "SkillContext \<Rightarrow> pydict \<Rightarrow> (retval, demo_world) io" where
  "exit_handler context payload = io_raise (BaseExceptionOnly ''bye'')"

definition read_handler :: "SkillContext \<Rightarrow> pydict \<Rightarrow> (retval, demo_world) io" where
  "read_handler context payload =
     io_bind (read_file (demo_host []) context ''/data/report.txt'') (\<lambda>r. io_return (RToolResult r))"

definition ex_namespace :: "string \<Rightarrow> string \<Rightarrow> demo_world pyobj option" where
  "ex_namespace source n =
     (if n \<noteq> ''run'' then None
      else if source = src_echo then Some (Callable echo_handler)
      else if source = src_set then Some (Callable set_handler)
      else if source = src_boom then Some (Callable boom_handler)
      else if source = src_exit then Some (Callable exit_handler)
      else if source = src_read then Some (Callable read_handler)
      else None)"

definition ex_exec :: "string \<Rightarrow> (string \<Rightarrow> demo_world pyobj option, demo_world) io" where
  "ex_exec source = io_return (ex_namespace source)"

definition ex_manifest :: "string \<Rightarrow> SkillManifest" where
  "ex_manifest n =
     \<lparr>name = PStr n, description = PStr [], required_permissions = PList [], tools = PList [],
      entrypoint = PStr ''skill.py''\<rparr>"

definition ex_manager :: "demo_world SkillManager" where
  "ex_manager =
     \<lparr>skills_dir = ''/skills'', context_factory = io_return ex_context,
      manifests = [(PStr ''echo'', ex_manifest ''echo''), (PStr ''set'', ex_manifest ''set''),
                   (PStr ''boom'', ex_manifest ''boom''), (PStr ''exit'', ex_manifest ''exit''),
                   (PStr ''read'', ex_manifest ''read'')]\<rparr>"

definition ex_skill_world :: demo_world where
  "ex_skill_world =
     ex_world\<lparr>files := [(''/skills/echo/skill.py'', src_echo), (''/skills/set/skill.py'', src_set),
                         (''/skills/boom/skill.py'', src_boom), (''/skills/exit/skill.py'', src_exit),
                         (''/skills/read/skill.py'', src_read), (''/data/report.txt'', ''hello'')]\<rparr>"

text \<open>
  Skills directories with manifests: a well-formed one that gives its name only, one that
  is not JSON, one without a name, and one that gives every key. The decoder of the host
  knows the three documents that are JSON.
\<close>

definition ex_full_document :: pydict where
  "ex_full_document =
     [(''name'', PStr ''full''), (''description'', PStr ''All keys''),
      (''required_permissions'', PList [PStr ''file_read'']), (''tools'', PList [PStr ''read'']),
      (''entrypoint'', PStr ''main.py'')]"

definition ex_documents :: "pyval list" where
  "ex_documents =
     [PDict [(''name'', PStr ''echo'')], PDict [(''description'', PStr ''no name'')],
      PDict ex_full_document]"

definition ex_manifest_world :: demo_world where
  "ex_manifest_world =
     ex_world\<lparr>files := [(''/skills/echo/manifest.json'', ''{\"name\": \"echo\"}''),
                         (''/skills/broken/manifest.json'', ''{not json''),
                         (''/skills/last/manifest.json'', ''{\"name\": \"echo\"}'')]\<rparr>"

definition ex_nameless_world :: demo_world where
  "ex_nameless_world =
     ex_world\<lparr>files := [(''/skills/nameless/manifest.json'', ''{\"description\": \"no name\"}''),
                         (''/skills/echo/manifest.json'', ''{\"name\": \"echo\"}'')]\<rparr>"

definition ex_good_world :: demo_world where
  "ex_good_world =
     ex_world\<lparr>files := [(''/skills/echo/manifest.json'', ''{\"name\": \"echo\"}'')]\<rparr>"

definition ex_full_world :: demo_world where
  "ex_full_world =
     ex_world\<lparr>files := [(''/skills/full/manifest.json'',
        ''{\"name\": \"full\", \"description\": \"All keys\", \"required_permissions\": [\"file_read\"], ''
        @ ''\"tools\": [\"read\"], \"entrypoint\": \"main.py\"}'')]\<rparr>"

section \<open>The policy engine\<close>

text \<open>
  What the loop over the allowlist computes: it returns at the first entry that matches,
  provided the entries before it resolve; it runs to the end when every entry resolves
  and none matches; it raises at the first entry that does not resolve, provided none
  before it matches.
\<close>

lemma allowlist_loop_True:
  "(allowlist_loop res resolved entries = Inr True)
     = (\<exists>before entry after p. entries = before @ entry # after
          \<and> (\<forall>b \<in> set before. \<exists>q. res b = Inr q)
          \<and> res entry = Inr p \<and> prefix p resolved)"
proof
  show "allowlist_loop res resolved entries = Inr True \<Longrightarrow>
    \<exists>before entry after p. entries = before @ entry # after
          \<and> (\<forall>b \<in> set before. \<exists>q. res b = Inr q)
          \<and> res entry = Inr p \<and> prefix p resolved"
  proof (induction entries)
    case Nil
    then show ?case by simp
  next
    case (Cons a entries)
    show ?case
    proof (cases "res a")
      case (Inl e)
      with Cons.prems show ?thesis by simp
    next
      case (Inr q)
      show ?thesis
      proof (cases "prefix q resolved")
        case True
        with Inr have "a # entries = [] @ a # entries \<and> (\<forall>b \<in> set []. \<exists>q. res b = Inr q)
            \<and> res a = Inr q \<and> prefix q resolved" by simp
        then show ?thesis by blast
      next
        case False
        with Inr Cons.prems have "allowlist_loop res resolved entries = Inr True"
          by (simp add: is_relative_to_def)
        from Cons.IH [OF this] obtain before entry after p where
          h: "entries = before @ entry # after" "\<forall>b \<in> set before. \<exists>q. res b = Inr q"
             "res entry = Inr p" "prefix p resolved" by blast
        with Inr have "a # entries = (a # before) @ entry # after
            \<and> (\<forall>b \<in> set (a # before). \<exists>q. res b = Inr q)
            \<and> res entry = Inr p \<and> prefix p resolved" by simp
        then show ?thesis by blast
      qed
    qed
  qed
next
  assume "\<exists>before entry after p. entries = before @ entry # after
          \<and> (\<forall>b \<in> set before. \<exists>q. res b = Inr q)
          \<and> res entry = Inr p \<and> prefix p resolved"
  then obtain before entry after p where
    h: "entries = before @ entry # after" "\<forall>b \<in> set before. \<exists>q. res b = Inr q"
       "res entry = Inr p" "prefix p resolved" by blast
  from h(2) have "allowlist_loop res resolved (before @ entry # after) = Inr True"
    using h(3,4) by (induction before) (auto simp: is_relative_to_def)
  with h(1) show "allowlist_loop res resolved entries = Inr True" by simp
qed

lemma allowlist_loop_False:
  "(allowlist_loop res resolved entries = Inr False)
     = (\<forall>entry \<in> set entries. \<exists>q. res entry = Inr q \<and> \<not> prefix q resolved)"
  by (induction entries) (auto simp: is_relative_to_def split: sum.splits)

lemma allowlist_loop_Inl:
  "(allowlist_loop res resolved entries = Inl exc)
     = (\<exists>before entry after. entries = before @ entry # after
          \<and> (\<forall>b \<in> set before. \<exists>q. res b = Inr q \<and> \<not> prefix q resolved)
          \<and> res entry = Inl exc)"
proof
  show "allowlist_loop res resolved entries = Inl exc \<Longrightarrow>
    \<exists>before entry after. entries = before @ entry # after
          \<and> (\<forall>b \<in> set before. \<exists>q. res b = Inr q \<and> \<not> prefix q resolved)
          \<and> res entry = Inl exc"
  proof (induction entries)
    case Nil
    then show ?case by simp
  next
    case (Cons a entries)
    show ?case
    proof (cases "res a")
      case (Inl e)
      with Cons.prems have "a # entries = [] @ a # entries
          \<and> (\<forall>b \<in> set []. \<exists>q. res b = Inr q \<and> \<not> prefix q resolved) \<and> res a = Inl exc"
        by simp
      then show ?thesis by blast
    next
      case (Inr q)
      with Cons.prems have np: "\<not> prefix q resolved"
        and "allowlist_loop res resolved entries = Inl exc"
        by (auto simp: is_relative_to_def split: if_splits)
      from Cons.IH [OF this(2)] obtain before entry after where
        h: "entries = before @ entry # after"
           "\<forall>b \<in> set before. \<exists>q. res b = Inr q \<and> \<not> prefix q resolved"
           "res entry = Inl exc" by blast
      with Inr np have "a # entries = (a # before) @ entry # after
          \<and> (\<forall>b \<in> set (a # before). \<exists>q. res b = Inr q \<and> \<not> prefix q resolved)
          \<and> res entry = Inl exc" by simp
      then show ?thesis by blast
    qed
  qed
next
  assume "\<exists>before entry after. entries = before @ entry # after
          \<and> (\<forall>b \<in> set before. \<exists>q. res b = Inr q \<and> \<not> prefix q resolved)
          \<and> res entry = Inl exc"
  then obtain before entry after where
    h: "entries = before @ entry # after"
       "\<forall>b \<in> set before. \<exists>q. res b = Inr q \<and> \<not> prefix q resolved"
       "res entry = Inl exc" by blast
  from h(2) have "allowlist_loop res resolved (before @ entry # after) = Inl exc"
    using h(3) by (induction before) (auto simp: is_relative_to_def)
  with h(1) show "allowlist_loop res resolved entries = Inl exc" by simp
qed

lemma allowlist_loop_resolving:
  "\<forall>entry \<in> set entries. \<exists>p. res entry = Inr p \<Longrightarrow>
   allowlist_loop res resolved entries
     = Inr (\<exists>entry \<in> set entries. \<exists>p. res entry = Inr p \<and> prefix p resolved)"
  by (induction entries) (auto simp: is_relative_to_def)

text \<open>
  What the loop over the ledger computes. The comparison with an expiry returns for an
  aware value and raises for a naive one; the loop over a list and then another is the
  loop over the first, followed by the loop over the second when the first found nothing.
\<close>

lemma expired_before_Inr:
  "(expired_before d now = Inr b) = (\<exists>e. d = Aware e \<and> b = (e < now))"
  by (cases d) auto

lemma expired_before_Inl:
  "(expired_before d now = Inl exc) = ((\<exists>e. d = Naive e) \<and> exc = cannot_compare)"
  by (cases d) auto

lemma is_approved_loop_append:
  "is_approved_loop now (xs @ ys) s
     = (case is_approved_loop now xs s of
          Inl exc \<Rightarrow> Inl exc
        | Inr True \<Rightarrow> Inr True
        | Inr False \<Rightarrow> is_approved_loop now ys s)"
  by (induction xs) (auto split: option.splits sum.splits bool.splits)

lemma is_approved_loop_aware:
  "\<forall>r \<in> set rs. scope r = s \<longrightarrow> (\<forall>e. expires_at r \<noteq> Some (Naive e)) \<Longrightarrow>
   is_approved_loop now rs s
     = Inr (\<exists>r \<in> set rs. scope r = s \<and> (\<forall>e. expires_at r = Some (Aware e) \<longrightarrow> now \<le> e))"
proof (induction rs)
  case Nil
  then show ?case by simp
next
  case (Cons a rs)
  then show ?case
    by (cases "expires_at a"; cases "the (expires_at a)")
      (auto split: option.splits bool.splits)
qed

lemma is_approved_loop_True:
  "(is_approved_loop now rs s = Inr True)
     = (\<exists>before r after. rs = before @ r # after \<and> scope r = s
          \<and> (expires_at r = None \<or> (\<exists>e. expires_at r = Some (Aware e) \<and> now \<le> e))
          \<and> (\<forall>b \<in> set before. scope b = s \<longrightarrow> (\<forall>e. expires_at b \<noteq> Some (Naive e))))"
  (is "?L rs = ?R rs")
proof
  show "?L rs \<Longrightarrow> ?R rs"
  proof (induction rs)
    case Nil
    then show ?case by simp
  next
    case (Cons a rs)
    show ?case
    proof (cases "scope a = s \<and> (expires_at a = None \<or> (\<exists>e. expires_at a = Some (Aware e) \<and> now \<le> e))")
      case True
      then have "a # rs = [] @ a # rs \<and> scope a = s
          \<and> (expires_at a = None \<or> (\<exists>e. expires_at a = Some (Aware e) \<and> now \<le> e))
          \<and> (\<forall>b \<in> set []. scope b = s \<longrightarrow> (\<forall>e. expires_at b \<noteq> Some (Naive e)))" by simp
      then show ?thesis by blast
    next
      case False
      with Cons.prems have rest: "is_approved_loop now rs s = Inr True"
        and nn: "scope a = s \<longrightarrow> (\<forall>e. expires_at a \<noteq> Some (Naive e))"
        by (auto simp: expired_before_Inr expired_before_Inl
            split: if_splits option.splits sum.splits bool.splits)
      from Cons.IH [OF rest] obtain before r after where
        h: "rs = before @ r # after" "scope r = s"
           "expires_at r = None \<or> (\<exists>e. expires_at r = Some (Aware e) \<and> now \<le> e)"
           "\<forall>b \<in> set before. scope b = s \<longrightarrow> (\<forall>e. expires_at b \<noteq> Some (Naive e))" by blast
      with nn have "a # rs = (a # before) @ r # after \<and> scope r = s
          \<and> (expires_at r = None \<or> (\<exists>e. expires_at r = Some (Aware e) \<and> now \<le> e))
          \<and> (\<forall>b \<in> set (a # before). scope b = s \<longrightarrow> (\<forall>e. expires_at b \<noteq> Some (Naive e)))"
        by simp
      then show ?thesis by blast
    qed
  qed
next
  assume "?R rs"
  then obtain before r after where
    h: "rs = before @ r # after" "scope r = s"
       "expires_at r = None \<or> (\<exists>e. expires_at r = Some (Aware e) \<and> now \<le> e)"
       "\<forall>b \<in> set before. scope b = s \<longrightarrow> (\<forall>e. expires_at b \<noteq> Some (Naive e))" by blast
  have aware: "\<forall>x \<in> set (before @ [r]). scope x = s \<longrightarrow> (\<forall>e. expires_at x \<noteq> Some (Naive e))"
    using h(3,4) by auto
  have "is_approved_loop now (before @ [r]) s = Inr True"
    unfolding is_approved_loop_aware [OF aware] using h(2,3) by auto
  then have "is_approved_loop now ((before @ [r]) @ after) s = Inr True"
    by (simp only: is_approved_loop_append [of now "before @ [r]"] sum.case bool.case)
  then show "?L rs" using h(1) by simp
qed

lemma is_approved_loop_Inl:
  "(is_approved_loop now rs s = Inl exc)
     = (exc = cannot_compare
        \<and> (\<exists>before r after e. rs = before @ r # after \<and> scope r = s
              \<and> expires_at r = Some (Naive e)
              \<and> (\<forall>b \<in> set before. scope b = s \<longrightarrow> (\<exists>e'. expires_at b = Some (Aware e') \<and> e' < now))))"
  (is "?L rs = ?R rs")
proof
  show "?L rs \<Longrightarrow> ?R rs"
  proof (induction rs)
    case Nil
    then show ?case by simp
  next
    case (Cons a rs)
    show ?case
    proof (cases "scope a = s \<and> (\<exists>e. expires_at a = Some (Naive e))")
      case True
      then obtain e where e: "scope a = s" "expires_at a = Some (Naive e)" by blast
      with Cons.prems have "exc = cannot_compare" by simp
      moreover from e have "a # rs = [] @ a # rs \<and> scope a = s \<and> expires_at a = Some (Naive e)
          \<and> (\<forall>b \<in> set []. scope b = s \<longrightarrow> (\<exists>e'. expires_at b = Some (Aware e') \<and> e' < now))"
        by simp
      ultimately show ?thesis by blast
    next
      case False
      with Cons.prems have rest: "is_approved_loop now rs s = Inl exc"
        and ex: "scope a = s \<longrightarrow> (\<exists>e'. expires_at a = Some (Aware e') \<and> e' < now)"
        by (auto simp: expired_before_Inr expired_before_Inl
            split: if_splits option.splits sum.splits bool.splits)
      from Cons.IH [OF rest] obtain before r after e where
        h: "exc = cannot_compare" "rs = before @ r # after" "scope r = s"
           "expires_at r = Some (Naive e)"
           "\<forall>b \<in> set before. scope b = s \<longrightarrow> (\<exists>e'. expires_at b = Some (Aware e') \<and> e' < now)"
        by blast
      with ex have "a # rs = (a # before) @ r # after \<and> scope r = s
          \<and> expires_at r = Some (Naive e)
          \<and> (\<forall>b \<in> set (a # before). scope b = s \<longrightarrow> (\<exists>e'. expires_at b = Some (Aware e') \<and> e' < now))"
        by simp
      with h(1) show ?thesis by blast
    qed
  qed
next
  assume "?R rs"
  then obtain before r after e where
    h: "exc = cannot_compare" "rs = before @ r # after" "scope r = s"
       "expires_at r = Some (Naive e)"
       "\<forall>b \<in> set before. scope b = s \<longrightarrow> (\<exists>e'. expires_at b = Some (Aware e') \<and> e' < now)"
    by blast
  have aware: "\<forall>x \<in> set before. scope x = s \<longrightarrow> (\<forall>e. expires_at x \<noteq> Some (Naive e))"
    using h(5) by auto
  have "is_approved_loop now before s = Inr False"
    unfolding is_approved_loop_aware [OF aware] using h(5) by fastforce
  then have "is_approved_loop now (before @ r # after) s = Inl cannot_compare"
    using h(3,4) by (simp add: is_approved_loop_append [of now before])
  then show "?L rs" using h(1,2) by simp
qed

text \<open>
  Claim C1 (gate precedence). When tools are disabled, each of the four checks (file read,
  file write, skill, terminal command) returns a decision that denies and asks for
  approval; when terminal access is disabled, the terminal check does. The result is then
  the same for any other engine with the same configuration, whatever its approval
  records, the clock and the resolver are: neither the allowlists nor the ledger have a
  say, and nothing that the resolver or the ledger could raise is raised.
\<close>

theorem gate_precedence:
  assumes "config self' = config self"
  shows
    "(\<not> tools_enabled (config self) \<longrightarrow>
        ((\<exists>d. check_file_read res now self path = Inr d \<and> \<not> allowed d \<and> requires_approval d)
          \<and> check_file_read res' now' self' path = check_file_read res now self path)
      \<and> ((\<exists>d. check_file_write res now self path = Inr d \<and> \<not> allowed d \<and> requires_approval d)
          \<and> check_file_write res' now' self' path = check_file_write res now self path)
      \<and> ((\<exists>d. check_skill now self skill_name = Inr d \<and> \<not> allowed d \<and> requires_approval d)
          \<and> check_skill now' self' skill_name = check_skill now self skill_name)
      \<and> ((\<exists>d. check_terminal now self command = Inr d \<and> \<not> allowed d \<and> requires_approval d)
          \<and> check_terminal now' self' command = check_terminal now self command))
     \<and> (\<not> terminal_enabled (config self) \<longrightarrow>
        (\<exists>d. check_terminal now self command = Inr d \<and> \<not> allowed d \<and> requires_approval d)
          \<and> check_terminal now' self' command = check_terminal now self command)"
  using assms
  by (simp add: check_file_read_def check_file_write_def check_path_def check_skill_def
      check_terminal_def)

text \<open>
  C1 on an engine whose allowlists and ledger would all grant the requests: with tools
  disabled, and with tools enabled and terminal access disabled.
\<close>

theorem gate_precedence_witness:
  "check_file_read demo_resolve 100
        \<lparr>config = ex_config\<lparr>tools_enabled := False\<rparr>, approvals = ex_store\<rparr> ''/data/report.txt''
     = Inr \<lparr>allowed = False, reason = ''Tools disabled'', scope = ''file_read:/data/report.txt'',
            requires_approval = True\<rparr>
   \<and> check_file_write demo_resolve 100
        \<lparr>config = ex_config\<lparr>tools_enabled := False\<rparr>, approvals = ex_store\<rparr> ''/data/report.txt''
     = check_file_write demo_resolve 0
        \<lparr>config = ex_config\<lparr>tools_enabled := False\<rparr>, approvals = \<lparr>records = []\<rparr>\<rparr> ''/data/report.txt''
   \<and> check_skill 100
        \<lparr>config = ex_config\<lparr>tools_enabled := False\<rparr>, approvals = ex_store\<rparr> ''echo''
     = Inr \<lparr>allowed = False, reason = ''Tools disabled'', scope = ''skill:echo'',
            requires_approval = True\<rparr>
   \<and> check_terminal 100
        \<lparr>config = ex_config\<lparr>tools_enabled := False\<rparr>, approvals = ex_store\<rparr> ''git status''
     = Inr \<lparr>allowed = False, reason = ''Terminal access disabled'', scope = ''terminal:git status'',
            requires_approval = True\<rparr>
   \<and> check_terminal 100
        \<lparr>config = ex_config\<lparr>terminal_enabled := False\<rparr>, approvals = ex_store\<rparr> ''git status''
     = check_terminal 0
        \<lparr>config = ex_config\<lparr>terminal_enabled := False\<rparr>, approvals = \<lparr>records = []\<rparr>\<rparr> ''git status''
   \<and> (\<exists>d. check_terminal 100
        \<lparr>config = ex_config\<lparr>terminal_enabled := False\<rparr>, approvals = ex_store\<rparr> ''git status''
          = Inr d \<and> \<not> allowed d \<and> requires_approval d)"
proof -
  note a = gate_precedence [where self = "\<lparr>config = ex_config\<lparr>tools_enabled := False\<rparr>, approvals = ex_store\<rparr>"
      and self' = "\<lparr>config = ex_config\<lparr>tools_enabled := False\<rparr>, approvals = \<lparr>records = []\<rparr>\<rparr>"
      and res = demo_resolve and now = 100 and path = "''/data/report.txt''" and res' = demo_resolve
      and now' = 0 and skill_name = "''echo''" and command = "''git status''"]
  note b = gate_precedence [where self = "\<lparr>config = ex_config\<lparr>terminal_enabled := False\<rparr>, approvals = ex_store\<rparr>"
      and self' = "\<lparr>config = ex_config\<lparr>terminal_enabled := False\<rparr>, approvals = \<lparr>records = []\<rparr>\<rparr>"
      and res = demo_resolve and now = 100 and path = "''/data/report.txt''" and res' = demo_resolve
      and now' = 0 and skill_name = "''echo''" and command = "''git status''"]
  have c: "check_file_read demo_resolve 0
        \<lparr>config = ex_config\<lparr>tools_enabled := False\<rparr>, approvals = \<lparr>records = []\<rparr>\<rparr> ''/data/report.txt''
     = Inr \<lparr>allowed = False, reason = ''Tools disabled'', scope = ''file_read:/data/report.txt'',
            requires_approval = True\<rparr>"
    "check_skill 0
        \<lparr>config = ex_config\<lparr>tools_enabled := False\<rparr>, approvals = \<lparr>records = []\<rparr>\<rparr> ''echo''
     = Inr \<lparr>allowed = False, reason = ''Tools disabled'', scope = ''skill:echo'',
            requires_approval = True\<rparr>"
    "check_terminal 0
        \<lparr>config = ex_config\<lparr>tools_enabled := False\<rparr>, approvals = \<lparr>records = []\<rparr>\<rparr> ''git status''
     = Inr \<lparr>allowed = False, reason = ''Terminal access disabled'', scope = ''terminal:git status'',
            requires_approval = True\<rparr>"
    by (simp_all add: ex_config_def check_file_read_def check_path_def check_skill_def
        check_terminal_def)
  from a b c show ?thesis by (simp add: ex_config_def)
qed

text \<open>
  Claim C2 (allowlist containment), for a resolver that can raise. With tools enabled, a
  check of a path returns the allowlisted decision exactly when the path resolves and
  the parts of some resolved allowlist entry are a prefix of its parts (the path is the
  entry or lies below it), every entry before that one having resolved. When the path and
  all the entries resolve, this is the case exactly when some entry contains the path,
  and a path that no entry contains is left to the ledger: denied when the ledger does
  not approve its scope. When the path does not resolve, or an entry does not and no
  entry before it contains the path, the check raises what the resolver raised and
  returns no decision. The checks of a file read and of a file write are this check on
  their allowlists.
\<close>

theorem allowlist_containment:
  assumes "tools_enabled (config self)"
  shows
    "check_file_read res now self path
        = check_path res now self path (file_read_allowlist (config self)) ''file_read''
     \<and> check_file_write res now self path
        = check_path res now self path (file_write_allowlist (config self)) ''file_write''
     \<and> ((check_path res now self path allowlist scope_prefix
            = Inr \<lparr>allowed = True, reason = ''Allowlisted path'',
                   scope = scope_prefix @ '':'' @ path, requires_approval = False\<rparr>)
        = (\<exists>resolved before entry after p.
             res path = Inr resolved \<and> allowlist = before @ entry # after
             \<and> (\<forall>b \<in> set before. \<exists>q. res b = Inr q)
             \<and> res entry = Inr p \<and> prefix p resolved))
     \<and> (res path = Inr resolved \<and> (\<forall>entry \<in> set allowlist. \<exists>p. res entry = Inr p) \<longrightarrow>
          ((\<exists>d. check_path res now self path allowlist scope_prefix = Inr d
                \<and> reason d = ''Allowlisted path'')
             = (\<exists>entry \<in> set allowlist. \<exists>p. res entry = Inr p \<and> prefix p resolved))
          \<and> (\<not> (\<exists>entry \<in> set allowlist. \<exists>p. res entry = Inr p \<and> prefix p resolved) \<longrightarrow>
               check_path res now self path allowlist scope_prefix
                 = (case is_approved now (approvals self) (scope_prefix @ '':'' @ path) of
                      Inl exc \<Rightarrow> Inl exc
                    | Inr True \<Rightarrow>
                        Inr \<lparr>allowed = True, reason = ''Approved path'',
                             scope = scope_prefix @ '':'' @ path, requires_approval = False\<rparr>
                    | Inr False \<Rightarrow>
                        Inr \<lparr>allowed = False, reason = ''Path not allowlisted'',
                             scope = scope_prefix @ '':'' @ path, requires_approval = True\<rparr>)))
     \<and> (res path = Inl exc \<longrightarrow> check_path res now self path allowlist scope_prefix = Inl exc)
     \<and> (res path = Inr resolved \<and> allowlist = before @ entry # after
          \<and> (\<forall>b \<in> set before. \<exists>q. res b = Inr q \<and> \<not> prefix q resolved)
          \<and> res entry = Inl exc
        \<longrightarrow> check_path res now self path allowlist scope_prefix = Inl exc)"
proof -
  have exact: "(check_path res now self path allowlist scope_prefix
            = Inr \<lparr>allowed = True, reason = ''Allowlisted path'',
                   scope = scope_prefix @ '':'' @ path, requires_approval = False\<rparr>)
        = (\<exists>resolved. res path = Inr resolved \<and> allowlist_loop res resolved allowlist = Inr True)"
    using assms
    by (auto simp: check_path_def split: sum.splits bool.splits)
  have split: "(\<exists>resolved. res path = Inr resolved \<and> allowlist_loop res resolved allowlist = Inr True)
        = (\<exists>resolved before entry after p.
             res path = Inr resolved \<and> allowlist = before @ entry # after
             \<and> (\<forall>b \<in> set before. \<exists>q. res b = Inr q)
             \<and> res entry = Inr p \<and> prefix p resolved)"
    unfolding allowlist_loop_True by blast
  have resolving: "res path = Inr resolved \<and> (\<forall>entry \<in> set allowlist. \<exists>p. res entry = Inr p) \<longrightarrow>
          ((\<exists>d. check_path res now self path allowlist scope_prefix = Inr d
                \<and> reason d = ''Allowlisted path'')
             = (\<exists>entry \<in> set allowlist. \<exists>p. res entry = Inr p \<and> prefix p resolved))
          \<and> (\<not> (\<exists>entry \<in> set allowlist. \<exists>p. res entry = Inr p \<and> prefix p resolved) \<longrightarrow>
               check_path res now self path allowlist scope_prefix
                 = (case is_approved now (approvals self) (scope_prefix @ '':'' @ path) of
                      Inl exc \<Rightarrow> Inl exc
                    | Inr True \<Rightarrow>
                        Inr \<lparr>allowed = True, reason = ''Approved path'',
                             scope = scope_prefix @ '':'' @ path, requires_approval = False\<rparr>
                    | Inr False \<Rightarrow>
                        Inr \<lparr>allowed = False, reason = ''Path not allowlisted'',
                             scope = scope_prefix @ '':'' @ path, requires_approval = True\<rparr>))"
  proof (intro impI, elim conjE)
    assume p: "res path = Inr resolved" and all: "\<forall>entry \<in> set allowlist. \<exists>p. res entry = Inr p"
    show "((\<exists>d. check_path res now self path allowlist scope_prefix = Inr d
                \<and> reason d = ''Allowlisted path'')
             = (\<exists>entry \<in> set allowlist. \<exists>p. res entry = Inr p \<and> prefix p resolved))
          \<and> (\<not> (\<exists>entry \<in> set allowlist. \<exists>p. res entry = Inr p \<and> prefix p resolved) \<longrightarrow>
               check_path res now self path allowlist scope_prefix
                 = (case is_approved now (approvals self) (scope_prefix @ '':'' @ path) of
                      Inl exc \<Rightarrow> Inl exc
                    | Inr True \<Rightarrow>
                        Inr \<lparr>allowed = True, reason = ''Approved path'',
                             scope = scope_prefix @ '':'' @ path, requires_approval = False\<rparr>
                    | Inr False \<Rightarrow>
                        Inr \<lparr>allowed = False, reason = ''Path not allowlisted'',
                             scope = scope_prefix @ '':'' @ path, requires_approval = True\<rparr>))"
    proof (cases "\<exists>entry \<in> set allowlist. \<exists>p. res entry = Inr p \<and> prefix p resolved")
      case True
      with assms p show ?thesis
        by (simp add: check_path_def allowlist_loop_resolving [OF all])
    next
      case False
      with all have "allowlist_loop res resolved allowlist = Inr False"
        unfolding allowlist_loop_False by blast
      with assms p have "check_path res now self path allowlist scope_prefix
          = (case is_approved now (approvals self) (scope_prefix @ '':'' @ path) of
               Inl exc \<Rightarrow> Inl exc
             | Inr True \<Rightarrow>
                 Inr \<lparr>allowed = True, reason = ''Approved path'',
                      scope = scope_prefix @ '':'' @ path, requires_approval = False\<rparr>
             | Inr False \<Rightarrow>
                 Inr \<lparr>allowed = False, reason = ''Path not allowlisted'',
                      scope = scope_prefix @ '':'' @ path, requires_approval = True\<rparr>)"
        by (simp add: check_path_def)
      with False show ?thesis
        by (cases "is_approved now (approvals self) (scope_prefix @ '':'' @ path)")
          (auto split: bool.splits)
    qed
  qed
  have path_raises: "res path = Inl exc \<longrightarrow> check_path res now self path allowlist scope_prefix = Inl exc"
    using assms by (simp add: check_path_def)
  have entry_raises: "res path = Inr resolved \<and> allowlist = before @ entry # after
          \<and> (\<forall>b \<in> set before. \<exists>q. res b = Inr q \<and> \<not> prefix q resolved)
          \<and> res entry = Inl exc
        \<longrightarrow> check_path res now self path allowlist scope_prefix = Inl exc"
  proof (intro impI, elim conjE)
    assume p: "res path = Inr resolved" and "allowlist = before @ entry # after"
      "\<forall>b \<in> set before. \<exists>q. res b = Inr q \<and> \<not> prefix q resolved" "res entry = Inl exc"
    then have "allowlist_loop res resolved allowlist = Inl exc"
      unfolding allowlist_loop_Inl by blast
    with assms p show "check_path res now self path allowlist scope_prefix = Inl exc"
      by (simp add: check_path_def)
  qed
  from exact split resolving path_raises entry_raises show ?thesis
    by (simp only: check_file_read_def check_file_write_def simp_thms)
qed

text \<open>
  C2 on the allowlist \<^verbatim>\<open>/data\<close> with an empty ledger: \<^verbatim>\<open>/data-other/secret\<close> is denied,
  \<^verbatim>\<open>/data/report.txt\<close> and \<^verbatim>\<open>/data\<close> are allowlisted, and a path that leaves \<^verbatim>\<open>/data\<close>
  through a double dot is denied. A path with a NUL character raises, and so does the
  path \<^verbatim>\<open>/etc/passwd\<close> on an allowlist whose first entry has one.
\<close>

theorem allowlist_containment_witness:
  "check_file_read demo_resolve 100
        \<lparr>config = ex_config, approvals = \<lparr>records = []\<rparr>\<rparr> ''/data-other/secret''
     = Inr \<lparr>allowed = False, reason = ''Path not allowlisted'',
            scope = ''file_read:/data-other/secret'', requires_approval = True\<rparr>
   \<and> check_file_read demo_resolve 100
        \<lparr>config = ex_config, approvals = \<lparr>records = []\<rparr>\<rparr> ''/data/report.txt''
     = Inr \<lparr>allowed = True, reason = ''Allowlisted path'',
            scope = ''file_read:/data/report.txt'', requires_approval = False\<rparr>
   \<and> check_file_write demo_resolve 100
        \<lparr>config = ex_config, approvals = \<lparr>records = []\<rparr>\<rparr> ''/data''
     = Inr \<lparr>allowed = True, reason = ''Allowlisted path'',
            scope = ''file_write:/data'', requires_approval = False\<rparr>
   \<and> check_file_write demo_resolve 100
        \<lparr>config = ex_config, approvals = \<lparr>records = []\<rparr>\<rparr> ''/data/../etc/passwd''
     = Inr \<lparr>allowed = False, reason = ''Path not allowlisted'',
            scope = ''file_write:/data/../etc/passwd'', requires_approval = True\<rparr>
   \<and> check_file_read demo_resolve 100
        \<lparr>config = ex_config, approvals = \<lparr>records = []\<rparr>\<rparr> [CHR 0x00]
     = Inl (ValueError ''embedded null byte'')
   \<and> check_file_read demo_resolve 100
        \<lparr>config = ex_nul_config, approvals = \<lparr>records = []\<rparr>\<rparr> ''/etc/passwd''
     = Inl (ValueError ''embedded null byte'')"
proof -
  have r: "demo_resolve ''/data'' = Inr [''/'', ''data'']"
    "demo_resolve ''/data-other/secret'' = Inr [''/'', ''data-other'', ''secret'']"
    "demo_resolve ''/data/report.txt'' = Inr [''/'', ''data'', ''report.txt'']"
    "demo_resolve ''/data/../etc/passwd'' = Inr [''/'', ''etc'', ''passwd'']"
    "demo_resolve ''/etc/passwd'' = Inr [''/'', ''etc'', ''passwd'']"
    "demo_resolve [CHR 0x00] = Inl (ValueError ''embedded null byte'')"
    by (simp_all add: demo_resolve_def demo_parts_def components_def)
  have l: "is_approved 100 \<lparr>records = []\<rparr> s = Inr False" for s
    by (simp add: is_approved_def)
  have c: "file_read_allowlist ex_config = [''/data'']" "file_write_allowlist ex_config = [''/data'']"
    "tools_enabled ex_config" "file_read_allowlist ex_nul_config = [[CHR 0x00], ''/data'']"
    "tools_enabled ex_nul_config"
    by (simp_all add: ex_config_def ex_nul_config_def)
  note t1 = allowlist_containment [where self = "\<lparr>config = ex_config, approvals = \<lparr>records = []\<rparr>\<rparr>"
      and res = demo_resolve and now = 100 and path = "''/data-other/secret''"
      and allowlist = "[''/data'']" and scope_prefix = "''file_read''"
      and resolved = "[''/'', ''data-other'', ''secret'']"]
  note t2 = allowlist_containment [where self = "\<lparr>config = ex_config, approvals = \<lparr>records = []\<rparr>\<rparr>"
      and res = demo_resolve and now = 100 and path = "''/data/report.txt''"
      and allowlist = "[''/data'']" and scope_prefix = "''file_read''"
      and resolved = "[''/'', ''data'', ''report.txt'']"]
  note t3 = allowlist_containment [where self = "\<lparr>config = ex_config, approvals = \<lparr>records = []\<rparr>\<rparr>"
      and res = demo_resolve and now = 100 and path = "''/data''"
      and allowlist = "[''/data'']" and scope_prefix = "''file_write''"
      and resolved = "[''/'', ''data'']"]
  note t4 = allowlist_containment [where self = "\<lparr>config = ex_config, approvals = \<lparr>records = []\<rparr>\<rparr>"
      and res = demo_resolve and now = 100 and path = "''/data/../etc/passwd''"
      and allowlist = "[''/data'']" and scope_prefix = "''file_write''"
      and resolved = "[''/'', ''etc'', ''passwd'']"]
  note t5 = allowlist_containment [where self = "\<lparr>config = ex_config, approvals = \<lparr>records = []\<rparr>\<rparr>"
      and res = demo_resolve and now = 100 and path = "[CHR 0x00]"
      and allowlist = "[''/data'']" and scope_prefix = "''file_read''"
      and exc = "ValueError ''embedded null byte''"]
  note t6 = allowlist_containment [where self = "\<lparr>config = ex_nul_config, approvals = \<lparr>records = []\<rparr>\<rparr>"
      and res = demo_resolve and now = 100 and path = "''/etc/passwd''"
      and allowlist = "[[CHR 0x00], ''/data'']" and scope_prefix = "''file_read''"
      and resolved = "[''/'', ''etc'', ''passwd'']" and before = "[]" and entry = "[CHR 0x00]"
      and after = "[''/data'']" and exc = "ValueError ''embedded null byte''"]
  have a1: "check_file_read demo_resolve 100
        \<lparr>config = ex_config, approvals = \<lparr>records = []\<rparr>\<rparr> ''/data-other/secret''
     = Inr \<lparr>allowed = False, reason = ''Path not allowlisted'',
            scope = ''file_read:/data-other/secret'', requires_approval = True\<rparr>"
    using t1 by (simp add: r l c)
  have a2: "check_file_read demo_resolve 100
        \<lparr>config = ex_config, approvals = \<lparr>records = []\<rparr>\<rparr> ''/data/report.txt''
     = Inr \<lparr>allowed = True, reason = ''Allowlisted path'',
            scope = ''file_read:/data/report.txt'', requires_approval = False\<rparr>"
    using t2 [THEN conjunct2, THEN conjunct2, THEN conjunct1]
      t2 [THEN conjunct1]
    by (simp add: r l c) (rule exI [of _ "[]"], simp add: r)
  have a3: "check_file_write demo_resolve 100
        \<lparr>config = ex_config, approvals = \<lparr>records = []\<rparr>\<rparr> ''/data''
     = Inr \<lparr>allowed = True, reason = ''Allowlisted path'',
            scope = ''file_write:/data'', requires_approval = False\<rparr>"
    using t3 [THEN conjunct2, THEN conjunct2, THEN conjunct1]
      t3 [THEN conjunct2, THEN conjunct1]
    by (simp add: r l c) (rule exI [of _ "[]"], simp add: r)
  have a4: "check_file_write demo_resolve 100
        \<lparr>config = ex_config, approvals = \<lparr>records = []\<rparr>\<rparr> ''/data/../etc/passwd''
     = Inr \<lparr>allowed = False, reason = ''Path not allowlisted'',
            scope = ''file_write:/data/../etc/passwd'', requires_approval = True\<rparr>"
    using t4 by (simp add: r l c)
  have a5: "check_file_read demo_resolve 100
        \<lparr>config = ex_config, approvals = \<lparr>records = []\<rparr>\<rparr> [CHR 0x00]
     = Inl (ValueError ''embedded null byte'')"
    using t5 by (simp add: r l c)
  have a6: "check_file_read demo_resolve 100
        \<lparr>config = ex_nul_config, approvals = \<lparr>records = []\<rparr>\<rparr> ''/etc/passwd''
     = Inl (ValueError ''embedded null byte'')"
    using t6 by (simp add: r l c)
  from a1 a2 a3 a4 a5 a6 show ?thesis by (simp only: simp_thms)
qed

text \<open>
  Against C2 as stated: on an allowlist with an entry that does not resolve,
  \<^verbatim>\<open>/data/x\<close> lies below the entry \<^verbatim>\<open>/data\<close>, and the check raises at the entry before
  it instead of allowing the path.
\<close>

theorem unresolvable_entry_raises:
  "demo_resolve ''/data/x'' = Inr [''/'', ''data'', ''x'']
   \<and> demo_resolve ''/data'' = Inr [''/'', ''data'']
   \<and> prefix [''/'', ''data''] [''/'', ''data'', ''x'']
   \<and> file_read_allowlist ex_nul_config = [[CHR 0x00], ''/data'']
   \<and> check_file_read demo_resolve 100
        \<lparr>config = ex_nul_config, approvals = \<lparr>records = []\<rparr>\<rparr> ''/data/x''
     = Inl (ValueError ''embedded null byte'')"
  by (simp add: demo_resolve_def demo_parts_def components_def ex_nul_config_def ex_config_def
      check_file_read_def check_path_def)


text \<open>
  Claim C3 (ledger expiry and exact scope), with expiries of both kinds. \<open>is_approved\<close>
  returns \<open>True\<close> for a scope exactly when some record has that very scope and either no
  expiry or an aware expiry that is not before the time of the check, and no record of
  that scope before it has a naive expiry. It raises, always the \<^verbatim>\<open>TypeError\<close> of the
  comparison, exactly when some record of that scope has a naive expiry and every record
  of that scope before it has expired. So on a ledger whose records of the scope have
  aware expiries or none, it returns whether one of them has not expired, and
  \<open>False\<close> when all of them have. In terms of \<open>add\<close>: after a grant without expiry or
  with an aware expiry that is not before the check, the scope is approved unless the
  ledger raised for it before; a grant with an earlier aware expiry changes the answer
  for no scope; no grant changes the answer for another scope; and after a grant with a
  naive expiry the scope raises unless it was approved before. A check of the policy
  that returns a decision allows only on a static match or when \<open>is_approved\<close> returns
  \<open>True\<close>, and the checks of a command and of a skill raise exactly when they reach the
  ledger and it raises.
\<close>

theorem ledger_expiry_exact_scope:
  "((is_approved now store s = Inr True)
      = (\<exists>before r after. records store = before @ r # after \<and> scope r = s
           \<and> (expires_at r = None \<or> (\<exists>e. expires_at r = Some (Aware e) \<and> now \<le> e))
           \<and> (\<forall>b \<in> set before. scope b = s \<longrightarrow> (\<forall>e. expires_at b \<noteq> Some (Naive e)))))
   \<and> ((is_approved now store s = Inl exc)
      = (exc = cannot_compare
         \<and> (\<exists>before r after e. records store = before @ r # after \<and> scope r = s
              \<and> expires_at r = Some (Naive e)
              \<and> (\<forall>b \<in> set before. scope b = s
                    \<longrightarrow> (\<exists>e'. expires_at b = Some (Aware e') \<and> e' < now)))))
   \<and> ((\<forall>r \<in> set (records store). scope r = s \<longrightarrow> (\<forall>e. expires_at r \<noteq> Some (Naive e))) \<longrightarrow>
        is_approved now store s
          = Inr (\<exists>r \<in> set (records store). scope r = s
                   \<and> (\<forall>e. expires_at r = Some (Aware e) \<longrightarrow> now \<le> e)))
   \<and> ((\<forall>r \<in> set (records store). scope r = s \<longrightarrow> (\<exists>e. expires_at r = Some (Aware e) \<and> e < now))
        \<longrightarrow> is_approved now store s = Inr False)
   \<and> is_approved now (add store s None) s
       = (case is_approved now store s of Inl exc \<Rightarrow> Inl exc | Inr b \<Rightarrow> Inr True)
   \<and> (now \<le> t \<longrightarrow>
        is_approved now (add store s (Some (Aware t))) s
          = (case is_approved now store s of Inl exc \<Rightarrow> Inl exc | Inr b \<Rightarrow> Inr True))
   \<and> (t < now \<longrightarrow> is_approved now (add store s (Some (Aware t))) s' = is_approved now store s')
   \<and> (s' \<noteq> s \<longrightarrow> is_approved now (add store s x) s' = is_approved now store s')
   \<and> is_approved now (add store s (Some (Naive t))) s
       = (case is_approved now store s of
            Inl exc \<Rightarrow> Inl exc
          | Inr True \<Rightarrow> Inr True
          | Inr False \<Rightarrow> Inl cannot_compare)
   \<and> (check_terminal now self command = Inr d \<longrightarrow>
        allowed d
          = (tools_enabled (config self) \<and> terminal_enabled (config self)
             \<and> (command \<in> set (terminal_allowlist (config self))
                  \<or> is_approved now (approvals self) (''terminal:'' @ command) = Inr True)))
   \<and> (check_skill now self skill_name = Inr d \<longrightarrow>
        allowed d
          = (tools_enabled (config self)
             \<and> (skill_name \<in> set (skills_enabled (config self))
                  \<or> is_approved now (approvals self) (''skill:'' @ skill_name) = Inr True)))
   \<and> (check_path res now self path allowlist scope_prefix = Inr d \<longrightarrow>
        allowed d
          = (tools_enabled (config self)
             \<and> ((\<exists>resolved entry p. res path = Inr resolved \<and> entry \<in> set allowlist
                     \<and> res entry = Inr p \<and> prefix p resolved)
                  \<or> is_approved now (approvals self) (scope_prefix @ '':'' @ path) = Inr True)))
   \<and> ((check_terminal now self command = Inl exc)
        = (tools_enabled (config self) \<and> terminal_enabled (config self)
           \<and> command \<notin> set (terminal_allowlist (config self))
           \<and> is_approved now (approvals self) (''terminal:'' @ command) = Inl exc))
   \<and> ((check_skill now self skill_name = Inl exc)
        = (tools_enabled (config self)
           \<and> skill_name \<notin> set (skills_enabled (config self))
           \<and> is_approved now (approvals self) (''skill:'' @ skill_name) = Inl exc))"
proof -
  have approves: "(is_approved now store s = Inr True)
      = (\<exists>before r after. records store = before @ r # after \<and> scope r = s
           \<and> (expires_at r = None \<or> (\<exists>e. expires_at r = Some (Aware e) \<and> now \<le> e))
           \<and> (\<forall>b \<in> set before. scope b = s \<longrightarrow> (\<forall>e. expires_at b \<noteq> Some (Naive e))))"
    unfolding is_approved_def by (rule is_approved_loop_True)
  have raises: "(is_approved now store s = Inl exc)
      = (exc = cannot_compare
         \<and> (\<exists>before r after e. records store = before @ r # after \<and> scope r = s
              \<and> expires_at r = Some (Naive e)
              \<and> (\<forall>b \<in> set before. scope b = s
                    \<longrightarrow> (\<exists>e'. expires_at b = Some (Aware e') \<and> e' < now))))"
    unfolding is_approved_def by (rule is_approved_loop_Inl)
  have aware: "(\<forall>r \<in> set (records store). scope r = s \<longrightarrow> (\<forall>e. expires_at r \<noteq> Some (Naive e))) \<longrightarrow>
        is_approved now store s
          = Inr (\<exists>r \<in> set (records store). scope r = s
                   \<and> (\<forall>e. expires_at r = Some (Aware e) \<longrightarrow> now \<le> e))"
    unfolding is_approved_def using is_approved_loop_aware [of "records store" s now] by blast
  have past: "(\<forall>r \<in> set (records store). scope r = s \<longrightarrow> (\<exists>e. expires_at r = Some (Aware e) \<and> e < now))
        \<longrightarrow> is_approved now store s = Inr False"
  proof
    assume h: "\<forall>r \<in> set (records store). scope r = s \<longrightarrow> (\<exists>e. expires_at r = Some (Aware e) \<and> e < now)"
    then have "\<forall>r \<in> set (records store). scope r = s \<longrightarrow> (\<forall>e. expires_at r \<noteq> Some (Naive e))"
      by auto
    from is_approved_loop_aware [OF this, of now] h
    show "is_approved now store s = Inr False"
      unfolding is_approved_def by fastforce
  qed
  have grant: "is_approved now (add store s x) s'
      = (case is_approved now store s' of
           Inl exc \<Rightarrow> Inl exc
         | Inr True \<Rightarrow> Inr True
         | Inr False \<Rightarrow> is_approved_loop now [\<lparr>scope = s, expires_at = x\<rparr>] s')" for s x s'
    by (simp add: is_approved_def add_def is_approved_loop_append)
  have grant_forever: "is_approved now (add store s None) s
       = (case is_approved now store s of Inl exc \<Rightarrow> Inl exc | Inr b \<Rightarrow> Inr True)"
    by (simp add: grant split: sum.splits bool.splits)
  have grant_later: "now \<le> t \<longrightarrow>
        is_approved now (add store s (Some (Aware t))) s
          = (case is_approved now store s of Inl exc \<Rightarrow> Inl exc | Inr b \<Rightarrow> Inr True)"
    by (simp add: grant split: sum.splits bool.splits)
  have grant_earlier: "t < now \<longrightarrow>
        is_approved now (add store s (Some (Aware t))) s' = is_approved now store s'"
    by (simp add: grant split: sum.splits bool.splits)
  have grant_other: "s' \<noteq> s \<longrightarrow> is_approved now (add store s x) s' = is_approved now store s'"
    by (simp add: grant split: sum.splits bool.splits)
  have grant_naive: "is_approved now (add store s (Some (Naive t))) s
       = (case is_approved now store s of
            Inl exc \<Rightarrow> Inl exc
          | Inr True \<Rightarrow> Inr True
          | Inr False \<Rightarrow> Inl cannot_compare)"
    by (simp add: grant split: sum.splits bool.splits)
  have terminal: "check_terminal now self command = Inr d \<longrightarrow>
        allowed d
          = (tools_enabled (config self) \<and> terminal_enabled (config self)
             \<and> (command \<in> set (terminal_allowlist (config self))
                  \<or> is_approved now (approvals self) (''terminal:'' @ command) = Inr True))"
    by (auto simp: check_terminal_def split: sum.splits bool.splits if_splits)
  have skill: "check_skill now self skill_name = Inr d \<longrightarrow>
        allowed d
          = (tools_enabled (config self)
             \<and> (skill_name \<in> set (skills_enabled (config self))
                  \<or> is_approved now (approvals self) (''skill:'' @ skill_name) = Inr True))"
    by (auto simp: check_skill_def split: sum.splits bool.splits if_splits)
  have path: "check_path res now self path allowlist scope_prefix = Inr d \<longrightarrow>
        allowed d
          = (tools_enabled (config self)
             \<and> ((\<exists>resolved entry p. res path = Inr resolved \<and> entry \<in> set allowlist
                     \<and> res entry = Inr p \<and> prefix p resolved)
                  \<or> is_approved now (approvals self) (scope_prefix @ '':'' @ path) = Inr True))"
  proof
    assume c: "check_path res now self path allowlist scope_prefix = Inr d"
    show "allowed d
          = (tools_enabled (config self)
             \<and> ((\<exists>resolved entry p. res path = Inr resolved \<and> entry \<in> set allowlist
                     \<and> res entry = Inr p \<and> prefix p resolved)
                  \<or> is_approved now (approvals self) (scope_prefix @ '':'' @ path) = Inr True))"
    proof (cases "tools_enabled (config self)")
      case False
      with c show ?thesis by (auto simp: check_path_def)
    next
      case True
      with c obtain resolved where p: "res path = Inr resolved"
        by (cases "res path") (auto simp: check_path_def)
      from c True p obtain b where l: "allowlist_loop res resolved allowlist = Inr b"
        by (cases "allowlist_loop res resolved allowlist") (auto simp: check_path_def)
      show ?thesis
      proof (cases b)
        case True
        with l have "allowlist_loop res resolved allowlist = Inr True" by simp
        then have "\<exists>entry p. entry \<in> set allowlist \<and> res entry = Inr p \<and> prefix p resolved"
          unfolding allowlist_loop_True by auto
        moreover from c \<open>tools_enabled (config self)\<close> p l True have "allowed d"
          by (auto simp: check_path_def)
        ultimately show ?thesis using \<open>tools_enabled (config self)\<close> p by auto
      next
        case False
        with l have "allowlist_loop res resolved allowlist = Inr False" by simp
        then have "\<not> (\<exists>entry p. entry \<in> set allowlist \<and> res entry = Inr p \<and> prefix p resolved)"
          unfolding allowlist_loop_False by fastforce
        moreover from c \<open>tools_enabled (config self)\<close> p l False
        have "allowed d
            = (is_approved now (approvals self) (scope_prefix @ '':'' @ path) = Inr True)"
          by (auto simp: check_path_def split: sum.splits bool.splits)
        ultimately show ?thesis using \<open>tools_enabled (config self)\<close> p by auto
      qed
    qed
  qed
  have terminal_raises: "(check_terminal now self command = Inl exc)
        = (tools_enabled (config self) \<and> terminal_enabled (config self)
           \<and> command \<notin> set (terminal_allowlist (config self))
           \<and> is_approved now (approvals self) (''terminal:'' @ command) = Inl exc)"
    by (auto simp: check_terminal_def split: sum.splits bool.splits if_splits)
  have skill_raises: "(check_skill now self skill_name = Inl exc)
        = (tools_enabled (config self)
           \<and> skill_name \<notin> set (skills_enabled (config self))
           \<and> is_approved now (approvals self) (''skill:'' @ skill_name) = Inl exc)"
    by (auto simp: check_skill_def split: sum.splits bool.splits if_splits)
  from approves raises aware past grant_forever grant_later grant_earlier grant_other
    grant_naive terminal skill path terminal_raises skill_raises
  show ?thesis by (simp only: simp_thms)
qed

text \<open>
  C3 at time 100 on a ledger with an expired grant, two grants without expiry and two
  that expire at 200; the grant of scenario C, without expiry, for the command
  \<^verbatim>\<open>git status\<close> on an empty ledger; and a grant whose expiry is naive, on the empty
  ledger, where the scope raises, and behind an unexpired grant of the same scope, where
  it is approved.
\<close>

theorem ledger_expiry_exact_scope_witness:
  "is_approved 100 ex_store ''file_read:/a'' = Inr False
   \<and> is_approved 100 ex_store ''terminal:git status'' = Inr True
   \<and> is_approved 100 ex_store ''terminal:ls'' = Inr True
   \<and> is_approved 100 ex_store ''terminal:git'' = Inr False
   \<and> check_path demo_resolve 100 \<lparr>config = ex_config, approvals = ex_store\<rparr>
          ''/a'' [''/data''] ''file_read''
       = Inr \<lparr>allowed = False, reason = ''Path not allowlisted'', scope = ''file_read:/a'',
              requires_approval = True\<rparr>
   \<and> is_approved 100 (add \<lparr>records = []\<rparr> ''terminal:git status'' None) ''terminal:git status''
       = Inr True
   \<and> is_approved 100 (add \<lparr>records = []\<rparr> ''terminal:ls'' (Some (Aware 200))) ''terminal:ls''
       = Inr True
   \<and> is_approved 100 (add \<lparr>records = []\<rparr> ''file_read:/a'' (Some (Aware 50))) ''file_read:/a''
       = Inr False
   \<and> is_approved 100 (add \<lparr>records = []\<rparr> ''file_read:/a'' None) ''file_read:/b'' = Inr False
   \<and> is_approved 100 (add \<lparr>records = []\<rparr> ''terminal:ls'' (Some (Naive year_2100))) ''terminal:ls''
       = Inl cannot_compare
   \<and> is_approved 100 (add ex_store ''terminal:ls'' (Some (Naive year_2100))) ''terminal:ls''
       = Inr True
   \<and> check_terminal 100
        \<lparr>config = ex_config,
         approvals = add \<lparr>records = []\<rparr> ''terminal:ls'' (Some (Naive year_2100))\<rparr> ''ls''
       = Inl cannot_compare
   \<and> check_skill 100
        \<lparr>config = ex_config,
         approvals = add \<lparr>records = []\<rparr> ''skill:other'' (Some (Naive year_2100))\<rparr> ''other''
       = Inl cannot_compare"
proof -
  have e: "is_approved 100 \<lparr>records = []\<rparr> s = Inr False" for s
    by (simp add: is_approved_def)
  have c: "tools_enabled ex_config" "terminal_enabled ex_config"
    "''ls'' \<notin> set (terminal_allowlist ex_config)" "''other'' \<notin> set (skills_enabled ex_config)"
    by (simp_all add: ex_config_def)
  have a1: "is_approved 100 ex_store ''file_read:/a'' = Inr False"
    using ledger_expiry_exact_scope [where now = 100 and store = ex_store
        and s = "''file_read:/a''", THEN conjunct2, THEN conjunct2, THEN conjunct2, THEN conjunct1]
    by (simp add: ex_store_def)
  have a2: "is_approved 100 ex_store ''terminal:git status'' = Inr True"
    using ledger_expiry_exact_scope [where now = 100 and store = ex_store
        and s = "''terminal:git status''", THEN conjunct2, THEN conjunct2, THEN conjunct1]
    by (simp add: ex_store_def)
  have a3: "is_approved 100 ex_store ''terminal:ls'' = Inr True"
    using ledger_expiry_exact_scope [where now = 100 and store = ex_store
        and s = "''terminal:ls''", THEN conjunct2, THEN conjunct2, THEN conjunct1]
    by (simp add: ex_store_def)
  have a4: "is_approved 100 ex_store ''terminal:git'' = Inr False"
    using ledger_expiry_exact_scope [where now = 100 and store = ex_store
        and s = "''terminal:git''", THEN conjunct2, THEN conjunct2, THEN conjunct1]
    by (simp add: ex_store_def)
  have p: "check_path demo_resolve 100 \<lparr>config = ex_config, approvals = ex_store\<rparr>
          ''/a'' [''/data''] ''file_read''
       = Inr \<lparr>allowed = False, reason = ''Path not allowlisted'', scope = ''file_read:/a'',
              requires_approval = True\<rparr>"
    using a1 by (simp add: check_path_def ex_config_def demo_resolve_def demo_parts_def
        components_def is_relative_to_def)
  note t = ledger_expiry_exact_scope [where now = 100
        and self = "\<lparr>config = ex_config, approvals = ex_store\<rparr>" and res = demo_resolve
        and path = "''/a''" and allowlist = "[''/data'']" and scope_prefix = "''file_read''"
        and d = "\<lparr>allowed = False, reason = ''Path not allowlisted'', scope = ''file_read:/a'',
              requires_approval = True\<rparr>",
        THEN conjunct2, THEN conjunct2, THEN conjunct2, THEN conjunct2, THEN conjunct2,
        THEN conjunct2, THEN conjunct2, THEN conjunct2, THEN conjunct2, THEN conjunct2,
        THEN conjunct2, THEN conjunct1, rule_format, OF p]
  have a5: "is_approved 100 ex_store ''file_read:/a'' \<noteq> Inr True"
    using t by (simp add: c)
  have a6: "is_approved 100 (add \<lparr>records = []\<rparr> ''terminal:git status'' None) ''terminal:git status''
       = Inr True"
    using ledger_expiry_exact_scope [where now = 100 and store = "\<lparr>records = []\<rparr>"
        and s = "''terminal:git status''"]
    by (simp add: e)
  have a7: "is_approved 100 (add \<lparr>records = []\<rparr> ''terminal:ls'' (Some (Aware 200))) ''terminal:ls''
       = Inr True"
    using ledger_expiry_exact_scope [where now = 100 and store = "\<lparr>records = []\<rparr>"
        and s = "''terminal:ls''" and t = 200]
    by (simp add: e)
  have a8: "is_approved 100 (add \<lparr>records = []\<rparr> ''file_read:/a'' (Some (Aware 50))) ''file_read:/a''
       = Inr False"
    using ledger_expiry_exact_scope [where now = 100 and store = "\<lparr>records = []\<rparr>"
        and s = "''file_read:/a''" and s' = "''file_read:/a''" and t = 50]
    by (simp add: e)
  have a9: "is_approved 100 (add \<lparr>records = []\<rparr> ''file_read:/a'' None) ''file_read:/b'' = Inr False"
    using ledger_expiry_exact_scope [where now = 100 and store = "\<lparr>records = []\<rparr>"
        and s = "''file_read:/a''" and s' = "''file_read:/b''" and x = None]
    by (simp add: e)
  have a10: "is_approved 100 (add \<lparr>records = []\<rparr> ''terminal:ls'' (Some (Naive year_2100))) ''terminal:ls''
       = Inl cannot_compare"
    using ledger_expiry_exact_scope [where now = 100 and store = "\<lparr>records = []\<rparr>"
        and s = "''terminal:ls''" and t = year_2100]
    by (simp add: e)
  have a11: "is_approved 100 (add ex_store ''terminal:ls'' (Some (Naive year_2100))) ''terminal:ls''
       = Inr True"
    using ledger_expiry_exact_scope [where now = 100 and store = ex_store
        and s = "''terminal:ls''" and t = year_2100]
    by (simp add: a3)
  have a12: "check_terminal 100
        \<lparr>config = ex_config,
         approvals = add \<lparr>records = []\<rparr> ''terminal:ls'' (Some (Naive year_2100))\<rparr> ''ls''
       = Inl cannot_compare"
    using ledger_expiry_exact_scope [where now = 100
        and self = "\<lparr>config = ex_config,
           approvals = add \<lparr>records = []\<rparr> ''terminal:ls'' (Some (Naive year_2100))\<rparr>"
        and command = "''ls''" and exc = cannot_compare]
      a10
    by (simp add: c)
  have a13: "check_skill 100
        \<lparr>config = ex_config,
         approvals = add \<lparr>records = []\<rparr> ''skill:other'' (Some (Naive year_2100))\<rparr> ''other''
       = Inl cannot_compare"
    using ledger_expiry_exact_scope [where now = 100 and store = "\<lparr>records = []\<rparr>"
        and s = "''skill:other''" and t = year_2100
        and self = "\<lparr>config = ex_config,
           approvals = add \<lparr>records = []\<rparr> ''skill:other'' (Some (Naive year_2100))\<rparr>"
        and skill_name = "''other''" and exc = cannot_compare]
    by (simp add: c e)
  from a1 a2 a3 a4 a5 p a6 a7 a8 a9 a10 a11 a12 a13 show ?thesis by (simp only: simp_thms)
qed

text \<open>
  Against C3 as stated: a grant whose expiry is naive, as the approvals endpoint stores
  it when the request gives a time without a zone. The expiry lies in the future of the
  check and the scope is the one asked for, and neither \<open>is_approved\<close> nor the check of
  the command returns; they raise.
\<close>

theorem naive_expiry_raises:
  "100 < year_2100
   \<and> is_approved 100 (add \<lparr>records = []\<rparr> ''terminal:ls'' (Some (Naive year_2100))) ''terminal:ls''
       = Inl (TypeError (''can'' @ [CHR 0x27] @ ''t compare offset-naive and offset-aware datetimes''))
   \<and> check_terminal 100
        \<lparr>config = ex_config,
         approvals = add \<lparr>records = []\<rparr> ''terminal:ls'' (Some (Naive year_2100))\<rparr> ''ls''
       = Inl (TypeError (''can'' @ [CHR 0x27] @ ''t compare offset-naive and offset-aware datetimes''))"
  by (simp add: year_2100_def is_approved_def add_def check_terminal_def ex_config_def
      cannot_compare_def)


section \<open>The context operations\<close>

text \<open>How the combinators run once the outcome of their first part is known.\<close>

lemma io_bind_Inl: "m w = (Inl e, w') \<Longrightarrow> io_bind m f w = (Inl e, w')"
  by (simp add: io_bind_def)

lemma io_bind_Inr: "m w = (Inr x, w') \<Longrightarrow> io_bind m f w = f x w'"
  by (simp add: io_bind_def)

lemma io_try_Inr: "m w = (Inr x, w') \<Longrightarrow> io_try c m h w = (Inr x, w')"
  by (simp add: io_try_def)

lemma io_try_caught: "m w = (Inl e, w') \<Longrightarrow> c e \<Longrightarrow> io_try c m h w = h e w'"
  by (simp add: io_try_def)

lemma io_try_escapes: "m w = (Inl e, w') \<Longrightarrow> \<not> c e \<Longrightarrow> io_try c m h w = (Inl e, w')"
  by (simp add: io_try_def)

text \<open>
  Claim C4 (a denial has no effect). When the policy check of \<^verbatim>\<open>read_file\<close>,
  \<^verbatim>\<open>write_file\<close> or \<^verbatim>\<open>run_command\<close> returns a decision that denies, the operation returns
  one result, with \<open>success = False\<close>, the reason of the decision as error and the
  decision in the metadata, and it returns the host in the state it found it: no
  operation on files, no process and no write to the audit log has taken place.
  (Resolving the path, which the check of a path does, is a lookup.)
\<close>

theorem denial_has_no_effect:
  "(check_file_read (resolve host w) (utcnow host w) (policy self) path = Inr decision
      \<and> \<not> allowed decision \<longrightarrow>
      read_file host self path w = (Inr (denied decision), w))
   \<and> (check_file_write (resolve host w) (utcnow host w) (policy self) path = Inr decision
      \<and> \<not> allowed decision \<longrightarrow>
      write_file host self path content w = (Inr (denied decision), w))
   \<and> (check_terminal (utcnow host w) (policy self) (join_str '' '' command) = Inr decision
      \<and> \<not> allowed decision \<longrightarrow>
      run_command host self command w = (Inr (denied decision), w))
   \<and> \<not> success (denied decision)
   \<and> error (denied decision) = Some (reason decision)
   \<and> metadata (denied decision) = [(''approval'', model_dump decision)]"
  by (simp add: read_file_def write_file_def run_command_def denied_def Let_def)

text \<open>
  C4 on the small host: a read of \<^verbatim>\<open>/etc/shadow\<close> with the allowlist \<^verbatim>\<open>/data\<close>, a write
  to it, and a command that is not allowlisted. The trace of the host stays empty.
\<close>

theorem denial_has_no_effect_witness:
  "read_file (demo_host []) ex_context ''/etc/shadow'' ex_world
     = (Inr \<lparr>success = False, output = None, error = Some ''Path not allowlisted'',
             metadata = [(''approval'', PDict [(''allowed'', PBool False),
                (''reason'', PStr ''Path not allowlisted''), (''scope'', PStr ''file_read:/etc/shadow''),
                (''requires_approval'', PBool True)])]\<rparr>, ex_world)
   \<and> write_file (demo_host []) ex_context ''/etc/shadow'' ''x'' ex_world
     = (Inr \<lparr>success = False, output = None, error = Some ''Path not allowlisted'',
             metadata = [(''approval'', PDict [(''allowed'', PBool False),
                (''reason'', PStr ''Path not allowlisted''), (''scope'', PStr ''file_write:/etc/shadow''),
                (''requires_approval'', PBool True)])]\<rparr>, ex_world)
   \<and> run_command (demo_host []) ex_context [''rm'', ''-rf'', ''/''] ex_world
     = (Inr \<lparr>success = False, output = None, error = Some ''Command not allowlisted'',
             metadata = [(''approval'', PDict [(''allowed'', PBool False),
                (''reason'', PStr ''Command not allowlisted''), (''scope'', PStr ''terminal:rm -rf /''),
                (''requires_approval'', PBool True)])]\<rparr>, ex_world)
   \<and> trace ex_world = []"
proof -
  have h: "resolve (demo_host []) = (\<lambda>w. demo_resolve)" "utcnow (demo_host []) = clock"
    "clock ex_world = 100"
    by (simp_all add: demo_host_def ex_world_def)
  have r: "check_file_read demo_resolve 100 (policy ex_context) ''/etc/shadow''
      = Inr \<lparr>allowed = False, reason = ''Path not allowlisted'', scope = ''file_read:/etc/shadow'',
             requires_approval = True\<rparr>"
    by (simp add: ex_context_def ex_config_def check_file_read_def check_path_def is_approved_def
        demo_resolve_def demo_parts_def components_def is_relative_to_def)
  have wr: "check_file_write demo_resolve 100 (policy ex_context) ''/etc/shadow''
      = Inr \<lparr>allowed = False, reason = ''Path not allowlisted'', scope = ''file_write:/etc/shadow'',
             requires_approval = True\<rparr>"
    by (simp add: ex_context_def ex_config_def check_file_write_def check_path_def is_approved_def
        demo_resolve_def demo_parts_def components_def is_relative_to_def)
  have t: "check_terminal 100 (policy ex_context) (join_str '' '' [''rm'', ''-rf'', ''/''])
      = Inr \<lparr>allowed = False, reason = ''Command not allowlisted'', scope = ''terminal:rm -rf /'',
             requires_approval = True\<rparr>"
    by (simp add: ex_context_def ex_config_def check_terminal_def is_approved_def)
  have a: "read_file (demo_host []) ex_context ''/etc/shadow'' ex_world
      = (Inr (denied \<lparr>allowed = False, reason = ''Path not allowlisted'',
                scope = ''file_read:/etc/shadow'', requires_approval = True\<rparr>), ex_world)"
    using denial_has_no_effect [where host = "demo_host []" and w = ex_world and self = ex_context
        and path = "''/etc/shadow''"
        and decision = "\<lparr>allowed = False, reason = ''Path not allowlisted'',
                scope = ''file_read:/etc/shadow'', requires_approval = True\<rparr>"]
      r
    by (simp add: h)
  have b: "write_file (demo_host []) ex_context ''/etc/shadow'' ''x'' ex_world
      = (Inr (denied \<lparr>allowed = False, reason = ''Path not allowlisted'',
                scope = ''file_write:/etc/shadow'', requires_approval = True\<rparr>), ex_world)"
    using denial_has_no_effect [where host = "demo_host []" and w = ex_world and self = ex_context
        and path = "''/etc/shadow''" and content = "''x''"
        and decision = "\<lparr>allowed = False, reason = ''Path not allowlisted'',
                scope = ''file_write:/etc/shadow'', requires_approval = True\<rparr>"]
      wr
    by (simp add: h)
  have c: "run_command (demo_host []) ex_context [''rm'', ''-rf'', ''/''] ex_world
      = (Inr (denied \<lparr>allowed = False, reason = ''Command not allowlisted'',
                scope = ''terminal:rm -rf /'', requires_approval = True\<rparr>), ex_world)"
    using denial_has_no_effect [where host = "demo_host []" and w = ex_world and self = ex_context
        and command = "[''rm'', ''-rf'', ''/'']"
        and decision = "\<lparr>allowed = False, reason = ''Command not allowlisted'',
                scope = ''terminal:rm -rf /'', requires_approval = True\<rparr>"]
      t
    by (simp add: h)
  from a b c show ?thesis
    by (simp add: denied_def model_dump_def ex_world_def)
qed

text \<open>
  Claim C7 (resource faults), as the code has it. \<^verbatim>\<open>read_file\<close> and \<^verbatim>\<open>write_file\<close> have no
  handler: when the policy allows and reading the file (or creating the directory of the
  target) raises, the exception leaves the operation. \<^verbatim>\<open>run_command\<close> is the one operation
  that returns a fault as data: an \<^verbatim>\<open>OSError\<close> of the process launch becomes a result
  with \<open>success = False\<close> and the message as error.
\<close>

theorem resource_fault_escapes:
  "(check_file_read (resolve host w) (utcnow host w) (policy self) path = Inr decision
      \<and> allowed decision \<and> read_text host path w = (Inl e, w')
      \<longrightarrow> read_file host self path w = (Inl e, w'))
   \<and> (check_file_write (resolve host w) (utcnow host w) (policy self) path = Inr decision
      \<and> allowed decision \<and> mkdir host (path_parent host path) w = (Inl e, w')
      \<longrightarrow> write_file host self path content w = (Inl e, w'))
   \<and> (check_terminal (utcnow host w) (policy self) (join_str '' '' command) = Inr decision
      \<and> allowed decision \<and> subprocess_run host command w = (Inl e, w') \<and> is_OSError e
      \<longrightarrow> run_command host self command w
          = (Inr \<lparr>success = False, output = None, error = Some (exn_str e), metadata = []\<rparr>, w'))"
  by (simp add: read_file_def write_file_def run_command_def Let_def io_bind_Inl io_try_caught
      io_return_def)

text \<open>The three example requests pass the policy check.\<close>

lemma ex_read_allowed:
  "check_file_read demo_resolve 100 (policy ex_context) ''/data/missing.txt''
     = Inr \<lparr>allowed = True, reason = ''Allowlisted path'', scope = ''file_read:/data/missing.txt'',
            requires_approval = False\<rparr>"
  by (simp add: ex_context_def ex_config_def check_file_read_def check_path_def
      demo_resolve_def demo_parts_def components_def is_relative_to_def)

lemma ex_write_allowed:
  "check_file_write demo_resolve 100 (policy ex_context) ''/data/new.txt''
     = Inr \<lparr>allowed = True, reason = ''Allowlisted path'', scope = ''file_write:/data/new.txt'',
            requires_approval = False\<rparr>"
  by (simp add: ex_context_def ex_config_def check_file_write_def check_path_def
      demo_resolve_def demo_parts_def components_def is_relative_to_def)

lemma ex_terminal_allowed:
  "check_terminal 100 (policy ex_context) (join_str '' '' [''git'', ''status''])
     = Inr \<lparr>allowed = True, reason = ''Allowlisted command'', scope = ''terminal:git status'',
            requires_approval = False\<rparr>"
  by (simp add: ex_context_def ex_config_def check_terminal_def)

text \<open>
  C7 on the small host: reading \<^verbatim>\<open>/data/missing.txt\<close>, which is allowlisted and does not
  exist, raises the error of the host; so does a write where the directory cannot be
  created; a command whose program does not exist returns a failed result.
\<close>

theorem resource_fault_escapes_witness:
  "read_file (demo_host []) ex_context ''/data/missing.txt'' ex_world
     = (Inl (no_such_file ''/data/missing.txt''),
        ex_world\<lparr>trace := [ReadText ''/data/missing.txt'']\<rparr>)
   \<and> write_file readonly_host ex_context ''/data/new.txt'' ''x'' ex_world
     = (Inl (OSError ''[Errno 13] Permission denied''), ex_world\<lparr>trace := [Mkdir ''/data'']\<rparr>)
   \<and> run_command (demo_host []) ex_context [''git'', ''status''] (ex_world\<lparr>programs := []\<rparr>)
     = (Inr \<lparr>success = False, output = None,
             error = Some (exn_str (no_such_file ''git'')),
             metadata = []\<rparr>,
        ex_world\<lparr>programs := [], trace := [Spawn [''git'', ''status'']]\<rparr>)"
proof -
  have r: "read_text (demo_host []) ''/data/missing.txt'' ex_world
      = (Inl (no_such_file ''/data/missing.txt''), ex_world\<lparr>trace := [ReadText ''/data/missing.txt'']\<rparr>)"
    by (simp add: demo_host_def demo_read_text_def ex_world_def demo_key_def components_def
        path_str_def traced_def)
  have m: "mkdir readonly_host (path_parent readonly_host ''/data/new.txt'') ex_world
      = (Inl (OSError ''[Errno 13] Permission denied''), ex_world\<lparr>trace := [Mkdir ''/data'']\<rparr>)"
    by (simp add: readonly_host_def demo_host_def demo_parent_def ex_world_def components_def
        path_str_def traced_def is_absolute_def)
  have s: "subprocess_run (demo_host []) [''git'', ''status''] (ex_world\<lparr>programs := []\<rparr>)
      = (Inl (no_such_file ''git''), ex_world\<lparr>programs := [], trace := [Spawn [''git'', ''status'']]\<rparr>)"
    by (simp add: demo_host_def demo_subprocess_run_def ex_world_def traced_def)
  have h: "resolve (demo_host []) = (\<lambda>w. demo_resolve)" "utcnow (demo_host []) = clock"
    "resolve readonly_host = (\<lambda>w. demo_resolve)" "utcnow readonly_host = clock"
    "clock ex_world = 100" "clock (ex_world\<lparr>programs := []\<rparr>) = 100"
    by (simp_all add: demo_host_def readonly_host_def ex_world_def)
  have a: "read_file (demo_host []) ex_context ''/data/missing.txt'' ex_world
     = (Inl (no_such_file ''/data/missing.txt''), ex_world\<lparr>trace := [ReadText ''/data/missing.txt'']\<rparr>)"
    using resource_fault_escapes [where host = "demo_host []" and w = ex_world and self = ex_context
        and path = "''/data/missing.txt''" and e = "no_such_file ''/data/missing.txt''"
        and w' = "ex_world\<lparr>trace := [ReadText ''/data/missing.txt'']\<rparr>" and content = "[]"
        and command = "[]"
        and decision = "\<lparr>allowed = True, reason = ''Allowlisted path'',
            scope = ''file_read:/data/missing.txt'', requires_approval = False\<rparr>"]
      r ex_read_allowed
    by (simp add: h)
  have b: "write_file readonly_host ex_context ''/data/new.txt'' ''x'' ex_world
     = (Inl (OSError ''[Errno 13] Permission denied''), ex_world\<lparr>trace := [Mkdir ''/data'']\<rparr>)"
    using resource_fault_escapes [where host = readonly_host and w = ex_world and self = ex_context
        and path = "''/data/new.txt''" and e = "OSError ''[Errno 13] Permission denied''"
        and w' = "ex_world\<lparr>trace := [Mkdir ''/data'']\<rparr>" and content = "''x''"
        and command = "[]"
        and decision = "\<lparr>allowed = True, reason = ''Allowlisted path'',
            scope = ''file_write:/data/new.txt'', requires_approval = False\<rparr>"]
      m ex_write_allowed
    by (simp add: h)
  have c: "run_command (demo_host []) ex_context [''git'', ''status''] (ex_world\<lparr>programs := []\<rparr>)
     = (Inr \<lparr>success = False, output = None, error = Some (exn_str (no_such_file ''git'')),
             metadata = []\<rparr>,
        ex_world\<lparr>programs := [], trace := [Spawn [''git'', ''status'']]\<rparr>)"
    using resource_fault_escapes [where host = "demo_host []" and w = "ex_world\<lparr>programs := []\<rparr>"
        and self = ex_context and path = "[]" and e = "no_such_file ''git''"
        and w' = "ex_world\<lparr>programs := [], trace := [Spawn [''git'', ''status'']]\<rparr>"
        and content = "[]" and command = "[''git'', ''status'']"
        and decision = "\<lparr>allowed = True, reason = ''Allowlisted command'',
            scope = ''terminal:git status'', requires_approval = False\<rparr>"]
      s ex_terminal_allowed
    by (simp add: h no_such_file_def)
  from a b c show ?thesis by simp
qed


section \<open>The audit log\<close>

text \<open>
  The decimal text of a natural number has at most \<open>k\<close> digits exactly when the number
  is below the power \<open>k\<close> of 10, so the conversion of an integer returns exactly for the
  integers below the power 4300 of 10 in absolute value.
\<close>

lemma nat_repr_nonempty: "nat_repr n \<noteq> []"
  by (subst nat_repr.simps) simp

lemma nat_repr_length: "0 < k \<Longrightarrow> (length (nat_repr n) \<le> k) = (n < 10 ^ k)"
proof (induction n arbitrary: k rule: nat_repr.induct)
  case (1 n)
  show ?case
  proof (cases "n < 10")
    case True
    have "(10::nat) ^ 1 \<le> 10 ^ k" using 1(2) by (intro power_increasing) auto
    with True have "n < 10 ^ k" by simp
    moreover from True have "length (nat_repr n) = 1" by (subst nat_repr.simps) simp
    ultimately show ?thesis using 1(2) by simp
  next
    case False
    then have len: "length (nat_repr n) = Suc (length (nat_repr (n div 10)))"
      by (subst nat_repr.simps) simp
    show ?thesis
    proof (cases k)
      case 0
      with 1(2) show ?thesis by simp
    next
      case (Suc j)
      show ?thesis
      proof (cases "j = 0")
        case True
        with Suc False len show ?thesis by (simp add: nat_repr_nonempty)
      next
        case nz: False
        then have "(length (nat_repr (n div 10)) \<le> j) = (n div 10 < 10 ^ j)"
          using 1(1) [OF False, of j] by simp
        moreover have "(n div 10 < 10 ^ j) = (n < 10 ^ Suc j)"
          by (simp add: div_less_iff_less_mult mult.commute)
        ultimately show ?thesis using Suc len by simp
      qed
    qed
  qed
qed

lemma int_str_Inr: "(\<exists>s. int_str i = Inr s) = (\<bar>i\<bar> < 10 ^ int_max_str_digits)"
proof -
  have pos: "0 < int_max_str_digits" by (simp add: int_max_str_digits_def)
  have "(\<exists>s. int_str i = Inr s) = (length (nat_repr (nat \<bar>i\<bar>)) \<le> int_max_str_digits)"
    by (auto simp: int_str_def)
  also have "\<dots> = (nat \<bar>i\<bar> < 10 ^ int_max_str_digits)"
    by (rule nat_repr_length [OF pos])
  also have "\<dots> = (\<bar>i\<bar> < 10 ^ int_max_str_digits)"
    by (simp add: nat_less_iff)
  finally show ?thesis .
qed

lemma int_str_Inl: "int_str i = Inl e \<Longrightarrow> e = exceeds_limit \<and> \<not> \<bar>i\<bar> < 10 ^ int_max_str_digits"
  using int_str_Inr [of i] by (auto simp: int_str_def split: if_splits)

text \<open>
  \<^verbatim>\<open>json.dumps\<close> returns exactly on the values that are made of JSON types and have
  short integers. What it raises otherwise is a \<^verbatim>\<open>TypeError\<close>, for a value that is not
  made of JSON types, or the \<^verbatim>\<open>ValueError\<close> of the conversion of an integer, for a
  value with a long one; both derive from \<^verbatim>\<open>Exception\<close>.
\<close>

lemma first_error_Inr:
  "(\<exists>xs. first_error rs = Inr xs) = (\<forall>r \<in> set rs. \<exists>x. r = Inr x)"
proof (induction rs)
  case Nil
  then show ?case by simp
next
  case (Cons r rs)
  then show ?case by (cases r) (auto split: sum.splits)
qed

lemma first_error_Inl:
  "first_error rs = Inl e \<Longrightarrow> Inl e \<in> set rs"
proof (induction rs)
  case Nil
  then show ?case by simp
next
  case (Cons r rs)
  then show ?case by (cases r) (auto split: sum.splits)
qed

lemma json_dumps_Inr: "(\<exists>s. json_dumps v = Inr s) = (json_types v \<and> short_ints v)"
proof (induction v)
  case (PInt i)
  show ?case by (simp add: int_str_Inr)
next
  case (PList xs)
  have "(\<exists>s. json_dumps (PList xs) = Inr s) = (\<exists>ss. first_error (map json_dumps xs) = Inr ss)"
    by (auto split: sum.splits)
  also have "\<dots> = (\<forall>x \<in> set xs. \<exists>s. json_dumps x = Inr s)"
    by (simp add: first_error_Inr)
  also have "\<dots> = (list_all json_types xs \<and> list_all short_ints xs)"
    using PList by (auto simp: list_all_iff)
  finally show ?case by simp
next
  case (PTuple xs)
  have "(\<exists>s. json_dumps (PTuple xs) = Inr s) = (\<exists>ss. first_error (map json_dumps xs) = Inr ss)"
    by (auto split: sum.splits)
  also have "\<dots> = (\<forall>x \<in> set xs. \<exists>s. json_dumps x = Inr s)"
    by (simp add: first_error_Inr)
  also have "\<dots> = (list_all json_types xs \<and> list_all short_ints xs)"
    using PTuple by (auto simp: list_all_iff)
  finally show ?case by simp
next
  case (PDict kvs)
  let ?f = "\<lambda>kv. case json_dumps (snd kv) of Inl e \<Rightarrow> Inl e
                   | Inr s \<Rightarrow> Inr (json_string (fst kv) @ '': '' @ s)"
  have "(\<exists>s. json_dumps (PDict kvs) = Inr s) = (\<exists>ss. first_error (map ?f kvs) = Inr ss)"
    by (auto split: sum.splits)
  also have "\<dots> = (\<forall>kv \<in> set kvs. \<exists>s. ?f kv = Inr s)"
    by (simp add: first_error_Inr)
  also have "\<dots> = (\<forall>kv \<in> set kvs. \<exists>s. json_dumps (snd kv) = Inr s)"
  proof -
    have "(\<exists>s. ?f kv = Inr s) = (\<exists>s. json_dumps (snd kv) = Inr s)" for kv
      by (cases "json_dumps (snd kv)") auto
    then show ?thesis by simp
  qed
  also have "\<dots> = (list_all (\<lambda>kv. json_types (snd kv)) kvs \<and> list_all (\<lambda>kv. short_ints (snd kv)) kvs)"
    using PDict by (auto simp: list_all_iff snds.simps)
  finally show ?case by simp
qed simp_all

lemma json_dumps_Inl:
  "json_dumps v = Inl e \<Longrightarrow>
     ((\<exists>m. e = TypeError m) \<and> \<not> json_types v) \<or> (e = exceeds_limit \<and> \<not> short_ints v)"
proof (induction v arbitrary: e)
  case (PInt i)
  then show ?case using int_str_Inl [of i e] by simp
next
  case (PList xs)
  from PList.prems have "first_error (map json_dumps xs) = Inl e"
    by (auto split: sum.splits)
  then have "Inl e \<in> set (map json_dumps xs)" by (rule first_error_Inl)
  then obtain x where "x \<in> set xs" "json_dumps x = Inl e" by auto
  with PList.IH [of x e] show ?case by (auto simp: list_all_iff)
next
  case (PTuple xs)
  from PTuple.prems have "first_error (map json_dumps xs) = Inl e"
    by (auto split: sum.splits)
  then have "Inl e \<in> set (map json_dumps xs)" by (rule first_error_Inl)
  then obtain x where "x \<in> set xs" "json_dumps x = Inl e" by auto
  with PTuple.IH [of x e] show ?case by (auto simp: list_all_iff)
next
  case (PDict kvs)
  let ?f = "\<lambda>kv. case json_dumps (snd kv) of Inl e \<Rightarrow> Inl e
                   | Inr s \<Rightarrow> Inr (json_string (fst kv) @ '': '' @ s)"
  from PDict.prems have "first_error (map ?f kvs) = Inl e"
    by (auto split: sum.splits)
  then have "Inl e \<in> set (map ?f kvs)" by (rule first_error_Inl)
  then obtain kv where kv: "kv \<in> set kvs" "?f kv = Inl e" by auto
  then have "json_dumps (snd kv) = Inl e" by (auto split: sum.splits)
  with PDict.IH [of kv "snd kv" e] kv(1)
  have "((\<exists>m. e = TypeError m) \<and> \<not> json_types (snd kv))
      \<or> (e = exceeds_limit \<and> \<not> short_ints (snd kv))"
    by (cases kv) (auto simp: snds.simps)
  with kv(1) show ?case
    by (fastforce simp: list_all_iff)
qed auto

lemma json_dumps_is_Exception: "json_dumps v = Inl e \<Longrightarrow> is_Exception e"
  using json_dumps_Inl [of v e] by (auto simp: exceeds_limit_def)

text \<open>Redaction keeps the shape of a value and works on its leaves.\<close>

lemma json_types_redact: "json_types (redact sub ps v) = json_types v"
  by (induction v) (auto simp: list_all_iff snds.simps)

lemma short_ints_redact: "short_ints (redact sub ps v) = short_ints v"
  by (induction v) (auto simp: list_all_iff snds.simps)

lemma leaves_redact: "leaves (redact sub ps v) = map (redact_leaf sub ps) (leaves v)"
proof (induction v)
  case (PList xs)
  then show ?case by (simp add: map_concat comp_def cong: map_cong)
next
  case (PDict kvs)
  have "\<And>kv. kv \<in> set kvs \<Longrightarrow>
          leaves (redact sub ps (snd kv)) = map (redact_leaf sub ps) (leaves (snd kv))"
    using PDict by (auto simp: snds.simps)
  then show ?case by (simp add: map_concat comp_def cong: map_cong)
qed simp_all

lemma redact_twice:
  "(redact sub ps (redact sub ps v) = redact sub ps v)
     = (\<forall>s. PStr s \<in> set (leaves v) \<longrightarrow>
          redact_str sub ps (redact_str sub ps s) = redact_str sub ps s)"
proof (induction v)
  case (PList xs)
  then show ?case by (auto simp: comp_def)
next
  case (PDict kvs)
  have ih: "\<And>kv. kv \<in> set kvs \<Longrightarrow>
      (redact sub ps (redact sub ps (snd kv)) = redact sub ps (snd kv))
       = (\<forall>s. PStr s \<in> set (leaves (snd kv)) \<longrightarrow>
            redact_str sub ps (redact_str sub ps s) = redact_str sub ps s)"
    using PDict by (auto simp: snds.simps)
  then show ?case by (auto simp: comp_def)
qed simp_all

lemma redact_str_fold: "redact_str sub ps s = fold (\<lambda>p t. sub p ''<redacted>'' t) ps s"
  by (induction ps arbitrary: s) simp_all

lemma redact_keys:
  "\<exists>kvs'. redact sub ps (PDict kvs) = PDict kvs' \<and> map fst kvs' = map fst kvs"
  by (simp add: comp_def)

lemma map_of_dict_set: "map_of (dict_set kvs k v) k = Some v"
  by (induction kvs) auto

lemma filter_dict_set:
  "filter (\<lambda>kv. fst kv \<noteq> k) (dict_set kvs k v) = filter (\<lambda>kv. fst kv \<noteq> k) kvs"
  by (induction kvs) auto

lemma log_payload:
  "fst (snd (log host self payload w)) = dict_set payload ''timestamp'' (PStr (utcnow_iso host w))"
  by (simp add: log_def Let_def split: prod.splits sum.splits)

text \<open>
  Claim C6 (redaction), as the code has it. Redaction reaches every leaf of the payload
  through the values of dictionaries and the items of lists: a string leaf is rewritten by
  each pattern in turn, every other leaf (a number, a boolean, the null value) is
  unchanged, and a dictionary keeps its keys as they are. Redacting a second time changes
  nothing exactly when the patterns leave each once-redacted string leaf as it is; that
  depends on the configured patterns. What \<^verbatim>\<open>log\<close> writes when it returns is the JSON
  encoding of the redacted payload.
\<close>

theorem redaction_reaches_the_leaves:
  "leaves (redact sub ps v) = map (redact_leaf sub ps) (leaves v)
   \<and> redact_leaf sub ps (PStr s) = PStr (fold (\<lambda>p t. sub p ''<redacted>'' t) ps s)
   \<and> redact sub ps PNone = PNone
   \<and> redact sub ps (PBool b) = PBool b
   \<and> redact sub ps (PInt i) = PInt i
   \<and> redact sub ps (PFloat r) = PFloat r
   \<and> (\<exists>kvs'. redact sub ps (PDict kvs) = PDict kvs' \<and> map fst kvs' = map fst kvs)
   \<and> ((redact sub ps (redact sub ps v) = redact sub ps v)
        = (\<forall>s. PStr s \<in> set (leaves v) \<longrightarrow>
             redact_str sub ps (redact_str sub ps s) = redact_str sub ps s))
   \<and> (log host self payload w = (Inr (), payload', w') \<longrightarrow>
        (\<exists>line w1.
           json_dumps (redact (re_sub host) (compiled self) (PDict payload')) = Inr line
           \<and> handle_write host (log_path self) (line @ [CHR 0x0A]) w1 = (Inr (), w')))"
proof -
  have written: "log host self payload w = (Inr (), payload', w') \<longrightarrow>
        (\<exists>line w1.
           json_dumps (redact (re_sub host) (compiled self) (PDict payload')) = Inr line
           \<and> handle_write host (log_path self) (line @ [CHR 0x0A]) w1 = (Inr (), w'))"
    by (auto simp: log_def Let_def split: prod.splits sum.splits)
  from leaves_redact [of sub ps v] redact_str_fold [of sub ps s] redact_keys [of sub ps kvs]
    redact_twice [of sub ps v] written
  show ?thesis by simp
qed

text \<open>
  C6 with the pattern \<^verbatim>\<open>hunter2\<close> on a payload with a string, a number and a list:
  both strings are rewritten, and a second redaction changes nothing. The line that
  \<^verbatim>\<open>log\<close> writes for a payload with the secret holds the replacement text.
\<close>

theorem redaction_reaches_the_leaves_witness:
  "redact literal_sub [''hunter2'']
      (PDict [(''msg'', PStr ''pw hunter2''), (''n'', PInt 3),
              (''args'', PList [PStr ''hunter2 hunter2'', PNone])])
     = PDict [(''msg'', PStr ''pw <redacted>''), (''n'', PInt 3),
              (''args'', PList [PStr ''<redacted> <redacted>'', PNone])]
   \<and> redact literal_sub [''hunter2'']
        (redact literal_sub [''hunter2'']
          (PDict [(''msg'', PStr ''pw hunter2''), (''n'', PInt 3),
                  (''args'', PList [PStr ''hunter2 hunter2'', PNone])]))
     = redact literal_sub [''hunter2'']
          (PDict [(''msg'', PStr ''pw hunter2''), (''n'', PInt 3),
                  (''args'', PList [PStr ''hunter2 hunter2'', PNone])])
   \<and> (\<exists>w1. handle_write (demo_host []) ''/var/audit_log.jsonl''
               (''{\"msg\": \"pw <redacted>\", \"timestamp\": \"1970-01-01T00:00:00.000100+00:00\"}'' @ [CHR 0x0A]) w1
          = (Inr (), snd (snd (log (demo_host []) ex_logger [(''msg'', PStr ''pw hunter2'')] ex_world))))"
proof -
  let ?v = "PDict [(''msg'', PStr ''pw hunter2''), (''n'', PInt 3),
                   (''args'', PList [PStr ''hunter2 hunter2'', PNone])]"
  let ?stamped = "[(''msg'', PStr ''pw hunter2''), (''timestamp'', PStr ''1970-01-01T00:00:00.000100+00:00'')]"
  let ?w' = "snd (snd (log (demo_host []) ex_logger [(''msg'', PStr ''pw hunter2'')] ex_world))"
  have once: "redact literal_sub [''hunter2''] ?v
     = PDict [(''msg'', PStr ''pw <redacted>''), (''n'', PInt 3),
              (''args'', PList [PStr ''<redacted> <redacted>'', PNone])]"
    by code_simp
  have l: "leaves ?v = [PStr ''pw hunter2'', PInt 3, PStr ''hunter2 hunter2'', PNone]"
    by simp
  have s1: "redact_str literal_sub [''hunter2''] (redact_str literal_sub [''hunter2''] ''pw hunter2'')
      = redact_str literal_sub [''hunter2''] ''pw hunter2''"
    by code_simp
  have s2: "redact_str literal_sub [''hunter2''] (redact_str literal_sub [''hunter2''] ''hunter2 hunter2'')
      = redact_str literal_sub [''hunter2''] ''hunter2 hunter2''"
    by code_simp
  have logged: "log (demo_host []) ex_logger [(''msg'', PStr ''pw hunter2'')] ex_world
      = (Inr (), ?stamped, ?w')"
  proof -
    have "fst (log (demo_host []) ex_logger [(''msg'', PStr ''pw hunter2'')] ex_world) = Inr ()"
      "fst (snd (log (demo_host []) ex_logger [(''msg'', PStr ''pw hunter2'')] ex_world)) = ?stamped"
      by code_simp+
    then show ?thesis by (simp add: prod_eq_iff)
  qed
  have line: "json_dumps (redact (re_sub (demo_host [])) (compiled ex_logger) (PDict ?stamped))
      = Inr ''{\"msg\": \"pw <redacted>\", \"timestamp\": \"1970-01-01T00:00:00.000100+00:00\"}''"
    by code_simp
  note t = redaction_reaches_the_leaves [where sub = literal_sub and ps = "[''hunter2'']" and v = ?v
        and s = "[]" and b = True and i = 0 and r = "''0.5''" and kvs = "[]" and host = "demo_host []"
        and self = ex_logger and payload = "[(''msg'', PStr ''pw hunter2'')]" and w = ex_world
        and payload' = ?stamped and w' = ?w']
  have twice: "redact literal_sub [''hunter2''] (redact literal_sub [''hunter2''] ?v)
      = redact literal_sub [''hunter2''] ?v"
    using t s1 s2 unfolding l by auto
  from t logged have "\<exists>line w1.
      json_dumps (redact (re_sub (demo_host [])) (compiled ex_logger) (PDict ?stamped)) = Inr line
      \<and> handle_write (demo_host []) (log_path ex_logger) (line @ [CHR 0x0A]) w1 = (Inr (), ?w')"
    by blast
  then have written: "\<exists>w1. handle_write (demo_host []) ''/var/audit_log.jsonl''
               (''{\"msg\": \"pw <redacted>\", \"timestamp\": \"1970-01-01T00:00:00.000100+00:00\"}'' @ [CHR 0x0A]) w1
          = (Inr (), ?w')"
    unfolding line by (auto simp: ex_logger_def)
  from once twice written show ?thesis by blast
qed

text \<open>
  Against C6 as stated. With the pattern \<^verbatim>\<open>red\<close>, which matches inside the replacement
  text, redacting the redacted string changes it again. And a dictionary key that matches
  a pattern is written to the log as it is.
\<close>

theorem redaction_twice_differs:
  "redact literal_sub [''red''] (redact literal_sub [''red''] (PStr ''red''))
     \<noteq> redact literal_sub [''red''] (PStr ''red'')
   \<and> map_of (files (snd (snd (log (demo_host []) ex_logger [(''hunter2'', PStr ''x'')] ex_world))))
         ''/var/audit_log.jsonl''
       = Some (''{\"hunter2\": \"x\", \"timestamp\": \"1970-01-01T00:00:00.000100+00:00\"}'' @ [CHR 0x0A])"
  by code_simp

text \<open>
  Claim C8 (\<^verbatim>\<open>log\<close> and exceptions), as the code has it. \<^verbatim>\<open>log\<close> has no handler. An
  exception of opening the log file leaves the call. Once the file is open: a stamped
  payload that is made of JSON types (dictionaries, lists, tuples, strings, integers,
  floats, booleans, \<^verbatim>\<open>None\<close>) and whose integers are short is encoded to one line, and the
  call returns normally exactly when the write of that line does; a stamped payload that
  holds an object of another class makes \<^verbatim>\<open>json.dumps\<close> raise \<^verbatim>\<open>TypeError\<close>, and one that
  holds an integer of more than 4300 digits makes it raise \<^verbatim>\<open>ValueError\<close> (when it holds
  both, the one of the two that the encoder meets first); the exception leaves the call
  with nothing written.
\<close>

theorem log_outcomes:
  "(open_append host (log_path self) w = (Inl e, w1) \<longrightarrow>
      log host self payload w
        = (Inl e, dict_set payload ''timestamp'' (PStr (utcnow_iso host w)), w1))
   \<and> (open_append host (log_path self) w = (Inr (), w1)
        \<and> \<not> json_types (PDict (dict_set payload ''timestamp'' (PStr (utcnow_iso host w))))
        \<and> short_ints (PDict (dict_set payload ''timestamp'' (PStr (utcnow_iso host w)))) \<longrightarrow>
      (\<exists>m. log host self payload w
        = (Inl (TypeError m), dict_set payload ''timestamp'' (PStr (utcnow_iso host w)), w1)))
   \<and> (open_append host (log_path self) w = (Inr (), w1)
        \<and> json_types (PDict (dict_set payload ''timestamp'' (PStr (utcnow_iso host w))))
        \<and> \<not> short_ints (PDict (dict_set payload ''timestamp'' (PStr (utcnow_iso host w)))) \<longrightarrow>
      log host self payload w
        = (Inl exceeds_limit, dict_set payload ''timestamp'' (PStr (utcnow_iso host w)), w1))
   \<and> (open_append host (log_path self) w = (Inr (), w1)
        \<and> \<not> json_types (PDict (dict_set payload ''timestamp'' (PStr (utcnow_iso host w))))
        \<and> \<not> short_ints (PDict (dict_set payload ''timestamp'' (PStr (utcnow_iso host w)))) \<longrightarrow>
      (\<exists>m. log host self payload w
        = (Inl (TypeError m), dict_set payload ''timestamp'' (PStr (utcnow_iso host w)), w1))
      \<or> log host self payload w
        = (Inl exceeds_limit, dict_set payload ''timestamp'' (PStr (utcnow_iso host w)), w1))
   \<and> (open_append host (log_path self) w = (Inr (), w1)
        \<and> json_types (PDict (dict_set payload ''timestamp'' (PStr (utcnow_iso host w))))
        \<and> short_ints (PDict (dict_set payload ''timestamp'' (PStr (utcnow_iso host w)))) \<longrightarrow>
      (\<exists>line.
         json_dumps (redact (re_sub host) (compiled self)
            (PDict (dict_set payload ''timestamp'' (PStr (utcnow_iso host w))))) = Inr line
         \<and> log host self payload w
           = (case handle_write host (log_path self) (line @ [CHR 0x0A]) w1 of
                (Inl e', w2) \<Rightarrow> (Inl e', dict_set payload ''timestamp'' (PStr (utcnow_iso host w)), w2)
              | (Inr u, w2) \<Rightarrow> (Inr (), dict_set payload ''timestamp'' (PStr (utcnow_iso host w)), w2))))"
proof -
  let ?stamped = "dict_set payload ''timestamp'' (PStr (utcnow_iso host w))"
  let ?redacted = "redact (re_sub host) (compiled self) (PDict ?stamped)"
  have jt: "json_types ?redacted = json_types (PDict ?stamped)"
    by (rule json_types_redact)
  have si: "short_ints ?redacted = short_ints (PDict ?stamped)"
    by (rule short_ints_redact)
  have raised: "log host self payload w = (Inl e', ?stamped, w1)"
    if "open_append host (log_path self) w = (Inr (), w1)" "json_dumps ?redacted = Inl e'" for e'
    using that by (simp add: log_def Let_def)
  have fails: "\<exists>e'. json_dumps ?redacted = Inl e'
      \<and> (((\<exists>m. e' = TypeError m) \<and> \<not> json_types (PDict ?stamped))
          \<or> (e' = exceeds_limit \<and> \<not> short_ints (PDict ?stamped)))"
    if "\<not> (json_types (PDict ?stamped) \<and> short_ints (PDict ?stamped))"
  proof -
    from that have "\<nexists>s. json_dumps ?redacted = Inr s"
      unfolding json_dumps_Inr jt si by simp
    then obtain e' where e': "json_dumps ?redacted = Inl e'"
      by (cases "json_dumps ?redacted") auto
    from json_dumps_Inl [OF e'] e' show ?thesis unfolding jt si by blast
  qed
  have a: "open_append host (log_path self) w = (Inl e, w1) \<longrightarrow>
      log host self payload w = (Inl e, ?stamped, w1)"
    by (simp add: log_def Let_def)
  have b: "open_append host (log_path self) w = (Inr (), w1)
        \<and> \<not> json_types (PDict ?stamped) \<and> short_ints (PDict ?stamped) \<longrightarrow>
      (\<exists>m. log host self payload w = (Inl (TypeError m), ?stamped, w1))"
    using fails raised by blast
  have c: "open_append host (log_path self) w = (Inr (), w1)
        \<and> json_types (PDict ?stamped) \<and> \<not> short_ints (PDict ?stamped) \<longrightarrow>
      log host self payload w = (Inl exceeds_limit, ?stamped, w1)"
    using fails raised by blast
  have d: "open_append host (log_path self) w = (Inr (), w1)
        \<and> \<not> json_types (PDict ?stamped) \<and> \<not> short_ints (PDict ?stamped) \<longrightarrow>
      (\<exists>m. log host self payload w = (Inl (TypeError m), ?stamped, w1))
      \<or> log host self payload w = (Inl exceeds_limit, ?stamped, w1)"
    using fails raised by blast
  have f: "open_append host (log_path self) w = (Inr (), w1)
        \<and> json_types (PDict ?stamped) \<and> short_ints (PDict ?stamped) \<longrightarrow>
      (\<exists>line. json_dumps ?redacted = Inr line
         \<and> log host self payload w
           = (case handle_write host (log_path self) (line @ [CHR 0x0A]) w1 of
                (Inl e', w2) \<Rightarrow> (Inl e', ?stamped, w2)
              | (Inr u, w2) \<Rightarrow> (Inr (), ?stamped, w2)))"
  proof (intro impI, elim conjE)
    assume op: "open_append host (log_path self) w = (Inr (), w1)"
      and "json_types (PDict ?stamped)" "short_ints (PDict ?stamped)"
    then have "\<exists>s. json_dumps ?redacted = Inr s"
      unfolding json_dumps_Inr jt si by simp
    then obtain line where line: "json_dumps ?redacted = Inr line" by blast
    with op show "\<exists>line. json_dumps ?redacted = Inr line
         \<and> log host self payload w
           = (case handle_write host (log_path self) (line @ [CHR 0x0A]) w1 of
                (Inl e', w2) \<Rightarrow> (Inl e', ?stamped, w2)
              | (Inr u, w2) \<Rightarrow> (Inr (), ?stamped, w2))"
      by (simp add: log_def Let_def split: prod.splits sum.splits)
  qed
  from a b c d f show ?thesis by (simp only: simp_thms)
qed

text \<open>
  C8 on the small host: a payload with a string and a float is logged, a payload with a
  \<^verbatim>\<open>bytes\<close> object raises \<^verbatim>\<open>TypeError\<close>, a payload with the integer that is written
  with a one and 4300 zeros raises \<^verbatim>\<open>ValueError\<close>, a payload with both raises one of
  the two, and on the file system that cannot be written the error of opening the log is
  raised.
\<close>

theorem log_outcomes_witness:
  "fst (log (demo_host []) ex_logger [(''tool'', PStr ''file_read''), (''score'', PFloat ''0.5'')]
          ex_world) = Inr ()
   \<and> (\<exists>m. fst (log (demo_host []) ex_logger [(''blob'', PObj ''bytes'')] ex_world)
          = Inl (TypeError m))
   \<and> fst (log (demo_host []) ex_logger [(''n'', PInt (10 ^ int_max_str_digits))] ex_world)
       = Inl exceeds_limit
   \<and> ((\<exists>m. fst (log (demo_host []) ex_logger
                [(''n'', PInt (10 ^ int_max_str_digits)), (''blob'', PObj ''bytes'')] ex_world)
          = Inl (TypeError m))
       \<or> fst (log (demo_host []) ex_logger
                [(''n'', PInt (10 ^ int_max_str_digits)), (''blob'', PObj ''bytes'')] ex_world)
          = Inl exceeds_limit)
   \<and> fst (log readonly_host ex_logger [(''tool'', PStr ''file_read'')] ex_world)
       = Inl (OSError ''[Errno 13] Permission denied'')"
proof -
  let ?w1 = "ex_world\<lparr>files := [(''/data/report.txt'', ''hello''), (''/var/audit_log.jsonl'', [])],
                      trace := [OpenAppend ''/var/audit_log.jsonl'']\<rparr>"
  let ?ts = "PStr (utcnow_iso (demo_host []) ex_world)"
  have op: "open_append (demo_host []) (log_path ex_logger) ex_world = (Inr (), ?w1)"
    by code_simp
  have wr: "fst (handle_write (demo_host []) (log_path ex_logger) line ?w1) = Inr ()" for line
    by (simp add: demo_host_def demo_handle_write_def)
  have big: "\<not> \<bar>(10::int) ^ int_max_str_digits\<bar> < 10 ^ int_max_str_digits"
    by simp
  have good_types: "json_types (PDict (dict_set
        [(''tool'', PStr ''file_read''), (''score'', PFloat ''0.5'')] ''timestamp'' ?ts))"
    "short_ints (PDict (dict_set
        [(''tool'', PStr ''file_read''), (''score'', PFloat ''0.5'')] ''timestamp'' ?ts))"
    by simp_all
  have blob_types: "\<not> json_types (PDict (dict_set [(''blob'', PObj ''bytes'')] ''timestamp'' ?ts))"
    "short_ints (PDict (dict_set [(''blob'', PObj ''bytes'')] ''timestamp'' ?ts))"
    by simp_all
  have long_types: "json_types (PDict (dict_set [(''n'', PInt (10 ^ int_max_str_digits))]
        ''timestamp'' ?ts))"
    "\<not> short_ints (PDict (dict_set [(''n'', PInt (10 ^ int_max_str_digits))] ''timestamp'' ?ts))"
    using big by simp_all
  have both_types: "\<not> json_types (PDict (dict_set
        [(''n'', PInt (10 ^ int_max_str_digits)), (''blob'', PObj ''bytes'')] ''timestamp'' ?ts))"
    "\<not> short_ints (PDict (dict_set
        [(''n'', PInt (10 ^ int_max_str_digits)), (''blob'', PObj ''bytes'')] ''timestamp'' ?ts))"
    using big by simp_all
  note fifth = log_outcomes [where host = "demo_host []" and self = ex_logger and w = ex_world
        and ?w1.0 = ?w1 and payload = "[(''tool'', PStr ''file_read''), (''score'', PFloat ''0.5'')]"
        and e = "OSError []",
        THEN conjunct2, THEN conjunct2, THEN conjunct2, THEN conjunct2, rule_format,
        OF conjI [OF op conjI [OF good_types]]]
  from fifth obtain line where line:
    "log (demo_host []) ex_logger [(''tool'', PStr ''file_read''), (''score'', PFloat ''0.5'')] ex_world
       = (case handle_write (demo_host []) (log_path ex_logger) (line @ [CHR 0x0A]) ?w1 of
            (Inl e', w2) \<Rightarrow> (Inl e', dict_set [(''tool'', PStr ''file_read''), (''score'', PFloat ''0.5'')]
                                    ''timestamp'' ?ts, w2)
          | (Inr u, w2) \<Rightarrow> (Inr (), dict_set [(''tool'', PStr ''file_read''), (''score'', PFloat ''0.5'')]
                                    ''timestamp'' ?ts, w2))"
    by blast
  have good: "fst (log (demo_host []) ex_logger
        [(''tool'', PStr ''file_read''), (''score'', PFloat ''0.5'')] ex_world) = Inr ()"
    using wr [of "line @ [CHR 0x0A]"] unfolding line
    by (cases "handle_write (demo_host []) (log_path ex_logger) (line @ [CHR 0x0A]) ?w1") auto
  note second = log_outcomes [where host = "demo_host []" and self = ex_logger and w = ex_world
        and ?w1.0 = ?w1 and payload = "[(''blob'', PObj ''bytes'')]" and e = "OSError []",
        THEN conjunct2, THEN conjunct1, rule_format, OF conjI [OF op conjI [OF blob_types]]]
  from second obtain m where
    "log (demo_host []) ex_logger [(''blob'', PObj ''bytes'')] ex_world
       = (Inl (TypeError m), dict_set [(''blob'', PObj ''bytes'')] ''timestamp'' ?ts, ?w1)"
    by blast
  then have bad: "\<exists>m. fst (log (demo_host []) ex_logger [(''blob'', PObj ''bytes'')] ex_world)
          = Inl (TypeError m)"
    by simp
  note third = log_outcomes [where host = "demo_host []" and self = ex_logger and w = ex_world
        and ?w1.0 = ?w1 and payload = "[(''n'', PInt (10 ^ int_max_str_digits))]"
        and e = "OSError []",
        THEN conjunct2, THEN conjunct2, THEN conjunct1, rule_format,
        OF conjI [OF op conjI [OF long_types]]]
  then have long: "fst (log (demo_host []) ex_logger [(''n'', PInt (10 ^ int_max_str_digits))]
        ex_world) = Inl exceeds_limit"
    by simp
  note fourth = log_outcomes [where host = "demo_host []" and self = ex_logger and w = ex_world
        and ?w1.0 = ?w1
        and payload = "[(''n'', PInt (10 ^ int_max_str_digits)), (''blob'', PObj ''bytes'')]"
        and e = "OSError []",
        THEN conjunct2, THEN conjunct2, THEN conjunct2, THEN conjunct1, rule_format,
        OF conjI [OF op conjI [OF both_types]]]
  then have both: "(\<exists>m. fst (log (demo_host []) ex_logger
                [(''n'', PInt (10 ^ int_max_str_digits)), (''blob'', PObj ''bytes'')] ex_world)
          = Inl (TypeError m))
       \<or> fst (log (demo_host []) ex_logger
                [(''n'', PInt (10 ^ int_max_str_digits)), (''blob'', PObj ''bytes'')] ex_world)
          = Inl exceeds_limit"
    by auto
  have closed: "open_append readonly_host (log_path ex_logger) ex_world
      = (Inl (OSError ''[Errno 13] Permission denied''),
         ex_world\<lparr>trace := [OpenAppend ''/var/audit_log.jsonl'']\<rparr>)"
    by code_simp
  note first = log_outcomes [where host = readonly_host and self = ex_logger and w = ex_world
        and ?w1.0 = "ex_world\<lparr>trace := [OpenAppend ''/var/audit_log.jsonl'']\<rparr>"
        and payload = "[(''tool'', PStr ''file_read'')]"
        and e = "OSError ''[Errno 13] Permission denied''",
        THEN conjunct1, rule_format, OF closed]
  from good bad long both first show ?thesis by simp
qed

text \<open>
  Against C8 as stated: a payload with a \<^verbatim>\<open>set\<close> makes \<^verbatim>\<open>log\<close> raise \<^verbatim>\<open>TypeError\<close>;
  the log file has been opened (and so created) and no line has been written.
\<close>

theorem log_raises_on_unserializable:
  "log (demo_host []) ex_logger [(''tool'', PStr ''x''), (''handle'', PObj ''set'')] ex_world
     = (Inl (TypeError ''Object of type set is not JSON serializable''),
        [(''tool'', PStr ''x''), (''handle'', PObj ''set''),
         (''timestamp'', PStr ''1970-01-01T00:00:00.000100+00:00'')],
        ex_world\<lparr>files := [(''/data/report.txt'', ''hello''), (''/var/audit_log.jsonl'', [])],
                  trace := [OpenAppend ''/var/audit_log.jsonl'']\<rparr>)"
  by code_simp

text \<open>
  Claim C10 (\<^verbatim>\<open>log\<close> changes its argument). Whatever the outcome of the call, the
  dictionary of the caller is left as the assignment of the time stamp to the key
  \<^verbatim>\<open>timestamp\<close> makes it: that key holds the stamp, and every other entry is the one
  the caller passed, in the same order, not redacted.
\<close>

theorem log_stamps_the_callers_dict:
  "fst (snd (log host self payload w)) = dict_set payload ''timestamp'' (PStr (utcnow_iso host w))
   \<and> map_of (fst (snd (log host self payload w))) ''timestamp'' = Some (PStr (utcnow_iso host w))
   \<and> filter (\<lambda>kv. fst kv \<noteq> ''timestamp'') (fst (snd (log host self payload w)))
       = filter (\<lambda>kv. fst kv \<noteq> ''timestamp'') payload"
  by (simp add: log_payload map_of_dict_set filter_dict_set)

text \<open>
  C10 on the small host: after the call the dictionary of the caller holds the stamp and
  the secret as passed, while the line in the log file has the secret replaced.
\<close>

theorem log_stamps_the_callers_dict_witness:
  "fst (snd (log (demo_host []) ex_logger [(''msg'', PStr ''pw hunter2'')] ex_world))
     = [(''msg'', PStr ''pw hunter2''), (''timestamp'', PStr ''1970-01-01T00:00:00.000100+00:00'')]
   \<and> map_of (files (snd (snd (log (demo_host []) ex_logger [(''msg'', PStr ''pw hunter2'')] ex_world))))
         ''/var/audit_log.jsonl''
       = Some (''{\"msg\": \"pw <redacted>\", \"timestamp\": \"1970-01-01T00:00:00.000100+00:00\"}'' @ [CHR 0x0A])"
proof -
  have iso: "utcnow_iso (demo_host []) ex_world = ''1970-01-01T00:00:00.000100+00:00''"
    by (simp add: demo_host_def ex_world_def)
  have written: "map_of (files (snd (snd (log (demo_host []) ex_logger [(''msg'', PStr ''pw hunter2'')] ex_world))))
         ''/var/audit_log.jsonl''
       = Some (''{\"msg\": \"pw <redacted>\", \"timestamp\": \"1970-01-01T00:00:00.000100+00:00\"}'' @ [CHR 0x0A])"
    by code_simp
  from log_stamps_the_callers_dict [of "demo_host []" ex_logger "[(''msg'', PStr ''pw hunter2'')]" ex_world]
    iso written
  show ?thesis by simp
qed


section \<open>The skill runner\<close>

text \<open>
  Once the manifest is found, the entry point exists and defines a callable \<^verbatim>\<open>run\<close>, the
  result of \<^verbatim>\<open>SkillManager.run\<close> is that of its \<^verbatim>\<open>try\<close> statement, which has one
  outcome per outcome of the handler.
\<close>

lemma run_reaches_handler:
  assumes "registry_get (key_eq host) (manifests self) (PStr skill_name) = Some manifest"
    and "entrypoint manifest = PStr ep"
    and "path_exists host w (joinpath host (joinpath host (skills_dir self) skill_name) ep)"
    and "context_factory self w = (Inr context, w1)"
    and "read_text host (joinpath host (joinpath host (skills_dir self) skill_name) ep) w1
           = (Inr source, w2)"
    and "exec_source source w2 = (Inr namespace, w3)"
    and "namespace ''run'' = Some (Callable handler)"
  shows "run host exec_source self skill_name payload w = run_handler handler context payload w3"
  using assms by (simp add: run_def Let_def io_bind_def)

lemma run_handler_cases:
  "run_handler handler context payload w =
     (case handler context payload w of
        (Inl e, w') \<Rightarrow> if is_Exception e then (Inr (failure (exn_str e)), w') else (Inl e, w')
      | (Inr (RToolResult r), w') \<Rightarrow> (Inr r, w')
      | (Inr (RValue v), w') \<Rightarrow>
          (case json_dumps v of
             Inr s \<Rightarrow> (Inr \<lparr>success = True, output = Some s, error = None, metadata = []\<rparr>, w')
           | Inl e \<Rightarrow> (Inr (failure (exn_str e)), w')))"
proof -
  have "is_Exception e" if "json_dumps v = Inl e" for v e
    using that by (rule json_dumps_is_Exception)
  then show ?thesis
    by (auto simp: run_handler_def io_try_def io_bind_def io_return_def io_lift_def
        split: prod.splits sum.splits retval.splits)
qed

text \<open>
  Claim C5 (fault isolation and result wrapping), as the code has it. For a registered
  skill whose entry point defines a callable \<^verbatim>\<open>run\<close>: when the handler raises an exception
  that derives from \<^verbatim>\<open>Exception\<close>, the runner returns a failed result with the message as
  error; an exception outside \<^verbatim>\<open>Exception\<close> leaves the runner; a \<^verbatim>\<open>ToolResult\<close> is
  returned as it is; any other value that \<^verbatim>\<open>json.dumps\<close> encodes is wrapped into a
  successful result with the encoding as output; and a value that \<^verbatim>\<open>json.dumps\<close> does not
  encode gives a failed result with the message of that error.
\<close>

theorem skill_result_wrapping:
  assumes "registry_get (key_eq host) (manifests self) (PStr skill_name) = Some manifest"
    and "entrypoint manifest = PStr ep"
    and "path_exists host w (joinpath host (joinpath host (skills_dir self) skill_name) ep)"
    and "context_factory self w = (Inr context, w1)"
    and "read_text host (joinpath host (joinpath host (skills_dir self) skill_name) ep) w1
           = (Inr source, w2)"
    and "exec_source source w2 = (Inr namespace, w3)"
    and "namespace ''run'' = Some (Callable handler)"
  shows
    "(handler context payload w3 = (Inl e, w4) \<and> is_Exception e \<longrightarrow>
        run host exec_source self skill_name payload w
          = (Inr \<lparr>success = False, output = None, error = Some (exn_str e), metadata = []\<rparr>, w4))
     \<and> (handler context payload w3 = (Inl e, w4) \<and> \<not> is_Exception e \<longrightarrow>
        run host exec_source self skill_name payload w = (Inl e, w4))
     \<and> (handler context payload w3 = (Inr (RToolResult r), w4) \<longrightarrow>
        run host exec_source self skill_name payload w = (Inr r, w4))
     \<and> (handler context payload w3 = (Inr (RValue v), w4) \<and> json_dumps v = Inr s \<longrightarrow>
        run host exec_source self skill_name payload w
          = (Inr \<lparr>success = True, output = Some s, error = None, metadata = []\<rparr>, w4))
     \<and> (handler context payload w3 = (Inr (RValue v), w4) \<and> json_dumps v = Inl e \<longrightarrow>
        run host exec_source self skill_name payload w
          = (Inr \<lparr>success = False, output = None, error = Some (exn_str e), metadata = []\<rparr>, w4))"
proof -
  have reached: "run host exec_source self skill_name payload w
      = run_handler handler context payload w3"
    using assms by (rule run_reaches_handler)
  show ?thesis
    unfolding reached run_handler_cases by (simp add: failure_def)
qed

text \<open>
  C5 on the small host, one skill for each outcome of the handler: the skill that returns
  \<^verbatim>\<open>{"ok": True}\<close> gives a successful result with the JSON text as output, the one that
  raises \<^verbatim>\<open>RuntimeError\<close> gives a failed result, \<^verbatim>\<open>SystemExit\<close> leaves the runner, a
  returned set gives a failed result, and the result of \<^verbatim>\<open>context.read_file\<close> is
  returned as it is.
\<close>

theorem skill_result_wrapping_witness:
  "run (demo_host []) ex_exec ex_manager ''echo'' [] ex_skill_world
     = (Inr \<lparr>success = True, output = Some ''{\"ok\": true}'', error = None, metadata = []\<rparr>,
        ex_skill_world\<lparr>trace := [ReadText ''/skills/echo/skill.py'']\<rparr>)
   \<and> run (demo_host []) ex_exec ex_manager ''boom'' [] ex_skill_world
     = (Inr \<lparr>success = False, output = None, error = Some ''boom'', metadata = []\<rparr>,
        ex_skill_world\<lparr>trace := [ReadText ''/skills/boom/skill.py'']\<rparr>)
   \<and> run (demo_host []) ex_exec ex_manager ''exit'' [] ex_skill_world
     = (Inl (BaseExceptionOnly ''bye''),
        ex_skill_world\<lparr>trace := [ReadText ''/skills/exit/skill.py'']\<rparr>)
   \<and> run (demo_host []) ex_exec ex_manager ''set'' [] ex_skill_world
     = (Inr \<lparr>success = False, output = None,
             error = Some ''Object of type set is not JSON serializable'', metadata = []\<rparr>,
        ex_skill_world\<lparr>trace := [ReadText ''/skills/set/skill.py'']\<rparr>)
   \<and> fst (run (demo_host []) ex_exec ex_manager ''read'' [] ex_skill_world)
     = Inr \<lparr>success = True, output = Some ''hello'', error = None, metadata = []\<rparr>"
proof -
  let ?host = "demo_host [] :: demo_world host"
  let ?w = "\<lambda>n. ex_skill_world\<lparr>trace := [ReadText (''/skills/'' @ n @ ''/skill.py'')]\<rparr>"
  have m: "registry_get (key_eq ?host) (manifests ex_manager) (PStr ''echo'') = Some (ex_manifest ''echo'')"
    "registry_get (key_eq ?host) (manifests ex_manager) (PStr ''boom'') = Some (ex_manifest ''boom'')"
    "registry_get (key_eq ?host) (manifests ex_manager) (PStr ''exit'') = Some (ex_manifest ''exit'')"
    "registry_get (key_eq ?host) (manifests ex_manager) (PStr ''set'') = Some (ex_manifest ''set'')"
    "registry_get (key_eq ?host) (manifests ex_manager) (PStr ''read'') = Some (ex_manifest ''read'')"
    by (simp_all add: ex_manager_def demo_host_def demo_key_eq_def)
  have ep: "entrypoint (ex_manifest n) = PStr ''skill.py''" for n
    by (simp add: ex_manifest_def)
  have p: "joinpath ?host (joinpath ?host (skills_dir ex_manager) ''echo'') ''skill.py''
        = ''/skills/echo/skill.py''"
    "joinpath ?host (joinpath ?host (skills_dir ex_manager) ''boom'') ''skill.py''
        = ''/skills/boom/skill.py''"
    "joinpath ?host (joinpath ?host (skills_dir ex_manager) ''exit'') ''skill.py''
        = ''/skills/exit/skill.py''"
    "joinpath ?host (joinpath ?host (skills_dir ex_manager) ''set'') ''skill.py''
        = ''/skills/set/skill.py''"
    "joinpath ?host (joinpath ?host (skills_dir ex_manager) ''read'') ''skill.py''
        = ''/skills/read/skill.py''"
    by code_simp+
  have ex: "path_exists ?host ex_skill_world ''/skills/echo/skill.py''"
    "path_exists ?host ex_skill_world ''/skills/boom/skill.py''"
    "path_exists ?host ex_skill_world ''/skills/exit/skill.py''"
    "path_exists ?host ex_skill_world ''/skills/set/skill.py''"
    "path_exists ?host ex_skill_world ''/skills/read/skill.py''"
    by code_simp+
  have cf: "context_factory ex_manager ex_skill_world = (Inr ex_context, ex_skill_world)"
    by (simp add: ex_manager_def io_return_def)
  have rd: "read_text ?host ''/skills/echo/skill.py'' ex_skill_world = (Inr src_echo, ?w ''echo'')"
    "read_text ?host ''/skills/boom/skill.py'' ex_skill_world = (Inr src_boom, ?w ''boom'')"
    "read_text ?host ''/skills/exit/skill.py'' ex_skill_world = (Inr src_exit, ?w ''exit'')"
    "read_text ?host ''/skills/set/skill.py'' ex_skill_world = (Inr src_set, ?w ''set'')"
    "read_text ?host ''/skills/read/skill.py'' ex_skill_world = (Inr src_read, ?w ''read'')"
    by code_simp+
  have xc: "ex_exec source w = (Inr (ex_namespace source), w)" for source w
    by (simp add: ex_exec_def io_return_def)
  have ns: "ex_namespace src_echo ''run'' = Some (Callable echo_handler)"
    "ex_namespace src_boom ''run'' = Some (Callable boom_handler)"
    "ex_namespace src_exit ''run'' = Some (Callable exit_handler)"
    "ex_namespace src_set ''run'' = Some (Callable set_handler)"
    "ex_namespace src_read ''run'' = Some (Callable read_handler)"
    by (simp_all add: ex_namespace_def src_echo_def src_set_def src_boom_def src_exit_def
        src_read_def)
  have h: "echo_handler ex_context [] (?w ''echo'') = (Inr (RValue (PDict [(''ok'', PBool True)])), ?w ''echo'')"
    "boom_handler ex_context [] (?w ''boom'') = (Inl (OtherException ''boom''), ?w ''boom'')"
    "exit_handler ex_context [] (?w ''exit'') = (Inl (BaseExceptionOnly ''bye''), ?w ''exit'')"
    "set_handler ex_context [] (?w ''set'') = (Inr (RValue (PObj ''set'')), ?w ''set'')"
    by (simp_all add: echo_handler_def boom_handler_def exit_handler_def set_handler_def
        io_return_def io_raise_def)
  obtain w4 where hr: "read_handler ex_context [] (?w ''read'')
      = (Inr (RToolResult \<lparr>success = True, output = Some ''hello'', error = None, metadata = []\<rparr>), w4)"
  proof -
    have "fst (read_handler ex_context [] (?w ''read''))
      = Inr (RToolResult \<lparr>success = True, output = Some ''hello'', error = None, metadata = []\<rparr>)"
      by code_simp
    then show ?thesis using that by (cases "read_handler ex_context [] (?w ''read'')") auto
  qed
  have js: "json_dumps (PDict [(''ok'', PBool True)]) = Inr ''{\"ok\": true}''"
    "json_dumps (PObj ''set'') = Inl (TypeError ''Object of type set is not JSON serializable'')"
    by code_simp+
  note echo = skill_result_wrapping [where host = ?host and exec_source = ex_exec
      and self = ex_manager and skill_name = "''echo''" and payload = "[]" and w = ex_skill_world
      and e = "OtherException []" and r = "failure []" and ?w4.0 = "?w ''echo''"
      and v = "PDict [(''ok'', PBool True)]" and s = "''{\"ok\": true}''",
      OF m(1) ep, unfolded p, OF ex(1) cf rd(1) xc ns(1)]
  note boom = skill_result_wrapping [where host = ?host and exec_source = ex_exec
      and self = ex_manager and skill_name = "''boom''" and payload = "[]" and w = ex_skill_world
      and e = "OtherException ''boom''" and r = "failure []" and ?w4.0 = "?w ''boom''"
      and v = PNone and s = "[]",
      OF m(2) ep, unfolded p, OF ex(2) cf rd(2) xc ns(2)]
  note exit = skill_result_wrapping [where host = ?host and exec_source = ex_exec
      and self = ex_manager and skill_name = "''exit''" and payload = "[]" and w = ex_skill_world
      and e = "BaseExceptionOnly ''bye''" and r = "failure []" and ?w4.0 = "?w ''exit''"
      and v = PNone and s = "[]",
      OF m(3) ep, unfolded p, OF ex(3) cf rd(3) xc ns(3)]
  note set = skill_result_wrapping [where host = ?host and exec_source = ex_exec
      and self = ex_manager and skill_name = "''set''" and payload = "[]" and w = ex_skill_world
      and e = "TypeError ''Object of type set is not JSON serializable''" and r = "failure []"
      and ?w4.0 = "?w ''set''" and v = "PObj ''set''" and s = "[]",
      OF m(4) ep, unfolded p, OF ex(4) cf rd(4) xc ns(4)]
  note read = skill_result_wrapping [where host = ?host and exec_source = ex_exec
      and self = ex_manager and skill_name = "''read''" and payload = "[]" and w = ex_skill_world
      and e = "OtherException []"
      and r = "\<lparr>success = True, output = Some ''hello'', error = None, metadata = []\<rparr>"
      and ?w4.0 = w4 and v = PNone and s = "[]",
      OF m(5) ep, unfolded p, OF ex(5) cf rd(5) xc ns(5)]
  from echo h(1) js(1) boom h(2) exit h(3) set h(4) js(2) read hr show ?thesis by simp
qed

text \<open>
  Against C5 as stated: a skill that returns a set is not wrapped into a successful
  result, and \<^verbatim>\<open>SystemExit\<close> raised by a skill reaches the caller of the runner.
\<close>

theorem skill_result_not_wrapped:
  "fst (run (demo_host []) ex_exec ex_manager ''set'' [] ex_skill_world)
     = Inr \<lparr>success = False, output = None,
            error = Some ''Object of type set is not JSON serializable'', metadata = []\<rparr>
   \<and> fst (run (demo_host []) ex_exec ex_manager ''exit'' [] ex_skill_world)
     = Inl (BaseExceptionOnly ''bye'')"
  by code_simp

section \<open>The registry\<close>

text \<open>The loop over two lists of manifests, one after the other.\<close>

lemma load_loop_append:
  "load_loop host (xs @ ys) reg w =
     (case load_loop host xs reg w of
        (Inl e, w') \<Rightarrow> (Inl e, w')
      | (Inr reg', w') \<Rightarrow> load_loop host ys reg' w')"
proof (induction xs arbitrary: reg w)
  case Nil
  then show ?case by (simp add: io_return_def)
next
  case (Cons x xs)
  show ?case
  proof (cases "load_manifest host x w")
    case (Pair r w')
    then show ?thesis
      by (cases r) (simp_all add: io_bind_def io_raise_def Cons.IH)
  qed
qed

text \<open>
  Claim C9 (malformed manifests), as the code has it. A manifest whose text is not JSON
  makes the loop body raise the error of the decoder, one that decodes to a value that
  is not a dictionary raises \<^verbatim>\<open>TypeError\<close>, and one without a \<^verbatim>\<open>name\<close> key raises
  \<^verbatim>\<open>KeyError\<close>. When the body raises at a manifest, after the manifests before it were
  loaded, the whole loop raises that exception, whatever manifests come after: no
  registry results. A manifest that decodes to a dictionary with a name is built from it:
  the name is the value of the key, and each of the four other fields is the value of
  its key when the dictionary has the key, and otherwise its default (the empty string,
  the empty list, the empty list, and \<^verbatim>\<open>skill.py\<close>). When the name of the manifest is
  hashable the loop goes on with the manifest registered under it.
\<close>

theorem malformed_manifest_aborts_load:
  "(load_loop host before reg w = (Inr reg1, w1)
      \<and> load_manifest host manifest_path w1 = (Inl e, w2)
      \<longrightarrow> load_loop host (before @ manifest_path # after) reg w = (Inl e, w2))
   \<and> (read_text host manifest_path w = (Inr doc, w') \<and> json_loads host doc = Inl e
      \<longrightarrow> load_manifest host manifest_path w = (Inl e, w'))
   \<and> (read_text host manifest_path w = (Inr doc, w') \<and> json_loads host doc = Inr v
        \<and> (\<forall>kvs. v \<noteq> PDict kvs)
      \<longrightarrow> (\<exists>m. load_manifest host manifest_path w = (Inl (TypeError m), w')))
   \<and> (read_text host manifest_path w = (Inr doc, w') \<and> json_loads host doc = Inr (PDict kvs)
        \<and> map_of kvs ''name'' = None
      \<longrightarrow> load_manifest host manifest_path w = (Inl (KeyError ([CHR 0x27] @ ''name'' @ [CHR 0x27])), w'))
   \<and> (load_loop host before reg w = (Inr reg1, w1)
        \<and> load_manifest host manifest_path w1 = (Inr manifest, w2) \<and> hashable (name manifest)
      \<longrightarrow> load_loop host (before @ [manifest_path]) reg w
          = (Inr (registry_set (key_eq host) reg1 (name manifest) manifest), w2))
   \<and> (read_text host manifest_path w = (Inr doc, w') \<and> json_loads host doc = Inr (PDict kvs)
        \<and> map_of kvs ''name'' = Some n
      \<longrightarrow> load_manifest host manifest_path w
          = (Inr \<lparr>name = n,
                  description =
                    (case map_of kvs ''description'' of None \<Rightarrow> PStr [] | Some x \<Rightarrow> x),
                  required_permissions =
                    (case map_of kvs ''required_permissions'' of None \<Rightarrow> PList [] | Some x \<Rightarrow> x),
                  tools = (case map_of kvs ''tools'' of None \<Rightarrow> PList [] | Some x \<Rightarrow> x),
                  entrypoint =
                    (case map_of kvs ''entrypoint'' of None \<Rightarrow> PStr ''skill.py'' | Some x \<Rightarrow> x)\<rparr>,
             w'))"
proof -
  have not_dict: "read_text host manifest_path w = (Inr doc, w') \<and> json_loads host doc = Inr v
        \<and> (\<forall>kvs. v \<noteq> PDict kvs)
      \<longrightarrow> (\<exists>m. load_manifest host manifest_path w = (Inl (TypeError m), w'))"
    by (cases v)
      (simp_all add: load_manifest_def build_manifest_def getitem_def io_bind_def io_lift_def)
  have rest: "(load_loop host before reg w = (Inr reg1, w1)
      \<and> load_manifest host manifest_path w1 = (Inl e, w2)
      \<longrightarrow> load_loop host (before @ manifest_path # after) reg w = (Inl e, w2))
   \<and> (read_text host manifest_path w = (Inr doc, w') \<and> json_loads host doc = Inl e
      \<longrightarrow> load_manifest host manifest_path w = (Inl e, w'))
   \<and> (read_text host manifest_path w = (Inr doc, w') \<and> json_loads host doc = Inr (PDict kvs)
        \<and> map_of kvs ''name'' = None
      \<longrightarrow> load_manifest host manifest_path w = (Inl (KeyError ([CHR 0x27] @ ''name'' @ [CHR 0x27])), w'))
   \<and> (load_loop host before reg w = (Inr reg1, w1)
        \<and> load_manifest host manifest_path w1 = (Inr manifest, w2) \<and> hashable (name manifest)
      \<longrightarrow> load_loop host (before @ [manifest_path]) reg w
          = (Inr (registry_set (key_eq host) reg1 (name manifest) manifest), w2))
   \<and> (read_text host manifest_path w = (Inr doc, w') \<and> json_loads host doc = Inr (PDict kvs)
        \<and> map_of kvs ''name'' = Some n
      \<longrightarrow> load_manifest host manifest_path w
          = (Inr \<lparr>name = n,
                  description =
                    (case map_of kvs ''description'' of None \<Rightarrow> PStr [] | Some x \<Rightarrow> x),
                  required_permissions =
                    (case map_of kvs ''required_permissions'' of None \<Rightarrow> PList [] | Some x \<Rightarrow> x),
                  tools = (case map_of kvs ''tools'' of None \<Rightarrow> PList [] | Some x \<Rightarrow> x),
                  entrypoint =
                    (case map_of kvs ''entrypoint'' of None \<Rightarrow> PStr ''skill.py'' | Some x \<Rightarrow> x)\<rparr>,
             w'))"
    by (simp add: load_loop_append load_manifest_def build_manifest_def getitem_def dict_get_def
        io_bind_def io_lift_def io_return_def io_raise_def)
  from not_dict rest show ?thesis by blast
qed

text \<open>
  C9 on the small host: with a manifest that is not JSON between two well-formed ones the
  loop raises after reading the first two files; a manifest without a name raises
  \<^verbatim>\<open>KeyError\<close>; a manifest that gives its name only is built with the four defaults, and
  one that gives every key is built with the values it gives; a directory with one
  well-formed manifest loads.
\<close>

theorem malformed_manifest_aborts_load_witness:
  "load_loop (demo_host ex_documents)
      ([''/skills/echo/manifest.json''] @ ''/skills/broken/manifest.json'' # [''/skills/last/manifest.json''])
      [] ex_manifest_world
     = (Inl (ValueError ''Expecting value''),
        ex_manifest_world\<lparr>trace := [ReadText ''/skills/echo/manifest.json'',
                                     ReadText ''/skills/broken/manifest.json'']\<rparr>)
   \<and> load_manifest (demo_host ex_documents) ''/skills/nameless/manifest.json'' ex_nameless_world
     = (Inl (KeyError ([CHR 0x27] @ ''name'' @ [CHR 0x27])),
        ex_nameless_world\<lparr>trace := [ReadText ''/skills/nameless/manifest.json'']\<rparr>)
   \<and> load_manifest (demo_host ex_documents) ''/skills/echo/manifest.json'' ex_good_world
     = (Inr \<lparr>name = PStr ''echo'', description = PStr [], required_permissions = PList [],
             tools = PList [], entrypoint = PStr ''skill.py''\<rparr>,
        ex_good_world\<lparr>trace := [ReadText ''/skills/echo/manifest.json'']\<rparr>)
   \<and> load_manifest (demo_host ex_documents) ''/skills/full/manifest.json'' ex_full_world
     = (Inr \<lparr>name = PStr ''full'', description = PStr ''All keys'',
             required_permissions = PList [PStr ''file_read''], tools = PList [PStr ''read''],
             entrypoint = PStr ''main.py''\<rparr>,
        ex_full_world\<lparr>trace := [ReadText ''/skills/full/manifest.json'']\<rparr>)
   \<and> (\<exists>m. load_manifest (demo_host [PList []]) ''/skills/full/manifest.json''
               (ex_world\<lparr>files := [(''/skills/full/manifest.json'', ''[]'')]\<rparr>)
          = (Inl (TypeError m),
             ex_world\<lparr>files := [(''/skills/full/manifest.json'', ''[]'')],
                       trace := [ReadText ''/skills/full/manifest.json'']\<rparr>))
   \<and> load_loop (demo_host ex_documents) ([] @ [''/skills/echo/manifest.json'']) [] ex_good_world
     = (Inr [(PStr ''echo'', \<lparr>name = PStr ''echo'', description = PStr [],
                required_permissions = PList [], tools = PList [], entrypoint = PStr ''skill.py''\<rparr>)],
        ex_good_world\<lparr>trace := [ReadText ''/skills/echo/manifest.json'']\<rparr>)"
proof -
  let ?host = "demo_host ex_documents"
  let ?echo = "\<lparr>name = PStr ''echo'', description = PStr [],
                required_permissions = PList [], tools = PList [], entrypoint = PStr ''skill.py''\<rparr>"
  let ?w1 = "ex_manifest_world\<lparr>trace := [ReadText ''/skills/echo/manifest.json'']\<rparr>"
  let ?w2 = "ex_manifest_world\<lparr>trace := [ReadText ''/skills/echo/manifest.json'',
                                     ReadText ''/skills/broken/manifest.json'']\<rparr>"
  let ?wn = "ex_nameless_world\<lparr>trace := [ReadText ''/skills/nameless/manifest.json'']\<rparr>"
  let ?wg = "ex_good_world\<lparr>trace := [ReadText ''/skills/echo/manifest.json'']\<rparr>"
  let ?wf = "ex_full_world\<lparr>trace := [ReadText ''/skills/full/manifest.json'']\<rparr>"
  let ?wl = "ex_world\<lparr>files := [(''/skills/full/manifest.json'', ''[]'')]\<rparr>"
  let ?wl' = "ex_world\<lparr>files := [(''/skills/full/manifest.json'', ''[]'')],
                        trace := [ReadText ''/skills/full/manifest.json'']\<rparr>"
  let ?full_text = "''{\"name\": \"full\", \"description\": \"All keys\", \"required_permissions\": [\"file_read\"], ''
        @ ''\"tools\": [\"read\"], \"entrypoint\": \"main.py\"}''"
  note main = malformed_manifest_aborts_load [where host = ?host]
  have first: "load_loop ?host [''/skills/echo/manifest.json''] [] ex_manifest_world
      = (Inr [(PStr ''echo'', ?echo)], ?w1)"
    by code_simp
  have read_broken: "read_text ?host ''/skills/broken/manifest.json'' ?w1 = (Inr ''{not json'', ?w2)"
    by code_simp
  have not_json: "json_loads ?host ''{not json'' = Inl (ValueError ''Expecting value'')"
    by code_simp
  note broken = main [where w = ?w1 and manifest_path = "''/skills/broken/manifest.json''"
      and doc = "''{not json''" and w' = ?w2 and e = "ValueError ''Expecting value''",
      THEN conjunct2, THEN conjunct1, rule_format, OF conjI [OF read_broken not_json]]
  note aborted = main [where before = "[''/skills/echo/manifest.json'']" and reg = "[]"
      and w = ex_manifest_world and ?reg1.0 = "[(PStr ''echo'', ?echo)]" and ?w1.0 = ?w1
      and manifest_path = "''/skills/broken/manifest.json''" and e = "ValueError ''Expecting value''"
      and ?w2.0 = ?w2 and after = "[''/skills/last/manifest.json'']",
      THEN conjunct1, rule_format, OF conjI [OF first broken]]
  have read_list: "read_text (demo_host [PList []]) ''/skills/full/manifest.json'' ?wl
      = (Inr ''[]'', ?wl')"
    by code_simp
  have a_list: "json_loads (demo_host [PList []]) ''[]'' = Inr (PList [])"
    by code_simp
  have no_dict: "\<forall>kvs. PList [] \<noteq> PDict kvs"
    by simp
  note listed = malformed_manifest_aborts_load [where host = "demo_host [PList []]" and w = ?wl
      and manifest_path = "''/skills/full/manifest.json''" and doc = "''[]''" and w' = ?wl'
      and v = "PList []",
      THEN conjunct2, THEN conjunct2, THEN conjunct1, rule_format,
      OF conjI [OF read_list conjI [OF a_list no_dict]]]
  have read_nameless: "read_text ?host ''/skills/nameless/manifest.json'' ex_nameless_world
      = (Inr ''{\"description\": \"no name\"}'', ?wn)"
    by code_simp
  have no_name: "json_loads ?host ''{\"description\": \"no name\"}''
      = Inr (PDict [(''description'', PStr ''no name'')])"
    by code_simp
  have absent: "map_of [(''description'', PStr ''no name'')] ''name'' = None"
    by simp
  note nameless = main [where w = ex_nameless_world
      and manifest_path = "''/skills/nameless/manifest.json''"
      and doc = "''{\"description\": \"no name\"}''" and w' = ?wn
      and kvs = "[(''description'', PStr ''no name'')]",
      THEN conjunct2, THEN conjunct2, THEN conjunct2, THEN conjunct1, rule_format,
      OF conjI [OF read_nameless conjI [OF no_name absent]]]
  have read_good: "read_text ?host ''/skills/echo/manifest.json'' ex_good_world
      = (Inr ''{\"name\": \"echo\"}'', ?wg)"
    by code_simp
  have named: "json_loads ?host ''{\"name\": \"echo\"}'' = Inr (PDict [(''name'', PStr ''echo'')])"
    by code_simp
  have present: "map_of [(''name'', PStr ''echo'')] ''name'' = Some (PStr ''echo'')"
    by simp
  note built = main [where w = ex_good_world and manifest_path = "''/skills/echo/manifest.json''"
      and doc = "''{\"name\": \"echo\"}''" and w' = ?wg and kvs = "[(''name'', PStr ''echo'')]"
      and n = "PStr ''echo''",
      THEN conjunct2, THEN conjunct2, THEN conjunct2, THEN conjunct2, THEN conjunct2, rule_format,
      OF conjI [OF read_good conjI [OF named present]]]
  then have good: "load_manifest ?host ''/skills/echo/manifest.json'' ex_good_world = (Inr ?echo, ?wg)"
    by simp
  have read_full: "read_text ?host ''/skills/full/manifest.json'' ex_full_world
      = (Inr ?full_text, ?wf)"
    by code_simp
  have full: "json_loads ?host ?full_text = Inr (PDict ex_full_document)"
    by code_simp
  have full_name: "map_of ex_full_document ''name'' = Some (PStr ''full'')"
    by (simp add: ex_full_document_def)
  note built_full = main [where w = ex_full_world and manifest_path = "''/skills/full/manifest.json''"
      and doc = ?full_text and w' = ?wf and kvs = ex_full_document and n = "PStr ''full''",
      THEN conjunct2, THEN conjunct2, THEN conjunct2, THEN conjunct2, THEN conjunct2, rule_format,
      OF conjI [OF read_full conjI [OF full full_name]]]
  then have whole: "load_manifest ?host ''/skills/full/manifest.json'' ex_full_world
     = (Inr \<lparr>name = PStr ''full'', description = PStr ''All keys'',
             required_permissions = PList [PStr ''file_read''], tools = PList [PStr ''read''],
             entrypoint = PStr ''main.py''\<rparr>, ?wf)"
    by (simp add: ex_full_document_def)
  have none: "load_loop ?host [] [] ex_good_world = (Inr [], ex_good_world)"
    by (simp add: io_return_def)
  have hashable_name: "hashable (name ?echo)"
    by simp
  note loaded = main [where before = "[]" and reg = "[]" and w = ex_good_world
      and ?reg1.0 = "[]" and ?w1.0 = ex_good_world
      and manifest_path = "''/skills/echo/manifest.json''" and manifest = ?echo and ?w2.0 = ?wg,
      THEN conjunct2, THEN conjunct2, THEN conjunct2, THEN conjunct2, THEN conjunct1, rule_format,
      OF conjI [OF none conjI [OF good hashable_name]]]
  from aborted nameless good whole listed loaded show ?thesis by simp
qed

text \<open>
  Against C9 as stated: the load of a directory that holds a malformed manifest beside
  well-formed ones does not complete; it raises, for text that is not JSON and for a
  manifest without a name.
\<close>

theorem malformed_manifest_load_raises:
  "fst (load_manifests (demo_host ex_documents) ''/skills'' ex_manifest_world)
     = Inl (ValueError ''Expecting value'')
   \<and> fst (load_manifests (demo_host ex_documents) ''/skills'' ex_nameless_world)
     = Inl (KeyError ([CHR 0x27] @ ''name'' @ [CHR 0x27]))"
  by code_simp

end
